theory Spec2Isabelle
  imports Complex_Main "HOL-Library.Multiset" "HOL-Library.Char_ord" "HOL-Library.List_Lexorder"
begin

section \<open>Numeric types of the Go sources\<close>

text \<open>
  \<^verbatim>\<open>decimal.Decimal\<close> (the shopspring library) is an arbitrary-precision decimal whose
  \<^verbatim>\<open>Add\<close>, \<^verbatim>\<open>Sub\<close> and \<^verbatim>\<open>Mul\<close> are exact. A \<^verbatim>\<open>float64\<close> is stored, compared, added and
  multiplied by the code below. Both are modelled by exact real numbers, so the rounding of
  the binary representation and the values NaN and infinity are outside the model. A
  \<^verbatim>\<open>uuid.UUID\<close> is modelled by a natural number, \<^verbatim>\<open>uuid.Nil\<close> by 0, a \<^verbatim>\<open>time.Time\<close> by a
  natural number as well.
\<close>

type_synonym decimal = real
type_synonym float64 = real
type_synonym uuid = nat
type_synonym time = nat

text \<open>
  \<^verbatim>\<open>Decimal.Round(places)\<close> of the library rounds half away from zero to the given number of
  fractional digits.
\<close>

definition decRound :: "nat \<Rightarrow> decimal \<Rightarrow> decimal" where
  "decRound places d =
     (let x = d * 10 ^ places
      in (if 0 \<le> x then of_int \<lfloor>x + 1 / 2\<rfloor> else - of_int \<lfloor>- x + 1 / 2\<rfloor>) / 10 ^ places)"

text \<open>\<^verbatim>\<open>Decimal.Div\<close> keeps 16 fractional digits (\<^verbatim>\<open>DivisionPrecision\<close>).\<close>

definition decDiv :: "decimal \<Rightarrow> decimal \<Rightarrow> decimal" where
  "decDiv a b = decRound 16 (a / b)"

section \<open>Tiered pricing (db/clickhouse/store.go)\<close>

text \<open>\<^verbatim>\<open>TieredRate\<close>: \<^verbatim>\<open>Max\<close> is a pointer, \<^verbatim>\<open>nil\<close> for the unbounded tier.\<close>

record TieredRate =
  tr_Min :: decimal
  tr_Max :: "decimal option"
  tr_Price :: decimal
  tr_Confidence :: float64

text \<open>The quantity one tier takes from the usage that is still unassigned.\<close>

definition tierUsage :: "TieredRate \<Rightarrow> decimal \<Rightarrow> decimal" where
  "tierUsage tier remaining =
     (case tr_Max tier of
        None \<Rightarrow> remaining
      | Some mx \<Rightarrow>
          (let tierSize = mx - tr_Min tier
           in if remaining > tierSize then tierSize else remaining))"

text \<open>
  The \<^verbatim>\<open>for _, tier := range tiers\<close> loop of \<^verbatim>\<open>CalculateTieredCost\<close>, with the three
  loop variables \<^verbatim>\<open>totalCost\<close>, \<^verbatim>\<open>remaining\<close> and \<^verbatim>\<open>minConfidence\<close> passed along. The
  tiers arrive in the order of the query of \<^verbatim>\<open>ResolveTieredRates\<close>
  (\<^verbatim>\<open>ORDER BY pr.tier_min NULLS FIRST\<close>).
\<close>

fun tieredLoop :: "TieredRate list \<Rightarrow> decimal \<Rightarrow> decimal \<Rightarrow> float64 \<Rightarrow> decimal \<times> float64" where
  "tieredLoop [] totalCost remaining minConfidence = (totalCost, minConfidence)"
| "tieredLoop (tier # tiers) totalCost remaining minConfidence =
     (if remaining \<le> 0 then (totalCost, minConfidence)
      else
        (let tu = tierUsage tier remaining;
             tierCost = tu * tr_Price tier
         in tieredLoop tiers (totalCost + tierCost) (remaining - tu)
              (if tr_Confidence tier < minConfidence then tr_Confidence tier else minConfidence)))"

definition CalculateTieredCost :: "decimal \<Rightarrow> TieredRate list \<Rightarrow> decimal \<times> float64" where
  "CalculateTieredCost usage tiers =
     (if length tiers = 0 then (0, 0) else tieredLoop tiers 0 usage 1)"

subsection \<open>The tier rule in the words of the specification\<close>

text \<open>
  The specification's rule, written independently of the code above, to compare the code
  with: usage is consumed against the tiers one after the other; a bounded tier takes what
  is left, up to \<open>tier_max - tier_min\<close>; what it does not take passes to the next tier; an
  unbounded tier takes all that is left. \<open>specQuantities\<close> lists the quantity of every tier
  that is reached while usage is left, \<open>specTouched\<close> those tiers.
\<close>

fun specQuantities :: "TieredRate list \<Rightarrow> decimal \<Rightarrow> decimal list" where
  "specQuantities [] remaining = []"
| "specQuantities (t # ts) remaining =
     (if remaining \<le> 0 then []
      else
        (let q = (case tr_Max t of
                    None \<Rightarrow> remaining
                  | Some mx \<Rightarrow> min remaining (mx - tr_Min t))
         in q # specQuantities ts (remaining - q)))"

definition specTouched :: "TieredRate list \<Rightarrow> decimal \<Rightarrow> TieredRate list" where
  "specTouched tiers usage = take (length (specQuantities tiers usage)) tiers"

text \<open>
  The specification's result: the tiers are taken in ascending order of their lower bound,
  the cost is the sum of quantity times price, and the confidence is the minimum confidence
  over the tiers touched.
\<close>

definition specTieredCost :: "decimal \<Rightarrow> TieredRate list \<Rightarrow> decimal \<times> float64" where
  "specTieredCost usage tiers =
     (let ascending = sort_key tr_Min tiers
      in (\<Sum>(q, t)\<leftarrow>zip (specQuantities ascending usage) ascending. q * tr_Price t,
          Min (tr_Confidence ` set (specTouched ascending usage))))"
section \<open>Billing components (package billing)\<close>

text \<open>
  \<^verbatim>\<open>VarianceProfile\<close> and \<^verbatim>\<open>BillingComponent\<close> of the billing semantic engine. A
  \<^verbatim>\<open>map[string]string\<close> is a list of key and value pairs. The component type of this package
  has no field for a mapping error: errors are collected in a list of their own.
\<close>

record VarianceProfile =
  vp_BaselineUsage :: float64
  vp_MinUsage :: float64
  vp_MaxUsage :: float64
  vp_P50Usage :: float64
  vp_P90Usage :: float64
  vp_Confidence :: float64
  vp_VolatilityScore :: float64
  vp_Assumptions :: "string list"

record BillingComponent =
  bc_ID :: string
  bc_ResourceAddr :: string
  bc_Cloud :: string
  bc_Service :: string
  bc_ProductFamily :: string
  bc_Region :: string
  bc_UsageType :: string
  bc_BillingPeriod :: string
  bc_Attributes :: "(string \<times> string) list"
  bc_VarianceProfile :: VarianceProfile
  bc_Description :: string
  bc_Tags :: "string list"
  bc_DependsOn :: "string list"

record MappingError =
  me_ResourceAddr :: string
  me_ResourceType :: string
  me_Reason :: string
  me_IsCritical :: bool

section \<open>The cost and carbon estimation engine (package estimation)\<close>

text \<open>\<^verbatim>\<open>ResolvedRate\<close>, the answer of the pricing store.\<close>

record ResolvedRate =
  rr_Price :: decimal
  rr_Currency :: string
  rr_Confidence :: float64
  rr_TierMin :: "decimal option"
  rr_TierMax :: "decimal option"
  rr_SnapshotID :: uuid
  rr_Source :: string

text \<open>
  The pricing store reached through \<^verbatim>\<open>e.pricingStore.ResolveRate\<close> is a database; the engine
  sees it as a function of the arguments of the call (cloud, service, product family,
  region, attributes, unit, alias). Its answer is an error message, \<^verbatim>\<open>nil\<close> for no row
  (\<^verbatim>\<open>sql.ErrNoRows\<close>), or a rate.
\<close>

type_synonym pricingStore =
  "string \<Rightarrow> string \<Rightarrow> string \<Rightarrow> string \<Rightarrow> (string \<times> string) list \<Rightarrow> string \<Rightarrow> string
     \<Rightarrow> string + ResolvedRate option"

text \<open>The carbon store: \<^verbatim>\<open>GetIntensity(ctx, cloud, region)\<close>; the engine's field may be \<^verbatim>\<open>nil\<close>.\<close>

type_synonym carbonStore = "string \<Rightarrow> string \<Rightarrow> string + float64"

record Engine =
  en_pricingStore :: pricingStore
  en_carbonStore :: "carbonStore option"

record EstimationRequest =
  rq_Components :: "BillingComponent list"
  rq_Environment :: string
  rq_PricingAlias :: string
  rq_IncludeCarbon :: bool
  rq_IncludeFormulas :: bool

text \<open>
  \<^verbatim>\<open>CostDriver\<close>. The field \<^verbatim>\<open>Formula\<close>, a text printed from the other fields when the request
  asks for it, is left out.
\<close>

record CostDriver =
  cd_ID :: string
  cd_ComponentID :: string
  cd_ResourceAddr :: string
  cd_Cloud :: string
  cd_Service :: string
  cd_ProductFamily :: string
  cd_Region :: string
  cd_Description :: string
  cd_MonthlyCostP50 :: decimal
  cd_MonthlyCostP90 :: decimal
  cd_UnitPrice :: decimal
  cd_UsageP50 :: float64
  cd_UsageP90 :: float64
  cd_UsageUnit :: string
  cd_CarbonKgCO2 :: float64
  cd_Confidence :: float64
  cd_IsSymbolic :: bool
  cd_Reason :: string
  cd_SnapshotID :: uuid
  cd_Source :: string

record EstimationError =
  ee_ComponentID :: string
  ee_ResourceAddr :: string
  ee_Message :: string
  ee_IsCritical :: bool

record AuditTrail =
  at_EstimatedAt :: time
  at_Environment :: string
  at_PricingAlias :: string
  at_SnapshotsUsed :: "string \<rightharpoonup> uuid"

text \<open>
  \<^verbatim>\<open>EstimationResult\<close>. The warnings are texts; the one that prints the number of unpriced
  components is kept as that number.
\<close>

datatype EstimationWarning =
    ComponentsCouldNotBePriced nat
  | TotalsMayBeIncomplete

record EstimationResult =
  er_MonthlyCostP50 :: decimal
  er_MonthlyCostP90 :: decimal
  er_HourlyCostP50 :: decimal
  er_CarbonKgCO2 :: float64
  er_CarbonByRegion :: "string \<rightharpoonup> float64"
  er_CostDrivers :: "CostDriver list"
  er_Confidence :: float64
  er_IsIncomplete :: bool
  er_Errors :: "EstimationError list"
  er_Warnings :: "EstimationWarning list"
  er_AuditTrail :: AuditTrail
  er_ComponentsProcessed :: nat
  er_ComponentsEstimated :: nat
  er_ComponentsSymbolic :: nat

text \<open>The zero value of \<^verbatim>\<open>CostDriver\<close>, from which the composite literals start.\<close>

definition zeroCostDriver :: CostDriver where
  "zeroCostDriver =
     \<lparr>cd_ID = [], cd_ComponentID = [], cd_ResourceAddr = [], cd_Cloud = [], cd_Service = [],
      cd_ProductFamily = [], cd_Region = [], cd_Description = [], cd_MonthlyCostP50 = 0,
      cd_MonthlyCostP90 = 0, cd_UnitPrice = 0, cd_UsageP50 = 0, cd_UsageP90 = 0,
      cd_UsageUnit = [], cd_CarbonKgCO2 = 0, cd_Confidence = 0, cd_IsSymbolic = False,
      cd_Reason = [], cd_SnapshotID = 0, cd_Source = []\<rparr>"

definition billingPeriodToUnit :: "string \<Rightarrow> string" where
  "billingPeriodToUnit period =
     (if period = ''hourly'' then ''hours''
      else if period = ''monthly'' then ''GB-month''
      else if period = ''per_request'' then ''requests''
      else if period = ''per_gb'' then ''GB''
      else ''units'')"

definition min_float :: "float64 \<Rightarrow> float64 \<Rightarrow> float64" where
  "min_float a b = (if a < b then a else b)"

definition estimateCarbonForComponent :: "BillingComponent \<Rightarrow> float64 \<Rightarrow> float64" where
  "estimateCarbonForComponent component intensityGCO2 =
     (let powerKw =
            (if bc_Service component = ''AmazonEC2'' then 1 / 10
             else if bc_Service component = ''AmazonRDS'' then 2 / 10
             else if bc_Service component = ''AWSLambda'' then 1 / 100
             else 5 / 100);
          hoursPerMonth = 730;
          energyKwh = powerKw * hoursPerMonth
      in energyKwh * intensityGCO2 / 1000)"

text \<open>The call \<^verbatim>\<open>e.pricingStore.ResolveRate(...)\<close> made for a component.\<close>

definition storeAnswer ::
  "Engine \<Rightarrow> EstimationRequest \<Rightarrow> BillingComponent \<Rightarrow> string + ResolvedRate option" where
  "storeAnswer e req component =
     en_pricingStore e (bc_Cloud component) (bc_Service component) (bc_ProductFamily component)
       (bc_Region component) (bc_Attributes component)
       (billingPeriodToUnit (bc_BillingPeriod component)) (rq_PricingAlias req)"

text \<open>
  \<^verbatim>\<open>estimateComponent\<close> returns a driver and an error. An error of the pricing store comes
  back wrapped (\<^verbatim>\<open>Inl\<close>, with the driver built so far, which the caller discards); no row
  gives a driver marked symbolic and no error.
\<close>

definition estimateComponent ::
  "Engine \<Rightarrow> BillingComponent \<Rightarrow> EstimationRequest \<Rightarrow> (CostDriver \<times> string) + CostDriver" where
  "estimateComponent e component req =
     (let driver = zeroCostDriver
            \<lparr>cd_ID := ''driver-'' @ bc_ID component,
             cd_ComponentID := bc_ID component,
             cd_ResourceAddr := bc_ResourceAddr component,
             cd_Cloud := bc_Cloud component,
             cd_Service := bc_Service component,
             cd_ProductFamily := bc_ProductFamily component,
             cd_Region := bc_Region component,
             cd_Description := bc_Description component,
             cd_UsageP50 := vp_P50Usage (bc_VarianceProfile component),
             cd_UsageP90 := vp_P90Usage (bc_VarianceProfile component),
             cd_Confidence := vp_Confidence (bc_VarianceProfile component)\<rparr>
      in case storeAnswer e req component of
           Inl err \<Rightarrow> Inl (driver, ''pricing resolution failed: '' @ err)
         | Inr None \<Rightarrow>
             Inr (driver\<lparr>cd_IsSymbolic := True, cd_Reason := ''no pricing data available''\<rparr>)
         | Inr (Some rate) \<Rightarrow>
             (let driver1 = driver
                    \<lparr>cd_UnitPrice := rr_Price rate,
                     cd_SnapshotID := rr_SnapshotID rate,
                     cd_Source := rr_Source rate,
                     cd_Confidence := min_float (cd_Confidence driver) (rr_Confidence rate)\<rparr>;
                  usageP50 = vp_P50Usage (bc_VarianceProfile component);
                  usageP90 = vp_P90Usage (bc_VarianceProfile component);
                  driver2 = driver1
                    \<lparr>cd_MonthlyCostP50 := decRound 4 (rr_Price rate * usageP50),
                     cd_MonthlyCostP90 := decRound 4 (rr_Price rate * usageP90),
                     cd_UsageUnit := billingPeriodToUnit (bc_BillingPeriod component)\<rparr>
              in Inr
                   (if rq_IncludeCarbon req then
                      (case en_carbonStore e of
                         None \<Rightarrow> driver2
                       | Some getIntensity \<Rightarrow>
                           (case getIntensity (bc_Cloud component) (bc_Region component) of
                              Inl err \<Rightarrow> driver2
                            | Inr carbonIntensity \<Rightarrow>
                                if carbonIntensity > 0
                                then driver2\<lparr>cd_CarbonKgCO2 :=
                                       estimateCarbonForComponent component carbonIntensity\<rparr>
                                else driver2))
                    else driver2)))"

definition createSymbolicDriver :: "BillingComponent \<Rightarrow> string \<Rightarrow> CostDriver" where
  "createSymbolicDriver component reason =
     zeroCostDriver
       \<lparr>cd_ID := ''driver-'' @ bc_ID component,
        cd_ComponentID := bc_ID component,
        cd_ResourceAddr := bc_ResourceAddr component,
        cd_Cloud := bc_Cloud component,
        cd_Service := bc_Service component,
        cd_ProductFamily := bc_ProductFamily component,
        cd_Region := bc_Region component,
        cd_Description := bc_Description component,
        cd_MonthlyCostP50 := 0,
        cd_MonthlyCostP90 := 0,
        cd_Confidence := 0,
        cd_IsSymbolic := True,
        cd_Reason := reason\<rparr>"

text \<open>
  The driver the loop of \<^verbatim>\<open>Estimate\<close> works with for one component, and whether
  \<^verbatim>\<open>estimateComponent\<close> returned an error for it.
\<close>

definition componentDriver ::
  "Engine \<Rightarrow> EstimationRequest \<Rightarrow> BillingComponent \<Rightarrow> CostDriver \<times> string option" where
  "componentDriver e req component =
     (case estimateComponent e component req of
        Inl (d, msg) \<Rightarrow> (createSymbolicDriver component msg, Some msg)
      | Inr d \<Rightarrow> (d, None))"

text \<open>
  One round of the loop \<^verbatim>\<open>for _, comp := range req.Components\<close>; the state is the result
  under construction and the local \<^verbatim>\<open>minConfidence\<close>.
\<close>

definition estimateStep ::
  "Engine \<Rightarrow> EstimationRequest \<Rightarrow> BillingComponent \<Rightarrow> EstimationResult \<times> float64
     \<Rightarrow> EstimationResult \<times> float64" where
  "estimateStep e req component st =
     (let result = fst st; minConfidence = snd st;
          result1 = result\<lparr>er_ComponentsProcessed := er_ComponentsProcessed result + 1\<rparr>;
          (driver, err) = componentDriver e req component;
          result2 =
            (case err of
               None \<Rightarrow> result1
             | Some msg \<Rightarrow>
                 result1
                   \<lparr>er_Errors := er_Errors result1 @
                      [\<lparr>ee_ComponentID = bc_ID component, ee_ResourceAddr = bc_ResourceAddr component,
                        ee_Message = msg, ee_IsCritical = False\<rparr>],
                    er_ComponentsSymbolic := er_ComponentsSymbolic result1 + 1\<rparr>);
          result3 = result2
            \<lparr>er_MonthlyCostP50 := er_MonthlyCostP50 result2 + cd_MonthlyCostP50 driver,
             er_MonthlyCostP90 := er_MonthlyCostP90 result2 + cd_MonthlyCostP90 driver,
             er_CarbonKgCO2 := er_CarbonKgCO2 result2 + cd_CarbonKgCO2 driver\<rparr>;
          result4 =
            (if cd_Region driver \<noteq> [] \<and> cd_CarbonKgCO2 driver > 0
             then result3\<lparr>er_CarbonByRegion := (er_CarbonByRegion result3)
                    (cd_Region driver \<mapsto>
                       (case er_CarbonByRegion result3 (cd_Region driver) of
                          None \<Rightarrow> 0 | Some c \<Rightarrow> c) + cd_CarbonKgCO2 driver)\<rparr>
             else result3);
          minConfidence1 =
            (if cd_Confidence driver < minConfidence then cd_Confidence driver
             else minConfidence);
          result5 =
            (if cd_SnapshotID driver \<noteq> 0
             then result4\<lparr>er_AuditTrail := (er_AuditTrail result4)
                    \<lparr>at_SnapshotsUsed := (at_SnapshotsUsed (er_AuditTrail result4))
                       (cd_Region driver \<mapsto> cd_SnapshotID driver)\<rparr>\<rparr>
             else result4);
          result6 =
            (if \<not> cd_IsSymbolic driver
             then result5\<lparr>er_ComponentsEstimated := er_ComponentsEstimated result5 + 1\<rparr>
             else result5)
      in (result6\<lparr>er_CostDrivers := er_CostDrivers result6 @ [driver]\<rparr>, minConfidence1))"

fun estimateLoop ::
  "Engine \<Rightarrow> EstimationRequest \<Rightarrow> BillingComponent list \<Rightarrow> EstimationResult \<times> float64
     \<Rightarrow> EstimationResult \<times> float64" where
  "estimateLoop e req [] st = st"
| "estimateLoop e req (component # components) st = estimateLoop e req components (estimateStep e req component st)"

text \<open>
  \<^verbatim>\<open>sort.Slice\<close> with the comparison \<^verbatim>\<open>xs[i].key > xs[j].key\<close>. On a slice of at most 12
  elements the library runs an insertion sort: each element in turn is swapped with its
  left neighbour as long as the comparison puts it before that neighbour, so elements of
  equal key keep the order they arrive in. \<open>moveLeft\<close> is that inner loop on the part
  already sorted, held last element first. On a longer slice the library runs a
  pattern-defeating quicksort, which sorts by the same comparison but may leave elements of
  equal key in another order; the model runs the insertion sort for every length, so for
  more than 12 elements it fixes the result up to the order among equal keys only.
\<close>

fun moveLeft :: "('a \<Rightarrow> real) \<Rightarrow> 'a \<Rightarrow> 'a list \<Rightarrow> 'a list" where
  "moveLeft key d [] = [d]"
| "moveLeft key d (p # ps) =
     (if key p < key d then p # moveLeft key d ps else d # p # ps)"

definition sortSliceDesc :: "('a \<Rightarrow> real) \<Rightarrow> 'a list \<Rightarrow> 'a list" where
  "sortSliceDesc key xs = rev (fold (moveLeft key) xs [])"

definition sortDrivers :: "CostDriver list \<Rightarrow> CostDriver list" where
  "sortDrivers ds = sortSliceDesc cd_MonthlyCostP50 ds"

definition initialResult :: "time \<Rightarrow> EstimationRequest \<Rightarrow> EstimationResult" where
  "initialResult now req =
     \<lparr>er_MonthlyCostP50 = 0, er_MonthlyCostP90 = 0, er_HourlyCostP50 = 0, er_CarbonKgCO2 = 0,
      er_CarbonByRegion = Map.empty, er_CostDrivers = [], er_Confidence = 1,
      er_IsIncomplete = False, er_Errors = [], er_Warnings = [],
      er_AuditTrail = \<lparr>at_EstimatedAt = now, at_Environment = rq_Environment req,
                       at_PricingAlias = rq_PricingAlias req, at_SnapshotsUsed = Map.empty\<rparr>,
      er_ComponentsProcessed = 0, er_ComponentsEstimated = 0, er_ComponentsSymbolic = 0\<rparr>"

text \<open>The request after \<^verbatim>\<open>if req.PricingAlias == "" { req.PricingAlias = "default" }\<close>.\<close>

definition withDefaultAlias :: "EstimationRequest \<Rightarrow> EstimationRequest" where
  "withDefaultAlias req =
     (if rq_PricingAlias req = [] then req\<lparr>rq_PricingAlias := ''default''\<rparr> else req)"

text \<open>
  \<^verbatim>\<open>Engine.Estimate\<close>; \<open>now\<close> is the reading of the clock. The function returns no error
  of its own. The block guarded by \<^verbatim>\<open>result.IsIncomplete\<close> appends a warning and assigns no
  total.
\<close>

definition Estimate :: "Engine \<Rightarrow> time \<Rightarrow> EstimationRequest \<Rightarrow> EstimationResult" where
  "Estimate e now req0 =
     (let result0 = initialResult now req0;
          req = withDefaultAlias req0;
          (result1, minConfidence) = estimateLoop e req (rq_Components req) (result0, 1);
          result2 =
            (if er_MonthlyCostP50 result1 \<noteq> 0
             then result1\<lparr>er_HourlyCostP50 := decDiv (er_MonthlyCostP50 result1) 730\<rparr>
             else result1);
          result3 = result2\<lparr>er_Confidence := minConfidence\<rparr>;
          result4 =
            (if er_ComponentsSymbolic result3 > 0
             then result3\<lparr>er_IsIncomplete := True,
                          er_Warnings := er_Warnings result3 @
                            [ComponentsCouldNotBePriced (er_ComponentsSymbolic result3)]\<rparr>
             else result3);
          result5 =
            (if er_IsIncomplete result4
             then result4\<lparr>er_Warnings := er_Warnings result4 @ [TotalsMayBeIncomplete]\<rparr>
             else result4)
      in result5\<lparr>er_CostDrivers := sortDrivers (er_CostDrivers result5)\<rparr>)"

section \<open>The policy engine (decision/policy/engine.go)\<close>

text \<open>
  \<^verbatim>\<open>PolicyType\<close> and \<^verbatim>\<open>Severity\<close> are string types: a custom policy may carry any text.
\<close>

definition PolicyTypeCostLimit :: string where "PolicyTypeCostLimit = ''cost_limit''"
definition PolicyTypeCostGrowth :: string where "PolicyTypeCostGrowth = ''cost_growth''"
definition PolicyTypeConfidenceThreshold :: string where
  "PolicyTypeConfidenceThreshold = ''confidence_threshold''"
definition PolicyTypeCarbonBudget :: string where "PolicyTypeCarbonBudget = ''carbon_budget''"
definition PolicyTypeIncompleteEstimate :: string where
  "PolicyTypeIncompleteEstimate = ''incomplete_estimate''"
definition PolicyTypeCustom :: string where "PolicyTypeCustom = ''custom''"

definition SeverityError :: string where "SeverityError = ''error''"
definition SeverityWarning :: string where "SeverityWarning = ''warning''"
definition SeverityInfo :: string where "SeverityInfo = ''info''"

datatype Decision = DecisionPass | DecisionWarn | DecisionDeny

record Policy =
  po_ID :: string
  po_Name :: string
  po_Description :: string
  po_Type :: string
  po_Severity :: string
  po_Threshold :: float64
  po_Enabled :: bool

text \<open>The message of a violation or warning is a text printed from the values kept here.\<close>

datatype PolicyMessage =
    CostExceedsLimit float64 float64
  | ConfidenceBelowThreshold float64 float64
  | ConfidenceBelowRecommended float64 float64
  | CarbonExceedsBudget float64 float64
  | IncompleteNotAllowedInProduction nat

record Violation =
  vi_PolicyID :: string
  vi_PolicyName :: string
  vi_Message :: PolicyMessage
  vi_Severity :: string

record Warning =
  wa_PolicyID :: string
  wa_Message :: PolicyMessage

record EvaluationRequest =
  evq_Estimation :: EstimationResult
  evq_Environment :: string
  evq_CustomPolicies :: "Policy list"

record EvaluationResult =
  ev_Decision :: Decision
  ev_Violations :: "Violation list"
  ev_Warnings :: "Warning list"
  ev_PoliciesRan :: nat
  ev_EvaluatedAt :: time

record PolicyEngine =
  pe_policies :: "Policy list"
  pe_opaEndpoint :: string

definition defaultPolicies :: "Policy list" where
  "defaultPolicies =
     [\<lparr>po_ID = ''default-confidence'', po_Name = ''Minimum Confidence'',
       po_Description = ''Warn when estimation confidence is below 70%'',
       po_Type = PolicyTypeConfidenceThreshold, po_Severity = SeverityWarning,
       po_Threshold = 70, po_Enabled = True\<rparr>,
      \<lparr>po_ID = ''prod-incomplete'', po_Name = ''No Incomplete in Prod'',
       po_Description = ''Block incomplete estimations in production'',
       po_Type = PolicyTypeIncompleteEstimate, po_Severity = SeverityError,
       po_Threshold = 0, po_Enabled = True\<rparr>]"

definition NewPolicyEngine :: PolicyEngine where
  "NewPolicyEngine = \<lparr>pe_policies = defaultPolicies, pe_opaEndpoint = []\<rparr>"

definition WithOPA :: "PolicyEngine \<Rightarrow> string \<Rightarrow> PolicyEngine" where
  "WithOPA e endpoint = e\<lparr>pe_opaEndpoint := endpoint\<rparr>"

definition AddPolicy :: "PolicyEngine \<Rightarrow> Policy \<Rightarrow> PolicyEngine" where
  "AddPolicy e p = e\<lparr>pe_policies := pe_policies e @ [p]\<rparr>"

definition evaluatePolicy ::
  "Policy \<Rightarrow> EstimationResult \<Rightarrow> string \<Rightarrow> Violation option \<times> Warning option" where
  "evaluatePolicy p est env =
     (if po_Type p = PolicyTypeCostLimit then
        (let costP90 = er_MonthlyCostP90 est
         in if costP90 > po_Threshold p
            then (Some \<lparr>vi_PolicyID = po_ID p, vi_PolicyName = po_Name p,
                        vi_Message = CostExceedsLimit costP90 (po_Threshold p),
                        vi_Severity = po_Severity p\<rparr>, None)
            else (None, None))
      else if po_Type p = PolicyTypeConfidenceThreshold then
        (if er_Confidence est < po_Threshold p / 100 then
           (if po_Severity p = SeverityError
            then (Some \<lparr>vi_PolicyID = po_ID p, vi_PolicyName = po_Name p,
                        vi_Message = ConfidenceBelowThreshold (er_Confidence est * 100)
                                       (po_Threshold p),
                        vi_Severity = po_Severity p\<rparr>, None)
            else (None, Some \<lparr>wa_PolicyID = po_ID p,
                              wa_Message = ConfidenceBelowRecommended (er_Confidence est * 100)
                                             (po_Threshold p)\<rparr>))
         else (None, None))
      else if po_Type p = PolicyTypeCarbonBudget then
        (if er_CarbonKgCO2 est > po_Threshold p
         then (Some \<lparr>vi_PolicyID = po_ID p, vi_PolicyName = po_Name p,
                     vi_Message = CarbonExceedsBudget (er_CarbonKgCO2 est) (po_Threshold p),
                     vi_Severity = po_Severity p\<rparr>, None)
         else (None, None))
      else if po_Type p = PolicyTypeIncompleteEstimate then
        (if er_IsIncomplete est \<and> env = ''prod''
         then (Some \<lparr>vi_PolicyID = po_ID p, vi_PolicyName = po_Name p,
                     vi_Message = IncompleteNotAllowedInProduction (er_ComponentsSymbolic est),
                     vi_Severity = po_Severity p\<rparr>, None)
         else (None, None))
      else (None, None))"

text \<open>One round of the loop over \<^verbatim>\<open>allPolicies\<close> in \<^verbatim>\<open>Evaluate\<close>.\<close>

definition evaluateStep ::
  "EvaluationRequest \<Rightarrow> Policy \<Rightarrow> EvaluationResult \<Rightarrow> EvaluationResult" where
  "evaluateStep req policy result =
     (if \<not> po_Enabled policy then result
      else
        (let result1 = result\<lparr>ev_PoliciesRan := ev_PoliciesRan result + 1\<rparr>;
             (violation, warning) =
                evaluatePolicy policy (evq_Estimation req) (evq_Environment req);
             result2 =
               (case violation of
                  None \<Rightarrow> result1
                | Some v \<Rightarrow>
                    (let r = result1\<lparr>ev_Violations := ev_Violations result1 @ [v]\<rparr>
                     in if po_Severity policy = SeverityError
                        then r\<lparr>ev_Decision := DecisionDeny\<rparr>
                        else if ev_Decision r \<noteq> DecisionDeny
                        then r\<lparr>ev_Decision := DecisionWarn\<rparr>
                        else r))
         in (case warning of
               None \<Rightarrow> result2
             | Some w \<Rightarrow>
                 (let r = result2\<lparr>ev_Warnings := ev_Warnings result2 @ [w]\<rparr>
                  in if ev_Decision r = DecisionPass
                     then r\<lparr>ev_Decision := DecisionWarn\<rparr>
                     else r))))"

fun evaluateLoop ::
  "EvaluationRequest \<Rightarrow> Policy list \<Rightarrow> EvaluationResult \<Rightarrow> EvaluationResult" where
  "evaluateLoop req [] result = result"
| "evaluateLoop req (policy # policies) result =
     evaluateLoop req policies (evaluateStep req policy result)"

text \<open>
  \<^verbatim>\<open>evaluateOPA\<close> sends a request to the OPA endpoint; \<open>httpOk\<close> says whether building and
  sending it succeeded. On success the function returns a result without violations.
\<close>

definition evaluateOPA ::
  "PolicyEngine \<Rightarrow> bool \<Rightarrow> EvaluationRequest \<Rightarrow> string + EvaluationResult option" where
  "evaluateOPA e httpOk req =
     (if pe_opaEndpoint e = [] then Inr None
      else if \<not> httpOk then Inl ''request failed''
      else Inr (Some \<lparr>ev_Decision = DecisionPass, ev_Violations = [], ev_Warnings = [],
                       ev_PoliciesRan = 0, ev_EvaluatedAt = 0\<rparr>))"

text \<open>\<^verbatim>\<open>Engine.Evaluate\<close> of the policy engine; it returns no error.\<close>

definition Evaluate ::
  "PolicyEngine \<Rightarrow> time \<Rightarrow> bool \<Rightarrow> EvaluationRequest \<Rightarrow> EvaluationResult" where
  "Evaluate e now httpOk req =
     (let result0 = \<lparr>ev_Decision = DecisionPass, ev_Violations = [], ev_Warnings = [],
                      ev_PoliciesRan = 0, ev_EvaluatedAt = now\<rparr>;
          allPolicies = pe_policies e @ evq_CustomPolicies req;
          result1 = evaluateLoop req allPolicies result0
      in if pe_opaEndpoint e \<noteq> [] then
           (case evaluateOPA e httpOk req of
              Inr (Some opaResult) \<Rightarrow>
                (let r = result1\<lparr>ev_Violations := ev_Violations result1 @ ev_Violations opaResult,
                                 ev_Warnings := ev_Warnings result1 @ ev_Warnings opaResult\<rparr>
                 in if length (ev_Violations opaResult) > 0
                    then r\<lparr>ev_Decision := DecisionDeny\<rparr> else r)
            | _ \<Rightarrow> result1)
         else result1)"

section \<open>Confidence arithmetic (package confidence)\<close>

text \<open>
  The loop of \<^verbatim>\<open>Aggregate\<close> multiplies the scores and leaves with 0 at the first score that
  is not positive: \<open>None\<close> is that early return.
\<close>

fun productLoop :: "float64 list \<Rightarrow> float64 \<Rightarrow> float64 option" where
  "productLoop [] product = Some product"
| "productLoop (s # scores) product =
     (if s \<le> 0 then None else productLoop scores (product * s))"

text \<open>
  \<^verbatim>\<open>math.Pow(product, 1.0/float64(len(scores)))\<close> is the real power; the product is positive
  where the call is reached.
\<close>

definition Aggregate :: "float64 list \<Rightarrow> float64" where
  "Aggregate scores =
     (if length scores = 0 then 0
      else case productLoop scores 1 of
             None \<Rightarrow> 0
           | Some product \<Rightarrow> product powr (1 / real (length scores)))"

definition Decay :: "float64 \<Rightarrow> int \<Rightarrow> float64" where
  "Decay base factors =
     (if factors \<le> 0 then base else base * (9 / 10) powr (real_of_int factors))"

definition HighConfidence :: float64 where "HighConfidence = 95 / 100"
definition MediumConfidence :: float64 where "MediumConfidence = 80 / 100"
definition LowConfidence :: float64 where "LowConfidence = 60 / 100"
definition MinConfidence :: float64 where "MinConfidence = 50 / 100"

section \<open>Shared request and result types (pkg/api)\<close>

text \<open>
  The values of a \<^verbatim>\<open>map[string]any\<close> that the code below tells apart; nested sequences and
  mappings are \<open>AnyOther\<close>.
\<close>

datatype any = AnyFloat float64 | AnyInt int | AnyString string | AnyBool bool | AnyOther

definition ComponentTypeCompute :: string where "ComponentTypeCompute = ''compute''"
definition ComponentTypeStorage :: string where "ComponentTypeStorage = ''storage''"
definition ComponentTypeNetwork :: string where "ComponentTypeNetwork = ''network''"
definition ComponentTypeData :: string where "ComponentTypeData = ''data''"
definition ComponentTypeOther :: string where "ComponentTypeOther = ''other''"

definition UsageTypeOnDemand :: string where "UsageTypeOnDemand = ''on_demand''"
definition UsageTypeReserved :: string where "UsageTypeReserved = ''reserved''"
definition UsageTypeSpot :: string where "UsageTypeSpot = ''spot''"
definition UsageTypeSavings :: string where "UsageTypeSavings = ''savings_plan''"
definition UsageTypeProvisioned :: string where "UsageTypeProvisioned = ''provisioned''"

record ApiVarianceProfile =
  avp_Pattern :: string
  avp_Seasonality :: string
  avp_Confidence :: float64

record ApiMappingError =
  ame_Code :: string
  ame_Message :: string
  ame_Recoverable :: bool

record ApiBillingComponent =
  abc_ID :: string
  abc_ResourceID :: string
  abc_Type :: string
  abc_UsageType :: string
  abc_Lifecycle :: string
  abc_VarianceProfile :: ApiVarianceProfile
  abc_Dependencies :: "string list"
  abc_Attributes :: "string \<rightharpoonup> any"
  abc_MappingError :: "ApiMappingError option"

record SemanticResult =
  sr_Components :: "ApiBillingComponent list"
  sr_MappingErrors :: "ApiMappingError list"

record UsagePrediction =
  up_ComponentID :: string
  up_Metric :: string
  up_Unit :: string
  up_P50 :: float64
  up_P90 :: float64
  up_Confidence :: float64
  up_Assumptions :: "string list"

record UsageResult =
  ur_Predictions :: "UsagePrediction list"
  ur_AverageConfidence :: float64
  ur_Environment :: string

section \<open>The usage predictor (internal/usage/predictor.go)\<close>

record UsageProfile =
  pf_Name :: string
  pf_UtilizationFactor :: float64
  pf_GrowthFactor :: float64
  pf_VarianceFactor :: float64
  pf_BaseConfidence :: float64

record Predictor =
  pd_profiles :: "string \<rightharpoonup> UsageProfile"

definition devProfile :: UsageProfile where
  "devProfile = \<lparr>pf_Name = ''Development'', pf_UtilizationFactor = 2 / 10, pf_GrowthFactor = 0,
                  pf_VarianceFactor = 13 / 10, pf_BaseConfidence = 7 / 10\<rparr>"

definition stagingProfile :: UsageProfile where
  "stagingProfile = \<lparr>pf_Name = ''Staging'', pf_UtilizationFactor = 4 / 10,
                      pf_GrowthFactor = 5 / 100, pf_VarianceFactor = 14 / 10,
                      pf_BaseConfidence = 65 / 100\<rparr>"

definition prodProfile :: UsageProfile where
  "prodProfile = \<lparr>pf_Name = ''Production'', pf_UtilizationFactor = 7 / 10,
                   pf_GrowthFactor = 1 / 10, pf_VarianceFactor = 15 / 10,
                   pf_BaseConfidence = 6 / 10\<rparr>"

definition NewPredictor :: Predictor where
  "NewPredictor =
     \<lparr>pd_profiles = [''dev'' \<mapsto> devProfile, ''staging'' \<mapsto> stagingProfile,
                      ''prod'' \<mapsto> prodProfile]\<rparr>"

text \<open>The zero value of \<^verbatim>\<open>UsageProfile\<close>, which a Go map returns for a missing key.\<close>

definition zeroProfile :: UsageProfile where
  "zeroProfile = \<lparr>pf_Name = [], pf_UtilizationFactor = 0, pf_GrowthFactor = 0,
                   pf_VarianceFactor = 0, pf_BaseConfidence = 0\<rparr>"

definition predictCompute ::
  "ApiBillingComponent \<Rightarrow> UsageProfile \<Rightarrow> UsagePrediction \<Rightarrow> UsagePrediction" where
  "predictCompute component profile pred0 =
     (let pred = pred0\<lparr>up_Metric := ''hours'', up_Unit := ''hours/month''\<rparr>;
          hoursPerMonth = 730
      in if abc_UsageType component = UsageTypeOnDemand then
           pred\<lparr>up_P50 := hoursPerMonth * pf_UtilizationFactor profile,
                up_P90 := hoursPerMonth * pf_UtilizationFactor profile * pf_VarianceFactor profile,
                up_Assumptions := up_Assumptions pred @
                  [''base-730-hours'', ''utilization-'' @ pf_Name profile]\<rparr>
         else if abc_UsageType component = UsageTypeReserved then
           pred\<lparr>up_P50 := hoursPerMonth, up_P90 := hoursPerMonth,
                up_Confidence := HighConfidence,
                up_Assumptions := up_Assumptions pred @ [''reserved-full-utilization'']\<rparr>
         else if abc_UsageType component = UsageTypeSpot then
           pred\<lparr>up_P50 := hoursPerMonth * (85 / 100), up_P90 := hoursPerMonth * (95 / 100),
                up_Confidence := Decay (up_Confidence pred) 1,
                up_Assumptions := up_Assumptions pred @ [''spot-interruption-risk'']\<rparr>
         else pred\<lparr>up_P50 := hoursPerMonth, up_P90 := hoursPerMonth\<rparr>)"

definition getFloatAttr :: "(string \<rightharpoonup> any) \<Rightarrow> string \<Rightarrow> float64 \<Rightarrow> float64" where
  "getFloatAttr attrs key defaultVal =
     (case attrs key of
        Some (AnyFloat v) \<Rightarrow> v
      | Some (AnyInt v) \<Rightarrow> real_of_int v
      | _ \<Rightarrow> defaultVal)"

definition predictStorage ::
  "ApiBillingComponent \<Rightarrow> UsageProfile \<Rightarrow> UsagePrediction \<Rightarrow> UsagePrediction" where
  "predictStorage component profile pred0 =
     (let pred = pred0\<lparr>up_Metric := ''gb_months'', up_Unit := ''GB-months''\<rparr>;
          size = getFloatAttr (abc_Attributes component) ''volume_size'' 100
      in pred\<lparr>up_P50 := size, up_P90 := size * (1 + pf_GrowthFactor profile),
              up_Confidence := HighConfidence,
              up_Assumptions := up_Assumptions pred @
                [''provisioned-storage'', ''monthly-growth-possible'']\<rparr>)"

definition predictNetwork ::
  "ApiBillingComponent \<Rightarrow> UsageProfile \<Rightarrow> UsagePrediction \<Rightarrow> UsagePrediction" where
  "predictNetwork component profile pred0 =
     (let pred = pred0\<lparr>up_Metric := ''gb_transfer'', up_Unit := ''GB/month''\<rparr>;
          baseGB = (if pf_Name profile = ''Production'' then 100
                    else if pf_Name profile = ''Staging'' then 50 else 10)
      in pred\<lparr>up_P50 := baseGB * pf_UtilizationFactor profile,
              up_P90 := baseGB * pf_UtilizationFactor profile * 2,
              up_Confidence := LowConfidence,
              up_Assumptions := up_Assumptions pred @
                [''network-heuristic'', ''high-variance-warning'']\<rparr>)"

definition predictData ::
  "ApiBillingComponent \<Rightarrow> UsageProfile \<Rightarrow> UsagePrediction \<Rightarrow> UsagePrediction" where
  "predictData component profile pred0 =
     (let pred = pred0\<lparr>up_Metric := ''requests'', up_Unit := ''requests/month''\<rparr>;
          baseRequests = (if pf_Name profile = ''Production'' then 1000000
                          else if pf_Name profile = ''Staging'' then 100000 else 10000)
      in pred\<lparr>up_P50 := baseRequests * pf_UtilizationFactor profile,
              up_P90 := baseRequests * pf_VarianceFactor profile,
              up_Confidence := MinConfidence,
              up_Assumptions := up_Assumptions pred @
                [''request-heuristic'', ''requires-historical-data'']\<rparr>)"

definition predictComponent :: "ApiBillingComponent \<Rightarrow> UsageProfile \<Rightarrow> UsagePrediction" where
  "predictComponent component profile =
     (let prediction0 = \<lparr>up_ComponentID = abc_ID component, up_Metric = [], up_Unit = [],
                          up_P50 = 0, up_P90 = 0, up_Confidence = 0, up_Assumptions = []\<rparr>;
          baseConf0 = avp_Confidence (abc_VarianceProfile component);
          baseConf = (if baseConf0 = 0 then pf_BaseConfidence profile else baseConf0);
          prediction = prediction0
            \<lparr>up_Confidence := Aggregate [baseConf, pf_BaseConfidence profile]\<rparr>
      in if abc_Type component = ComponentTypeCompute then predictCompute component profile prediction
         else if abc_Type component = ComponentTypeStorage then predictStorage component profile prediction
         else if abc_Type component = ComponentTypeNetwork then predictNetwork component profile prediction
         else if abc_Type component = ComponentTypeData then predictData component profile prediction
         else prediction\<lparr>up_Metric := ''units'', up_Unit := ''units'', up_P50 := 1, up_P90 := 1,
                up_Confidence := LowConfidence,
                up_Assumptions := up_Assumptions prediction @ [''unknown-component-type'']\<rparr>)"

text \<open>
  The profile \<^verbatim>\<open>Predict\<close> works with: the one registered for the environment, otherwise
  the entry \<^verbatim>\<open>dev\<close> of the table.
\<close>

definition selectProfile :: "Predictor \<Rightarrow> string \<Rightarrow> UsageProfile" where
  "selectProfile p environment =
     (case pd_profiles p environment of
        Some profile \<Rightarrow> profile
      | None \<Rightarrow> (case pd_profiles p ''dev'' of Some profile \<Rightarrow> profile | None \<Rightarrow> zeroProfile))"

text \<open>The loop of \<^verbatim>\<open>Predict\<close>: the predictions so far and the sum of their confidences.\<close>

fun predictLoop ::
  "UsageProfile \<Rightarrow> ApiBillingComponent list \<Rightarrow> UsagePrediction list \<times> float64
     \<Rightarrow> UsagePrediction list \<times> float64" where
  "predictLoop profile [] st = st"
| "predictLoop profile (component # components) st =
     (let prediction = predictComponent component profile
      in predictLoop profile components
           (fst st @ [prediction], snd st + up_Confidence prediction))"

text \<open>\<^verbatim>\<open>Predictor.Predict\<close> returns a result and has no error to return.\<close>

definition Predict :: "Predictor \<Rightarrow> ApiBillingComponent list \<Rightarrow> string \<Rightarrow> UsageResult" where
  "Predict p components environment =
     (let profile = selectProfile p environment;
          (predictions, confidenceSum) = predictLoop profile components ([], 0)
      in \<lparr>ur_Predictions = predictions,
          ur_AverageConfidence =
            (if length predictions > 0 then confidenceSum / real (length predictions) else 0),
          ur_Environment = environment\<rparr>)"

section \<open>The calculator (package estimation of the platform services)\<close>

record ResolvedPrice =
  rp_ComponentID :: string
  rp_SKUID :: string
  rp_PricePerUnit :: float64
  rp_Unit :: string
  rp_CarbonIntensity :: float64
  rp_Explanation :: string

record PriceResult =
  prr_Prices :: "ResolvedPrice list"
  prr_Warnings :: "string list"

record CostRange =
  cr_P50 :: float64
  cr_P90 :: float64
  cr_Currency :: string

record CarbonEstimate =
  ce_KgCO2e :: float64
  ce_Confidence :: float64
  ce_Region :: string

record ApiCostDriver =
  acd_ResourceID :: string
  acd_Name :: string
  acd_MonthlyCost :: float64
  acd_Percentage :: float64

record ApiEstimationError =
  aee_ResourceID :: string
  aee_Code :: string
  aee_Message :: string
  aee_Recoverable :: bool

record LineageItem =
  li_ResourceID :: string
  li_Component :: string
  li_SKU :: string
  li_Price :: float64
  li_Unit :: string
  li_Quantity :: float64
  li_MonthlyCost :: float64
  li_Explanation :: string

record CalcResult =
  res_TotalCost :: CostRange
  res_TotalCarbon :: CarbonEstimate
  res_Drivers :: "ApiCostDriver list"
  res_ConfidenceScore :: float64
  res_IsIncomplete :: bool
  res_Errors :: "ApiEstimationError list"
  res_Lineage :: "LineageItem list"

text \<open>
  \<^verbatim>\<open>costs[item.ResourceID] += item.MonthlyCost\<close> on the map \<^verbatim>\<open>costs\<close>, kept as a list of
  resource and cost with one entry per resource; a missing key starts from 0.
\<close>

fun addCost :: "(string \<times> float64) list \<Rightarrow> string \<Rightarrow> float64 \<Rightarrow> (string \<times> float64) list" where
  "addCost [] k v = [(k, 0 + v)]"
| "addCost ((k', c) # rest) k v =
     (if k' = k then (k', c + v) # rest else (k', c) # addCost rest k v)"

text \<open>
  What the claim calls the monthly cost of a resource, written independently of the map
  above: the sum of the monthly costs of the lineage items of that resource.
\<close>

definition resourceMonthlyCost :: "LineageItem list \<Rightarrow> string \<Rightarrow> float64" where
  "resourceMonthlyCost lineage rid =
     sum_list (map li_MonthlyCost (filter (\<lambda>item. li_ResourceID item = rid) lineage))"

definition lineageCosts :: "LineageItem list \<Rightarrow> (string \<times> float64) list" where
  "lineageCosts lineage =
     fold (\<lambda>item costs. addCost costs (li_ResourceID item) (li_MonthlyCost item)) lineage []"

text \<open>
  \<^verbatim>\<open>extractDrivers\<close>. Go visits the keys of a map in an unspecified order; \<open>rangeOrder\<close> is
  that order, a rearrangement of the entries of \<^verbatim>\<open>costs\<close>. \<^verbatim>\<open>return nil\<close> is the empty list;
  \<open>total0\<close> is the parameter \<^verbatim>\<open>total\<close>, and \<open>sortedDrivers\<close> the slice \<^verbatim>\<open>drivers\<close> after
  \<^verbatim>\<open>sort.Slice\<close>, one driver per resource. Since \<open>sortSliceDesc\<close> leaves a sorted slice as
  it is, every arrangement of the drivers by descending cost is the result for some
  \<open>rangeOrder\<close>, whichever order the library's sort leaves among drivers of equal cost.
\<close>

definition sortedDrivers ::
  "((string \<times> float64) list \<Rightarrow> (string \<times> float64) list) \<Rightarrow> LineageItem list \<Rightarrow> float64
     \<Rightarrow> ApiCostDriver list" where
  "sortedDrivers rangeOrder lineage total0 =
     (let costs = lineageCosts lineage;
          drivers = map (\<lambda>(rid, cost).
              \<lparr>acd_ResourceID = rid, acd_Name = rid, acd_MonthlyCost = cost,
               acd_Percentage = (cost / total0) * 100\<rparr>) (rangeOrder costs)
      in sortSliceDesc acd_MonthlyCost drivers)"

definition extractDrivers ::
  "((string \<times> float64) list \<Rightarrow> (string \<times> float64) list) \<Rightarrow> LineageItem list \<Rightarrow> float64
     \<Rightarrow> ApiCostDriver list" where
  "extractDrivers rangeOrder lineage total0 =
     (if total0 = 0 then []
      else
        (let drivers = sortedDrivers rangeOrder lineage total0
         in if length drivers > 5 then take 5 drivers else drivers))"

text \<open>The two maps \<^verbatim>\<open>usageMap\<close> and \<^verbatim>\<open>priceMap\<close>: a later entry replaces an earlier one.\<close>

definition usageMapOf :: "UsagePrediction list \<Rightarrow> (string \<rightharpoonup> UsagePrediction)" where
  "usageMapOf predictions = fold (\<lambda>p m. m(up_ComponentID p \<mapsto> p)) predictions Map.empty"

definition priceMapOf :: "ResolvedPrice list \<Rightarrow> (string \<rightharpoonup> ResolvedPrice)" where
  "priceMapOf prices = fold (\<lambda>p m. m(rp_ComponentID p \<mapsto> p)) prices Map.empty"

text \<open>The variables the loop over \<^verbatim>\<open>semantics.Components\<close> updates.\<close>

record CalcLoopState =
  cl_Errors :: "ApiEstimationError list"
  cl_Lineage :: "LineageItem list"
  cl_confidences :: "float64 list"
  cl_totalP50 :: float64
  cl_totalP90 :: float64
  cl_totalCarbon :: float64
  cl_missingData :: bool

definition calcStep ::
  "(string \<rightharpoonup> UsagePrediction) \<Rightarrow> (string \<rightharpoonup> ResolvedPrice) \<Rightarrow> ApiBillingComponent
     \<Rightarrow> CalcLoopState \<Rightarrow> CalcLoopState" where
  "calcStep usageMap priceMap component st =
     (case usageMap (abc_ID component) of
        None \<Rightarrow>
          st\<lparr>cl_Errors := cl_Errors st @
                [\<lparr>aee_ResourceID = abc_ResourceID component, aee_Code = ''MISSING_USAGE'',
                  aee_Message = ''No usage prediction for component: '' @ abc_ID component,
                  aee_Recoverable = False\<rparr>],
             cl_missingData := True\<rparr>
      | Some u \<Rightarrow>
          (case priceMap (abc_ID component) of
             None \<Rightarrow>
               st\<lparr>cl_Errors := cl_Errors st @
                     [\<lparr>aee_ResourceID = abc_ResourceID component, aee_Code = ''MISSING_PRICE'',
                       aee_Message = ''No price found for component: '' @ abc_ID component,
                       aee_Recoverable = False\<rparr>],
                  cl_missingData := True\<rparr>
           | Some p \<Rightarrow>
               (let p50Cost = up_P50 u * rp_PricePerUnit p;
                    p90Cost = up_P90 u * rp_PricePerUnit p
                in st\<lparr>cl_totalP50 := cl_totalP50 st + p50Cost,
                      cl_totalP90 := cl_totalP90 st + p90Cost,
                      cl_totalCarbon := cl_totalCarbon st + up_P50 u * rp_CarbonIntensity p,
                      cl_confidences := cl_confidences st @ [up_Confidence u],
                      cl_Lineage := cl_Lineage st @
                        [\<lparr>li_ResourceID = abc_ResourceID component,
                          li_Component = abc_Type component, li_SKU = rp_SKUID p,
                          li_Price = rp_PricePerUnit p, li_Unit = rp_Unit p,
                          li_Quantity = up_P50 u, li_MonthlyCost = p50Cost,
                          li_Explanation = rp_Explanation p\<rparr>]\<rparr>)))"

text \<open>
  \<^verbatim>\<open>Calculator.CalculateFromComponents\<close>, the variant with the fail-closed branches. The
  function returns no error of its own.
\<close>

definition CalculateFromComponents ::
  "((string \<times> float64) list \<Rightarrow> (string \<times> float64) list) \<Rightarrow> SemanticResult \<Rightarrow> UsageResult
     \<Rightarrow> PriceResult \<Rightarrow> CalcResult" where
  "CalculateFromComponents rangeOrder semantics usage prices =
     (let result = \<lparr>res_TotalCost = \<lparr>cr_P50 = 0, cr_P90 = 0, cr_Currency = ''USD''\<rparr>,
                     res_TotalCarbon = \<lparr>ce_KgCO2e = 0, ce_Confidence = 0, ce_Region = []\<rparr>,
                     res_Drivers = [], res_ConfidenceScore = 0, res_IsIncomplete = False,
                     res_Errors = [], res_Lineage = []\<rparr>
      in if length (sr_MappingErrors semantics) > 0 then
           result\<lparr>res_IsIncomplete := True, res_ConfidenceScore := 0,
                  res_Errors := map (\<lambda>err. \<lparr>aee_ResourceID = [], aee_Code = ame_Code err,
                                              aee_Message = ame_Message err,
                                              aee_Recoverable = ame_Recoverable err\<rparr>)
                                  (sr_MappingErrors semantics)\<rparr>
         else
           (let usageMap = usageMapOf (ur_Predictions usage);
                priceMap = priceMapOf (prr_Prices prices);
                st = fold (calcStep usageMap priceMap) (sr_Components semantics)
                       \<lparr>cl_Errors = [], cl_Lineage = [], cl_confidences = [], cl_totalP50 = 0,
                        cl_totalP90 = 0, cl_totalCarbon = 0, cl_missingData = False\<rparr>;
                result1 = result\<lparr>res_Errors := cl_Errors st, res_Lineage := cl_Lineage st\<rparr>
            in if cl_missingData st then
                 result1\<lparr>res_IsIncomplete := True, res_ConfidenceScore := 0,
                         res_TotalCost := (res_TotalCost result1)\<lparr>cr_P50 := 0, cr_P90 := 0\<rparr>,
                         res_TotalCarbon := (res_TotalCarbon result1)\<lparr>ce_KgCO2e := 0\<rparr>,
                         res_Drivers := []\<rparr>
               else
                 (let result2 = result1
                        \<lparr>res_TotalCost := (res_TotalCost result1)
                           \<lparr>cr_P50 := cl_totalP50 st, cr_P90 := cl_totalP90 st\<rparr>,
                         res_TotalCarbon := (res_TotalCarbon result1)
                           \<lparr>ce_KgCO2e := cl_totalCarbon st\<rparr>\<rparr>;
                      result3 =
                        (if length (cl_confidences st) > 0
                         then result2\<lparr>res_ConfidenceScore := Aggregate (cl_confidences st)\<rparr>
                         else result2)
                  in result3\<lparr>res_Drivers :=
                       extractDrivers rangeOrder (res_Lineage result3) (cl_totalP50 st)\<rparr>)))"

section \<open>The policy evaluator of the platform services\<close>

record PolicyResult =
  plr_Denials :: "string list"
  plr_Warnings :: "string list"
  plr_Passed :: bool

text \<open>The input document handed to the policy queries.\<close>

record PolicyInput =
  pi_total_cost_p50 :: float64
  pi_total_cost_p90 :: float64
  pi_carbon_kg :: float64
  pi_confidence_score :: float64
  pi_is_incomplete :: bool
  pi_cost_growth_percent :: float64
  pi_error_count :: nat

text \<open>
  What the evaluator reads from outside: the policy files found by \<^verbatim>\<open>filepath.Glob\<close> (or
  its error), the content of a file (or the error of \<^verbatim>\<open>os.ReadFile\<close>), and the answer of
  the policy runtime to a query (\<^verbatim>\<open>evalQuery\<close>: the policy text, the query, the input).
\<close>

record PolicyFiles =
  pfs_glob :: "string + string list"
  pfs_readFile :: "string \<Rightarrow> string + string"
  pfs_evalQuery :: "string \<Rightarrow> string \<Rightarrow> PolicyInput \<Rightarrow> string + string list"

fun policyFileLoop ::
  "PolicyFiles \<Rightarrow> PolicyInput \<Rightarrow> string list \<Rightarrow> PolicyResult \<Rightarrow> string + PolicyResult" where
  "policyFileLoop env input [] result = Inr result"
| "policyFileLoop env input (file # files) result =
     (case pfs_readFile env file of
        Inl err \<Rightarrow> Inl (''FAIL-CLOSED: cannot read policy '' @ file @ '': '' @ err)
      | Inr policy \<Rightarrow>
          (case pfs_evalQuery env policy ''data.fiac.deny'' input of
             Inl err \<Rightarrow>
               Inl (''FAIL-CLOSED: policy evaluation failed for '' @ file @ '': '' @ err)
           | Inr denials \<Rightarrow>
               (let result1 = result\<lparr>plr_Denials := plr_Denials result @ denials\<rparr>;
                    result2 =
                      (case pfs_evalQuery env policy ''data.fiac.warn'' input of
                         Inl err \<Rightarrow>
                           result1\<lparr>plr_Warnings := plr_Warnings result1 @
                                     [''Warning evaluation failed for '' @ file]\<rparr>
                       | Inr warnings \<Rightarrow>
                           result1\<lparr>plr_Warnings := plr_Warnings result1 @ warnings\<rparr>)
                in policyFileLoop env input files result2)))"

text \<open>\<^verbatim>\<open>Evaluator.Evaluate\<close>, the variant that blocks an incomplete estimation first.\<close>

definition EvaluatorEvaluate :: "PolicyFiles \<Rightarrow> CalcResult \<Rightarrow> string + PolicyResult" where
  "EvaluatorEvaluate env est =
     (let result = \<lparr>plr_Denials = [], plr_Warnings = [], plr_Passed = True\<rparr>
      in if res_IsIncomplete est then
           Inr (result\<lparr>plr_Passed := False,
                       plr_Denials := plr_Denials result @
                         [''BLOCKED: Estimation is incomplete - cannot evaluate policies on partial data'']\<rparr>)
         else
           (let input = \<lparr>pi_total_cost_p50 = cr_P50 (res_TotalCost est),
                          pi_total_cost_p90 = cr_P90 (res_TotalCost est),
                          pi_carbon_kg = ce_KgCO2e (res_TotalCarbon est),
                          pi_confidence_score = res_ConfidenceScore est,
                          pi_is_incomplete = res_IsIncomplete est,
                          pi_cost_growth_percent = 0,
                          pi_error_count = length (res_Errors est)\<rparr>
            in case pfs_glob env of
                 Inl err \<Rightarrow> Inl (''FAIL-CLOSED: cannot list policies: '' @ err)
               | Inr files \<Rightarrow>
                   if length files = 0 then
                     Inr (result\<lparr>plr_Warnings := plr_Warnings result @
                                   [''No policies found - defaulting to pass'']\<rparr>)
                   else
                     (case policyFileLoop env input files result of
                        Inl err \<Rightarrow> Inl err
                      | Inr result1 \<Rightarrow>
                          Inr (result1\<lparr>plr_Passed := (length (plr_Denials result1) = 0)\<rparr>))))"

section \<open>Semantic decomposition (the billing semantic engine)\<close>

text \<open>
  \<^verbatim>\<open>ResourceNode\<close> and \<^verbatim>\<open>GraphNode\<close> of package iac, with the fields the engine and its
  mappers read (the index of a counted resource, the sensitivity marks and the planned
  change are left out).
\<close>

record ResourceNode =
  rn_Address :: string
  rn_Type :: string
  rn_Name :: string
  rn_Provider :: string
  rn_ProviderName :: string
  rn_Region :: string
  rn_Mode :: string
  rn_Attributes :: "string \<rightharpoonup> any"
  rn_DependsOn :: "string list"
  rn_Dependencies :: "string list"

record GraphNode =
  gn_Resource :: ResourceNode
  gn_Dependencies :: "string list"
  gn_Dependents :: "string list"
  gn_Depth :: int
  gn_Provider :: string
  gn_Region :: string

text \<open>The interface \<^verbatim>\<open>ResourceMapper\<close>: a value with its three methods.\<close>

record ResourceMapper =
  rm_ResourceType :: string
  rm_MapToBillingComponents :: "GraphNode \<Rightarrow> BillingComponent list \<times> MappingError list"
  rm_SupportedAttributes :: "string list"

record MapperRegistry =
  mr_mappers :: "string \<rightharpoonup> ResourceMapper"
  mr_aliases :: "string \<rightharpoonup> string"

record BillingEngine =
  be_mappers :: "string \<rightharpoonup> ResourceMapper"
  be_registry :: "MapperRegistry option"

definition NewMapperRegistry :: MapperRegistry where
  "NewMapperRegistry = \<lparr>mr_mappers = Map.empty, mr_aliases = Map.empty\<rparr>"

definition NewBillingEngine :: BillingEngine where
  "NewBillingEngine = \<lparr>be_mappers = Map.empty, be_registry = Some NewMapperRegistry\<rparr>"

definition RegisterMapper :: "BillingEngine \<Rightarrow> ResourceMapper \<Rightarrow> BillingEngine" where
  "RegisterMapper e m = e\<lparr>be_mappers := (be_mappers e)(rm_ResourceType m \<mapsto> m)\<rparr>"

definition GetMapper :: "MapperRegistry \<Rightarrow> string \<Rightarrow> ResourceMapper option" where
  "GetMapper r resourceType =
     (case mr_mappers r resourceType of
        Some m \<Rightarrow> Some m
      | None \<Rightarrow>
          (case mr_aliases r resourceType of
             Some canonical \<Rightarrow> mr_mappers r canonical
           | None \<Rightarrow> None))"

definition findMapper :: "BillingEngine \<Rightarrow> string \<Rightarrow> ResourceMapper option" where
  "findMapper e resourceType =
     (case be_mappers e resourceType of
        Some m \<Rightarrow> Some m
      | None \<Rightarrow>
          (case be_registry e of
             Some r \<Rightarrow> GetMapper r resourceType
           | None \<Rightarrow> None))"

record DecompositionResult =
  dr_Components :: "BillingComponent list"
  dr_MappingErrors :: "MappingError list"
  dr_ResourcesProcessed :: nat
  dr_ResourcesMapped :: nat
  dr_ResourcesSkipped :: nat
  dr_ComponentsCreated :: nat
  dr_CoveredTypes :: "string list"
  dr_UncoveredTypes :: "string list"

definition resolveComponentDependencies ::
  "GraphNode \<Rightarrow> (string \<rightharpoonup> string list) \<Rightarrow> string list" where
  "resolveComponentDependencies node lookup =
     concat (map (\<lambda>depAddr. case lookup depAddr of Some compIDs \<Rightarrow> compIDs | None \<Rightarrow> [])
               (gn_Dependencies node))"

text \<open>The decimal digits of a number, as \<^verbatim>\<open>%d\<close> prints it.\<close>

fun showNat :: "nat \<Rightarrow> string" where
  "showNat n =
     (if n < 10 then [char_of (48 + n)]
      else showNat (n div 10) @ [char_of (48 + n mod 10)])"

declare showNat.simps [simp del]

text \<open>
  The variables of the loop of \<^verbatim>\<open>Decompose\<close>: the result, the two sets of resource types
  (maps to \<^verbatim>\<open>true\<close> in the source, lists without repetition here) and the component ids
  recorded per resource address.
\<close>

record DecomposeState =
  ds_result :: DecompositionResult
  ds_coveredTypesMap :: "string list"
  ds_uncoveredTypesMap :: "string list"
  ds_componentsByResource :: "string \<rightharpoonup> string list"

definition markType :: "string \<Rightarrow> string list \<Rightarrow> string list" where
  "markType t ts = (if t \<in> set ts then ts else ts @ [t])"

text \<open>The inner loop \<^verbatim>\<open>for i := range components\<close> for one node.\<close>

fun componentLoop ::
  "GraphNode \<Rightarrow> BillingComponent list \<Rightarrow> nat \<Rightarrow> DecomposeState \<Rightarrow> DecomposeState" where
  "componentLoop node [] i st = st"
| "componentLoop node (c # cs) i st =
     (let addr = rn_Address (gn_Resource node);
          c1 = (if bc_ID c = [] then c\<lparr>bc_ID := addr @ ''-'' @ showNat i\<rparr> else c);
          c2 = c1\<lparr>bc_ResourceAddr := addr\<rparr>;
          c3 = c2\<lparr>bc_DependsOn :=
                    resolveComponentDependencies node (ds_componentsByResource st)\<rparr>;
          result = ds_result st;
          result1 = result\<lparr>dr_Components := dr_Components result @ [c3],
                           dr_ComponentsCreated := dr_ComponentsCreated result + 1\<rparr>;
          lookup = ds_componentsByResource st;
          lookup1 = lookup(addr \<mapsto>
                      (case lookup addr of Some ids \<Rightarrow> ids | None \<Rightarrow> []) @ [bc_ID c3])
      in componentLoop node cs (i + 1)
           (st\<lparr>ds_result := result1, ds_componentsByResource := lookup1\<rparr>))"

text \<open>The error recorded for a node without a mapper.\<close>

definition noMapperError :: "GraphNode \<Rightarrow> MappingError" where
  "noMapperError node =
     \<lparr>me_ResourceAddr = rn_Address (gn_Resource node),
      me_ResourceType = rn_Type (gn_Resource node),
      me_Reason = ''no mapper registered for resource type'',
      me_IsCritical = False\<rparr>"

text \<open>One round of the loop \<^verbatim>\<open>for _, node := range nodes\<close>.\<close>

definition decomposeStep :: "BillingEngine \<Rightarrow> GraphNode \<Rightarrow> DecomposeState \<Rightarrow> DecomposeState" where
  "decomposeStep e node st0 =
     (let st = st0\<lparr>ds_result := (ds_result st0)
                 \<lparr>dr_ResourcesProcessed := dr_ResourcesProcessed (ds_result st0) + 1\<rparr>\<rparr>;
          res = gn_Resource node
      in if rn_Mode res = ''data'' then
           st\<lparr>ds_result := (ds_result st)
                 \<lparr>dr_ResourcesSkipped := dr_ResourcesSkipped (ds_result st) + 1\<rparr>\<rparr>
         else
           (case findMapper e (rn_Type res) of
              None \<Rightarrow>
                st\<lparr>ds_uncoveredTypesMap := markType (rn_Type res) (ds_uncoveredTypesMap st),
                   ds_result := (ds_result st)
                     \<lparr>dr_MappingErrors := dr_MappingErrors (ds_result st) @
                        [noMapperError node]\<rparr>\<rparr>
            | Some mapper \<Rightarrow>
                (let (components, mappingErrors) = rm_MapToBillingComponents mapper node;
                     st1 = st\<lparr>ds_result := (ds_result st)
                             \<lparr>dr_MappingErrors :=
                                dr_MappingErrors (ds_result st) @ mappingErrors\<rparr>\<rparr>
                 in if length components > 0 then
                      componentLoop node components 0
                        (st1\<lparr>ds_result := (ds_result st1)
                                \<lparr>dr_ResourcesMapped := dr_ResourcesMapped (ds_result st1) + 1\<rparr>,
                             ds_coveredTypesMap :=
                               markType (rn_Type res) (ds_coveredTypesMap st1)\<rparr>)
                    else st1)))"

definition emptyDecomposition :: DecompositionResult where
  "emptyDecomposition =
     \<lparr>dr_Components = [], dr_MappingErrors = [], dr_ResourcesProcessed = 0,
      dr_ResourcesMapped = 0, dr_ResourcesSkipped = 0, dr_ComponentsCreated = 0,
      dr_CoveredTypes = [], dr_UncoveredTypes = []\<rparr>"

text \<open>
  \<^verbatim>\<open>Engine.Decompose\<close>. Its first step is \<^verbatim>\<open>graph.TopologicalSort()\<close>; \<open>sortResult\<close> is what
  that call returns, the error of a dependency cycle or the nodes in dependency order. The
  two loops at the end range over the maps \<^verbatim>\<open>coveredTypesMap\<close> and \<^verbatim>\<open>uncoveredTypesMap\<close>, and
  Go visits the keys of a map in an unspecified order: \<open>rangeCovered\<close> and \<open>rangeUncovered\<close>
  are the orders of these two visits, rearrangements of the keys.
\<close>

definition Decompose ::
  "(string list \<Rightarrow> string list) \<Rightarrow> (string list \<Rightarrow> string list) \<Rightarrow> BillingEngine
     \<Rightarrow> string + GraphNode list \<Rightarrow> string + DecompositionResult" where
  "Decompose rangeCovered rangeUncovered e sortResult =
     (case sortResult of
        Inl err \<Rightarrow> Inl (''failed to sort graph: '' @ err)
      | Inr nodes \<Rightarrow>
          (let st = fold (decomposeStep e) nodes
                      \<lparr>ds_result = emptyDecomposition, ds_coveredTypesMap = [],
                       ds_uncoveredTypesMap = [], ds_componentsByResource = Map.empty\<rparr>;
               result = ds_result st
           in Inr (result
                \<lparr>dr_CoveredTypes := dr_CoveredTypes result @ rangeCovered (ds_coveredTypesMap st),
                 dr_UncoveredTypes := dr_UncoveredTypes result @
                   filter (\<lambda>t. t \<notin> set (ds_coveredTypesMap st))
                     (rangeUncovered (ds_uncoveredTypesMap st))\<rparr>)))"

text \<open>
  What a node contributes to the result, written independently of the loop above. A node
  the engine has no mapper for: it is not a data source, and neither the engine's own table
  nor the registry, directly or through an alias, knows its type. \<open>nodeErrors\<close> is what a
  node contributes to the list of mapping errors, \<open>nodeAddresses\<close> the resource addresses of
  the components it contributes to the list of components (its own address, once per
  component of its mapper).
\<close>

definition unmapped :: "BillingEngine \<Rightarrow> GraphNode \<Rightarrow> bool" where
  "unmapped e node \<longleftrightarrow>
     rn_Mode (gn_Resource node) \<noteq> ''data''
     \<and> be_mappers e (rn_Type (gn_Resource node)) = None
     \<and> (case be_registry e of
           None \<Rightarrow> True
         | Some r \<Rightarrow>
             mr_mappers r (rn_Type (gn_Resource node)) = None
             \<and> (case mr_aliases r (rn_Type (gn_Resource node)) of
                   None \<Rightarrow> True
                 | Some canonical \<Rightarrow> mr_mappers r canonical = None))"

definition nodeErrors :: "BillingEngine \<Rightarrow> GraphNode \<Rightarrow> MappingError list" where
  "nodeErrors e node =
     (if rn_Mode (gn_Resource node) = ''data'' then []
      else case findMapper e (rn_Type (gn_Resource node)) of
             None \<Rightarrow>
               [\<lparr>me_ResourceAddr = rn_Address (gn_Resource node),
                 me_ResourceType = rn_Type (gn_Resource node),
                 me_Reason = ''no mapper registered for resource type'',
                 me_IsCritical = False\<rparr>]
           | Some mapper \<Rightarrow> snd (rm_MapToBillingComponents mapper node))"

definition nodeAddresses :: "BillingEngine \<Rightarrow> GraphNode \<Rightarrow> string list" where
  "nodeAddresses e node =
     (if rn_Mode (gn_Resource node) = ''data'' then []
      else case findMapper e (rn_Type (gn_Resource node)) of
             None \<Rightarrow> []
           | Some mapper \<Rightarrow>
               replicate (length (fst (rm_MapToBillingComponents mapper node)))
                 (rn_Address (gn_Resource node)))"
section \<open>The price catalog store and its ingestion (db/clickhouse/store.go, package ingestion)\<close>



























section \<open>Example inputs\<close>

text \<open>
  A pricing store that knows one rate, 0.10 per hour for \<^verbatim>\<open>AmazonEC2\<close>, has no row for
  \<^verbatim>\<open>AmazonRDS\<close> and fails for every other service; a carbon store with 400 gCO2 per kWh.
\<close>

definition exampleStore :: pricingStore where
  "exampleStore cloud service productFamily region attrs unit alias =
     (if service = ''AmazonEC2'' then
        Inr (Some \<lparr>rr_Price = 1 / 10, rr_Currency = ''USD'', rr_Confidence = 1,
                   rr_TierMin = None, rr_TierMax = None, rr_SnapshotID = 7,
                   rr_Source = ''aws_pricing_api''\<rparr>)
      else if service = ''AmazonRDS'' then Inr None
      else Inl ''connection refused'')"

definition exampleEngine :: Engine where
  "exampleEngine =
     \<lparr>en_pricingStore = exampleStore, en_carbonStore = Some (\<lambda>cloud region. Inr 400)\<rparr>"

text \<open>An hourly component of a service with the given median and high usage and confidence.\<close>

definition exampleComponent ::
  "string \<Rightarrow> string \<Rightarrow> float64 \<Rightarrow> float64 \<Rightarrow> float64 \<Rightarrow> BillingComponent" where
  "exampleComponent name service p50 p90 conf =
     \<lparr>bc_ID = name, bc_ResourceAddr = name, bc_Cloud = ''aws'', bc_Service = service,
      bc_ProductFamily = ''Compute Instance'', bc_Region = ''us-east-1'', bc_UsageType = [],
      bc_BillingPeriod = ''hourly'', bc_Attributes = [],
      bc_VarianceProfile =
        \<lparr>vp_BaselineUsage = p50, vp_MinUsage = p50, vp_MaxUsage = p90, vp_P50Usage = p50,
         vp_P90Usage = p90, vp_Confidence = conf, vp_VolatilityScore = 0,
         vp_Assumptions = []\<rparr>,
      bc_Description = [], bc_Tags = [], bc_DependsOn = []\<rparr>"

definition exampleRequest :: "BillingComponent list \<Rightarrow> EstimationRequest" where
  "exampleRequest components =
     \<lparr>rq_Components = components, rq_Environment = ''prod'', rq_PricingAlias = [],
      rq_IncludeCarbon = True, rq_IncludeFormulas = False\<rparr>"

text \<open>An on-demand compute component as the usage predictor receives it.\<close>

definition exampleCompute :: ApiBillingComponent where
  "exampleCompute =
     \<lparr>abc_ID = ''aws_instance.web:compute'', abc_ResourceID = ''aws_instance.web'',
      abc_Type = ComponentTypeCompute, abc_UsageType = UsageTypeOnDemand,
      abc_Lifecycle = ''hourly'',
      abc_VarianceProfile = \<lparr>avp_Pattern = ''stable'', avp_Seasonality = ''none'',
                              avp_Confidence = 9 / 10\<rparr>,
      abc_Dependencies = [], abc_Attributes = Map.empty, abc_MappingError = None\<rparr>"

text \<open>A lineage item of a resource with a monthly cost.\<close>

definition exampleItem :: "string \<Rightarrow> float64 \<Rightarrow> LineageItem" where
  "exampleItem resource cost =
     \<lparr>li_ResourceID = resource, li_Component = ''compute'', li_SKU = ''sku'', li_Price = cost,
      li_Unit = ''hours'', li_Quantity = 1, li_MonthlyCost = cost, li_Explanation = []\<rparr>"

definition sixResources :: "LineageItem list" where
  "sixResources =
     [exampleItem ''r1'' 6, exampleItem ''r2'' 5, exampleItem ''r3'' 4, exampleItem ''r4'' 3,
      exampleItem ''r5'' 2, exampleItem ''r6'' 1]"

text \<open>Six resources, the first of them with two lineage items of 4 each.\<close>

definition repeatedResource :: "LineageItem list" where
  "repeatedResource =
     [exampleItem ''r0'' 4, exampleItem ''r0'' 4, exampleItem ''r1'' 7, exampleItem ''r2'' 6,
      exampleItem ''r3'' 5, exampleItem ''r4'' 5, exampleItem ''r5'' 5]"

text \<open>A managed resource of a type for which no mapper is registered.\<close>

definition exampleQueueNode :: GraphNode where
  "exampleQueueNode =
     \<lparr>gn_Resource =
        \<lparr>rn_Address = ''aws_sqs_queue.jobs'', rn_Type = ''aws_sqs_queue'', rn_Name = ''jobs'',
         rn_Provider = ''aws'', rn_ProviderName = ''registry.terraform.io/hashicorp/aws'',
         rn_Region = ''us-east-1'', rn_Mode = ''managed'', rn_Attributes = Map.empty,
         rn_DependsOn = [], rn_Dependencies = []\<rparr>,
      gn_Dependencies = [], gn_Dependents = [], gn_Depth = 0, gn_Provider = ''aws'',
      gn_Region = ''us-east-1''\<rparr>"

text \<open>
  A node of a given address, type and mode; a mapper for \<^verbatim>\<open>aws_instance\<close> that yields one
  component and no error; an engine with that mapper; and a graph of a virtual machine, two
  queues and a data source.
\<close>

definition exampleNode :: "string \<Rightarrow> string \<Rightarrow> string \<Rightarrow> GraphNode" where
  "exampleNode address type mode =
     \<lparr>gn_Resource =
        \<lparr>rn_Address = address, rn_Type = type, rn_Name = ''main'',
         rn_Provider = ''aws'', rn_ProviderName = ''registry.terraform.io/hashicorp/aws'',
         rn_Region = ''us-east-1'', rn_Mode = mode, rn_Attributes = Map.empty,
         rn_DependsOn = [], rn_Dependencies = []\<rparr>,
      gn_Dependencies = [], gn_Dependents = [], gn_Depth = 0, gn_Provider = ''aws'',
      gn_Region = ''us-east-1''\<rparr>"

definition exampleInstanceMapper :: ResourceMapper where
  "exampleInstanceMapper =
     \<lparr>rm_ResourceType = ''aws_instance'',
      rm_MapToBillingComponents =
        (\<lambda>node. ([exampleComponent ''compute'' ''AmazonEC2'' 730 730 (9 / 10)], [])),
      rm_SupportedAttributes = [''instance_type'']\<rparr>"

definition exampleBillingEngine :: BillingEngine where
  "exampleBillingEngine = RegisterMapper NewBillingEngine exampleInstanceMapper"

definition exampleGraph :: "GraphNode list" where
  "exampleGraph =
     [exampleNode ''aws_instance.web'' ''aws_instance'' ''managed'',
      exampleNode ''aws_sqs_queue.jobs'' ''aws_sqs_queue'' ''managed'',
      exampleNode ''aws_ami.ubuntu'' ''aws_ami'' ''data'',
      exampleNode ''aws_sqs_queue.mail'' ''aws_sqs_queue'' ''managed'']"



section \<open>Properties\<close>

subsection \<open>Tiered cost\<close>

lemma tierUsage_min:
  "tierUsage t r = (case tr_Max t of None \<Rightarrow> r | Some mx \<Rightarrow> min r (mx - tr_Min t))"
  by (simp add: tierUsage_def Let_def min_def split: option.splits)

lemma tieredLoop_spec:
  "tieredLoop tiers c r m =
     (c + (\<Sum>(q, t)\<leftarrow>zip (specQuantities tiers r) tiers. q * tr_Price t),
      fold (\<lambda>t m. if tr_Confidence t < m then tr_Confidence t else m)
        (take (length (specQuantities tiers r)) tiers) m)"
proof (induction tiers arbitrary: c r m)
  case Nil
  show ?case by simp
next
  case (Cons t ts)
  show ?case
  proof (cases "r \<le> 0")
    case True
    then show ?thesis by simp
  next
    case False
    then show ?thesis
      by (simp add: Let_def Cons.IH tierUsage_min[symmetric])
  qed
qed

lemma fold_min_confidence:
  "fold (\<lambda>t m. if tr_Confidence t < m then tr_Confidence t else m) ts m =
     Min (insert m (tr_Confidence ` set ts))"
proof (induction ts arbitrary: m)
  case Nil
  show ?case by simp
next
  case (Cons t ts)
  have "Min (insert (if tr_Confidence t < m then tr_Confidence t else m) (tr_Confidence ` set ts))
        = Min (insert m (insert (tr_Confidence t) (tr_Confidence ` set ts)))"
    by (cases "tr_Confidence ` set ts = {}") (auto simp: min_def Min_insert2 not_less)
  with Cons show ?case by simp
qed

lemma specQuantities_bounded:
  "list_all2 (\<lambda>q t. case tr_Max t of None \<Rightarrow> True | Some mx \<Rightarrow> q \<le> mx - tr_Min t)
     (specQuantities tiers r) (take (length (specQuantities tiers r)) tiers)"
  by (induction tiers arbitrary: r) (auto simp: Let_def split: option.splits)

lemma specQuantity_le:
  "0 \<le> r \<Longrightarrow> (case tr_Max t of None \<Rightarrow> r | Some mx \<Rightarrow> min r (mx - tr_Min t)) \<le> r"
  by (simp split: option.splits)

lemma specQuantities_sum_le: "0 \<le> r \<Longrightarrow> sum_list (specQuantities tiers r) \<le> r"
proof (induction tiers arbitrary: r)
  case Nil then show ?case by simp
next
  case (Cons t ts)
  show ?case
  proof (cases "r \<le> 0")
    case True with Cons.prems show ?thesis by simp
  next
    case False
    let ?q = "case tr_Max t of None \<Rightarrow> r | Some mx \<Rightarrow> min r (mx - tr_Min t)"
    have "0 \<le> r - ?q" using specQuantity_le[of r t] Cons.prems by simp
    from Cons.IH[OF this] False show ?thesis by (simp add: Let_def)
  qed
qed

lemma specQuantities_unbounded_last:
  "tiers \<noteq> [] \<Longrightarrow> tr_Max (last tiers) = None \<Longrightarrow> 0 \<le> r \<Longrightarrow>
   sum_list (specQuantities tiers r) = r"
proof (induction tiers arbitrary: r)
  case Nil then show ?case by simp
next
  case (Cons t ts)
  show ?case
  proof (cases "r \<le> 0")
    case True with Cons.prems show ?thesis by simp
  next
    case False
    let ?q = "case tr_Max t of None \<Rightarrow> r | Some mx \<Rightarrow> min r (mx - tr_Min t)"
    show ?thesis
    proof (cases "ts = []")
      case True
      with Cons.prems False show ?thesis by simp
    next
      case nonempty: False
      have "0 \<le> r - ?q" using specQuantity_le[of r t] Cons.prems by simp
      moreover have "tr_Max (last ts) = None" using Cons.prems nonempty by simp
      ultimately have "sum_list (specQuantities ts (r - ?q)) = r - ?q"
        using Cons.IH nonempty by blast
      with False show ?thesis by (simp add: Let_def)
    qed
  qed
qed

lemma specQuantities_nonempty: "tiers \<noteq> [] \<Longrightarrow> 0 < r \<Longrightarrow> specQuantities tiers r \<noteq> []"
  by (cases tiers) (auto simp: Let_def)

lemma specQuantities_nth:
  "i < length (specQuantities tiers r) \<Longrightarrow>
   specQuantities tiers r ! i =
     (case tr_Max (tiers ! i) of
        None \<Rightarrow> r - sum_list (take i (specQuantities tiers r))
      | Some mx \<Rightarrow> min (r - sum_list (take i (specQuantities tiers r))) (mx - tr_Min (tiers ! i)))"
proof (induction tiers arbitrary: r i)
  case Nil
  then show ?case by simp
next
  case (Cons t ts)
  from Cons.prems have pos: "\<not> r \<le> 0" by (auto split: if_splits)
  let ?q = "case tr_Max t of None \<Rightarrow> r | Some mx \<Rightarrow> min r (mx - tr_Min t)"
  have unfold: "specQuantities (t # ts) r = ?q # specQuantities ts (r - ?q)"
    using pos by (simp add: Let_def)
  show ?case
  proof (cases i)
    case 0
    show ?thesis unfolding unfold 0 by (simp split: option.splits)
  next
    case (Suc j)
    have "j < length (specQuantities ts (r - ?q))"
      using Cons.prems unfolding unfold Suc by simp
    from Cons.IH[OF this] show ?thesis
      unfolding unfold Suc by (simp add: algebra_simps split: option.splits)
  qed
qed

lemma Min_insert_one:
  fixes A :: "real set"
  assumes "finite A" "A \<noteq> {}" "\<forall>a\<in>A. a \<le> 1"
  shows "Min (insert 1 A) = Min A"
proof -
  have "Min A \<in> A" using assms by simp
  then have "Min A \<le> 1" using assms by blast
  moreover have "Min (insert 1 A) = min 1 (Min A)"
    using assms(1,2) by (rule Min_insert)
  ultimately show ?thesis by simp
qed

lemma CalculateTieredCost_spec:
  assumes "tiers \<noteq> []"
  shows "CalculateTieredCost usage tiers =
     (\<Sum>(q, t)\<leftarrow>zip (specQuantities tiers usage) tiers. q * tr_Price t,
      Min (insert 1 (tr_Confidence ` set (specTouched tiers usage))))"
  using assms
  by (simp add: CalculateTieredCost_def tieredLoop_spec fold_min_confidence specTouched_def)

lemma specTieredCost_sorted:
  assumes "sorted (map tr_Min tiers)"
  shows "specTieredCost usage tiers =
     (\<Sum>(q, t)\<leftarrow>zip (specQuantities tiers usage) tiers. q * tr_Price t,
      Min (tr_Confidence ` set (specTouched tiers usage)))"
  using assms by (simp add: specTieredCost_def Let_def sort_key_id_if_sorted)

text \<open>
  Claim C5. For a non-empty list of tiers and a positive usage, \<^verbatim>\<open>CalculateTieredCost\<close>
  returns the cost and the confidence of the specification's rule applied to the tiers in
  the order of the list: the cost is the sum over the tiers reached of quantity times
  price, where the quantity of a bounded tier is the smaller of what is left and
  \<open>tier_max - tier_min\<close> and the quantity of an unbounded tier is all that is left, what is
  left being the usage less the quantities of the tiers before; the confidence is the
  minimum of 1 and the confidences of the tiers reached. When the list is in ascending
  order of the lower bounds, as \<^verbatim>\<open>ResolveTieredRates\<close> delivers it, and no confidence
  exceeds 1, the result is that of the specification, tiers taken in ascending order and
  minimum confidence over the tiers touched. No bounded tier takes more than
  \<open>tier_max - tier_min\<close>, the quantities never exceed the usage, and they add up to it when
  the last tier is unbounded. For 150 GB against \<open>[0,100)\<close> at 0.09 and \<open>[100,\<infinity>)\<close> at 0.05
  the split is 100 + 50 and the cost is 11.50.
\<close>

theorem tiered_cost_consumes_tiers_in_order:
  assumes "tiers \<noteq> []" and "0 < usage"
  shows "CalculateTieredCost usage tiers =
           (\<Sum>(q, t)\<leftarrow>zip (specQuantities tiers usage) tiers. q * tr_Price t,
            Min (insert 1 (tr_Confidence ` set (specTouched tiers usage))))
       \<and> (sorted (map tr_Min tiers)
            \<and> (\<forall>t \<in> set (specTouched tiers usage). tr_Confidence t \<le> 1) \<longrightarrow>
              CalculateTieredCost usage tiers = specTieredCost usage tiers)
       \<and> (\<forall>i < length (specQuantities tiers usage).
             specQuantities tiers usage ! i =
               (case tr_Max (tiers ! i) of
                  None \<Rightarrow> usage - sum_list (take i (specQuantities tiers usage))
                | Some mx \<Rightarrow> min (usage - sum_list (take i (specQuantities tiers usage)))
                               (mx - tr_Min (tiers ! i))))
       \<and> list_all2 (\<lambda>q t. case tr_Max t of None \<Rightarrow> True | Some mx \<Rightarrow> q \<le> mx - tr_Min t)
           (specQuantities tiers usage) (specTouched tiers usage)
       \<and> sum_list (specQuantities tiers usage) \<le> usage
       \<and> (tr_Max (last tiers) = None \<longrightarrow> sum_list (specQuantities tiers usage) = usage)
       \<and> specTouched tiers usage \<noteq> []
       \<and> specQuantities
            [\<lparr>tr_Min = 0, tr_Max = Some 100, tr_Price = 9/100, tr_Confidence = k1\<rparr>,
             \<lparr>tr_Min = 100, tr_Max = None, tr_Price = 5/100, tr_Confidence = k2\<rparr>] 150 = [100, 50]
       \<and> fst (CalculateTieredCost 150
            [\<lparr>tr_Min = 0, tr_Max = Some 100, tr_Price = 9/100, tr_Confidence = k1\<rparr>,
             \<lparr>tr_Min = 100, tr_Max = None, tr_Price = 5/100, tr_Confidence = k2\<rparr>]) = 1150 / 100"
  (is "?A \<and> ?B \<and> ?C \<and> ?D \<and> ?E \<and> ?F \<and> ?G \<and> ?H \<and> ?I")
proof -
  let ?touched = "specTouched tiers usage"
  have g: ?G
    using assms specQuantities_nonempty[of tiers usage] by (simp add: specTouched_def)
  have a: ?A
    using assms(1) by (rule CalculateTieredCost_spec)
  have b: ?B
  proof (intro impI, elim conjE)
    assume asc: "sorted (map tr_Min tiers)"
      and le: "\<forall>t \<in> set ?touched. tr_Confidence t \<le> 1"
    have "Min (insert 1 (tr_Confidence ` set ?touched)) = Min (tr_Confidence ` set ?touched)"
      using le g by (intro Min_insert_one) auto
    then show "CalculateTieredCost usage tiers = specTieredCost usage tiers"
      unfolding a specTieredCost_sorted[OF asc] by simp
  qed
  have c: ?C
    using specQuantities_nth[of _ tiers usage] by blast
  have d: ?D
    unfolding specTouched_def by (rule specQuantities_bounded)
  have e: ?E
    using assms specQuantities_sum_le[of usage tiers] by simp
  have f: ?F
    using assms specQuantities_unbounded_last[of tiers usage] by simp
  have h: ?H
    by simp
  have i: ?I
    by (simp add: CalculateTieredCost_def tierUsage_def)
  show ?thesis
    apply (intro conjI)
    apply (rule a) apply (rule b) apply (rule c) apply (rule d) apply (rule e)
    apply (rule f) apply (rule g) apply (rule h) apply (rule i)
    done
qed

theorem tiered_cost_consumes_tiers_in_order_witness:
  "[\<lparr>tr_Min = 0, tr_Max = Some 100, tr_Price = 9/100, tr_Confidence = 9/10\<rparr>,
    \<lparr>tr_Min = 100, tr_Max = None, tr_Price = 5/100, tr_Confidence = 4/5\<rparr>] \<noteq> []
   \<and> (0::real) < 150
   \<and> sorted (map tr_Min
        [\<lparr>tr_Min = 0, tr_Max = Some 100, tr_Price = 9/100, tr_Confidence = 9/10\<rparr>,
         \<lparr>tr_Min = 100, tr_Max = None, tr_Price = 5/100, tr_Confidence = 4/5\<rparr>])
   \<and> map tr_Confidence (specTouched
        [\<lparr>tr_Min = 0, tr_Max = Some 100, tr_Price = 9/100, tr_Confidence = 9/10\<rparr>,
         \<lparr>tr_Min = 100, tr_Max = None, tr_Price = 5/100, tr_Confidence = 4/5\<rparr>] 150)
       = [9/10, 4/5]
   \<and> tr_Max (last
        [\<lparr>tr_Min = 0, tr_Max = Some 100, tr_Price = 9/100, tr_Confidence = 9/10\<rparr>,
         \<lparr>tr_Min = 100, tr_Max = None, tr_Price = 5/100, tr_Confidence = 4/5\<rparr>]) = None
   \<and> (1::nat) < length (specQuantities
        [\<lparr>tr_Min = 0, tr_Max = Some 100, tr_Price = 9/100, tr_Confidence = 9/10\<rparr>,
         \<lparr>tr_Min = 100, tr_Max = None, tr_Price = 5/100, tr_Confidence = 4/5\<rparr>] 150)
   \<and> CalculateTieredCost 150
        [\<lparr>tr_Min = 0, tr_Max = Some 100, tr_Price = 9/100, tr_Confidence = 9/10\<rparr>,
         \<lparr>tr_Min = 100, tr_Max = None, tr_Price = 5/100, tr_Confidence = 4/5\<rparr>]
       = specTieredCost 150
        [\<lparr>tr_Min = 0, tr_Max = Some 100, tr_Price = 9/100, tr_Confidence = 9/10\<rparr>,
         \<lparr>tr_Min = 100, tr_Max = None, tr_Price = 5/100, tr_Confidence = 4/5\<rparr>]
   \<and> specQuantities
        [\<lparr>tr_Min = 0, tr_Max = Some 100, tr_Price = 9/100, tr_Confidence = 9/10\<rparr>,
         \<lparr>tr_Min = 100, tr_Max = None, tr_Price = 5/100, tr_Confidence = 4/5\<rparr>] 150 ! 1
       = 150 - sum_list (take 1 (specQuantities
        [\<lparr>tr_Min = 0, tr_Max = Some 100, tr_Price = 9/100, tr_Confidence = 9/10\<rparr>,
         \<lparr>tr_Min = 100, tr_Max = None, tr_Price = 5/100, tr_Confidence = 4/5\<rparr>] 150))
   \<and> sum_list (specQuantities
        [\<lparr>tr_Min = 0, tr_Max = Some 100, tr_Price = 9/100, tr_Confidence = 9/10\<rparr>,
         \<lparr>tr_Min = 100, tr_Max = None, tr_Price = 5/100, tr_Confidence = 4/5\<rparr>] 150) = 150
   \<and> specTieredCost 150
        [\<lparr>tr_Min = 0, tr_Max = Some 100, tr_Price = 9/100, tr_Confidence = 9/10\<rparr>,
         \<lparr>tr_Min = 100, tr_Max = None, tr_Price = 5/100, tr_Confidence = 4/5\<rparr>] = (23/2, 4/5)
   \<and> CalculateTieredCost 150
        [\<lparr>tr_Min = 0, tr_Max = Some 100, tr_Price = 9/100, tr_Confidence = 9/10\<rparr>,
         \<lparr>tr_Min = 100, tr_Max = None, tr_Price = 5/100, tr_Confidence = 4/5\<rparr>] = (23/2, 4/5)"
proof -
  let ?tiers = "[\<lparr>tr_Min = 0, tr_Max = Some 100, tr_Price = 9/100, tr_Confidence = 9/10\<rparr>,
    \<lparr>tr_Min = 100, tr_Max = None, tr_Price = 5/100, tr_Confidence = 4/5\<rparr>]"
  have h1: "?tiers \<noteq> []" by simp
  have h2: "(0::real) < 150" by simp
  have h3: "sorted (map tr_Min ?tiers)" by simp
  have touched: "specTouched ?tiers 150 = ?tiers"
    by (simp add: specTouched_def)
  have h4: "map tr_Confidence (specTouched ?tiers 150) = [9/10, 4/5]"
    unfolding touched by simp
  have h4': "\<forall>t \<in> set (specTouched ?tiers 150). tr_Confidence t \<le> 1"
    unfolding touched by simp
  have h5: "tr_Max (last ?tiers) = None" by simp
  have h6: "(1::nat) < length (specQuantities ?tiers 150)" by simp
  note main = tiered_cost_consumes_tiers_in_order[OF h1 h2]
  have c1: "CalculateTieredCost 150 ?tiers = specTieredCost 150 ?tiers"
    using main h3 h4' by blast
  have "specQuantities ?tiers 150 ! 1 =
      (case tr_Max (?tiers ! 1) of
         None \<Rightarrow> 150 - sum_list (take 1 (specQuantities ?tiers 150))
       | Some mx \<Rightarrow> min (150 - sum_list (take 1 (specQuantities ?tiers 150)))
                      (mx - tr_Min (?tiers ! 1)))"
    using main h6 by blast
  then have c2: "specQuantities ?tiers 150 ! 1 = 150 - sum_list (take 1 (specQuantities ?tiers 150))"
    by simp
  have c3: "sum_list (specQuantities ?tiers 150) = 150" using main h5 by blast
  have c4: "specTieredCost 150 ?tiers = (23/2, 4/5)"
    by (simp add: specTieredCost_def specTouched_def)
  have c5: "CalculateTieredCost 150 ?tiers = (23/2, 4/5)"
    unfolding c1 by (rule c4)
  from h1 h2 h3 h4 h5 h6 c1 c2 c3 c4 c5 show ?thesis by (intro conjI)
qed
subsection \<open>Sorting by descending key\<close>

lemma mset_moveLeft: "mset (moveLeft key d ds) = add_mset d (mset ds)"
  by (induction ds) simp_all

lemma mset_fold_moveLeft: "mset (fold (moveLeft key) ds acc) = mset ds + mset acc"
  by (induction ds arbitrary: acc) (simp_all add: mset_moveLeft)

lemma mset_sortSliceDesc: "mset (sortSliceDesc key ds) = mset ds"
  by (simp add: sortSliceDesc_def mset_fold_moveLeft)

lemma set_sortSliceDesc: "set (sortSliceDesc key ds) = set ds"
  using mset_sortSliceDesc[of key ds] by (metis set_mset_mset)

lemma length_sortSliceDesc: "length (sortSliceDesc key ds) = length ds"
  using mset_sortSliceDesc[of key ds] by (metis size_mset)

lemma set_moveLeft: "set (moveLeft key d ds) = insert d (set ds)"
  using mset_moveLeft[of key d ds] by (metis set_mset_add_mset_insert set_mset_mset)

lemma sorted_moveLeft:
  "sorted_wrt (\<lambda>a b. key a \<le> key b) ds \<Longrightarrow> sorted_wrt (\<lambda>a b. key a \<le> key b) (moveLeft key d ds)"
  by (induction ds) (auto simp: set_moveLeft)

lemma sorted_fold_moveLeft:
  "sorted_wrt (\<lambda>a b. key a \<le> key b) acc \<Longrightarrow>
   sorted_wrt (\<lambda>a b. key a \<le> key b) (fold (moveLeft key) ds acc)"
  by (induction ds arbitrary: acc) (simp_all add: sorted_moveLeft)

lemma sorted_sortSliceDesc: "sorted_wrt (\<lambda>a b. key b \<le> key a) (sortSliceDesc key ds)"
  using sorted_fold_moveLeft[of key "[]" ds] by (simp add: sortSliceDesc_def sorted_wrt_rev)

text \<open>A slice that is sorted already is left as it is.\<close>

lemma moveLeft_sorted:
  "\<forall>p \<in> set ps. key d \<le> key p \<Longrightarrow> moveLeft key d ps = d # ps"
  by (cases ps) auto

lemma fold_moveLeft_sorted:
  "sorted_wrt (\<lambda>a b. key b \<le> key a) (rev acc @ ds) \<Longrightarrow>
   fold (moveLeft key) ds acc = rev ds @ acc"
proof (induction ds arbitrary: acc)
  case Nil
  show ?case by simp
next
  case (Cons d ds)
  have "\<forall>p \<in> set acc. key d \<le> key p"
    using Cons.prems by (auto simp: sorted_wrt_append)
  then have m: "moveLeft key d acc = d # acc" by (rule moveLeft_sorted)
  have "sorted_wrt (\<lambda>a b. key b \<le> key a) (rev (d # acc) @ ds)"
    using Cons.prems by simp
  from Cons.IH[OF this] m show ?case by simp
qed

lemma sortSliceDesc_sorted:
  "sorted_wrt (\<lambda>a b. key b \<le> key a) ds \<Longrightarrow> sortSliceDesc key ds = ds"
  using fold_moveLeft_sorted[of key "[]" ds] by (simp add: sortSliceDesc_def)

subsection \<open>The loop of the estimation engine\<close>

lemma step_drivers:
  "er_CostDrivers (fst (estimateStep e req c st)) =
     er_CostDrivers (fst st) @ [fst (componentDriver e req c)]"
  by (simp add: estimateStep_def Let_def split_def split: option.splits)

lemma step_conf:
  "snd (estimateStep e req c st) =
     (if cd_Confidence (fst (componentDriver e req c)) < snd st
      then cd_Confidence (fst (componentDriver e req c)) else snd st)"
  by (simp add: estimateStep_def Let_def split_def)

lemma step_symbolic:
  "er_ComponentsSymbolic (fst (estimateStep e req c st)) =
     er_ComponentsSymbolic (fst st) + (if snd (componentDriver e req c) = None then 0 else 1)"
  by (simp add: estimateStep_def Let_def split_def split: option.splits)

lemma step_p50:
  "er_MonthlyCostP50 (fst (estimateStep e req c st)) =
     er_MonthlyCostP50 (fst st) + cd_MonthlyCostP50 (fst (componentDriver e req c))"
  by (simp add: estimateStep_def Let_def split_def split: option.splits)

lemma step_p90:
  "er_MonthlyCostP90 (fst (estimateStep e req c st)) =
     er_MonthlyCostP90 (fst st) + cd_MonthlyCostP90 (fst (componentDriver e req c))"
  by (simp add: estimateStep_def Let_def split_def split: option.splits)

lemma step_carbon:
  "er_CarbonKgCO2 (fst (estimateStep e req c st)) =
     er_CarbonKgCO2 (fst st) + cd_CarbonKgCO2 (fst (componentDriver e req c))"
  by (simp add: estimateStep_def Let_def split_def split: option.splits)

lemma step_incomplete:
  "er_IsIncomplete (fst (estimateStep e req c st)) = er_IsIncomplete (fst st)"
  by (simp add: estimateStep_def Let_def split_def split: option.splits)

lemma loop_drivers:
  "er_CostDrivers (fst (estimateLoop e req cs st)) =
     er_CostDrivers (fst st) @ map (\<lambda>c. fst (componentDriver e req c)) cs"
  by (induction cs arbitrary: st) (simp_all add: step_drivers)

lemma loop_conf:
  "snd (estimateLoop e req cs st) =
     fold (\<lambda>d m. if cd_Confidence d < m then cd_Confidence d else m)
       (map (\<lambda>c. fst (componentDriver e req c)) cs) (snd st)"
  by (induction cs arbitrary: st) (simp_all add: step_conf)

lemma loop_symbolic:
  "er_ComponentsSymbolic (fst (estimateLoop e req cs st)) =
     er_ComponentsSymbolic (fst st)
       + length (filter (\<lambda>c. snd (componentDriver e req c) \<noteq> None) cs)"
  by (induction cs arbitrary: st) (simp_all add: step_symbolic)

lemma loop_p50:
  "er_MonthlyCostP50 (fst (estimateLoop e req cs st)) =
     er_MonthlyCostP50 (fst st)
       + (\<Sum>c\<leftarrow>cs. cd_MonthlyCostP50 (fst (componentDriver e req c)))"
  by (induction cs arbitrary: st) (simp_all add: step_p50)

lemma loop_p90:
  "er_MonthlyCostP90 (fst (estimateLoop e req cs st)) =
     er_MonthlyCostP90 (fst st)
       + (\<Sum>c\<leftarrow>cs. cd_MonthlyCostP90 (fst (componentDriver e req c)))"
  by (induction cs arbitrary: st) (simp_all add: step_p90)

lemma loop_carbon:
  "er_CarbonKgCO2 (fst (estimateLoop e req cs st)) =
     er_CarbonKgCO2 (fst st)
       + (\<Sum>c\<leftarrow>cs. cd_CarbonKgCO2 (fst (componentDriver e req c)))"
  by (induction cs arbitrary: st) (simp_all add: step_carbon)

lemma loop_incomplete:
  "er_IsIncomplete (fst (estimateLoop e req cs st)) = er_IsIncomplete (fst st)"
  by (induction cs arbitrary: st) (simp_all add: step_incomplete)

text \<open>What \<^verbatim>\<open>Estimate\<close> returns, field by field, in terms of the drivers of the components.\<close>

lemma Estimate_drivers:
  "er_CostDrivers (Estimate e now req) =
     sortDrivers (map (\<lambda>c. fst (componentDriver e (withDefaultAlias req) c))
       (rq_Components (withDefaultAlias req)))"
  by (simp add: Estimate_def Let_def split_def loop_drivers initialResult_def)

lemma Estimate_symbolic:
  "er_ComponentsSymbolic (Estimate e now req) =
     length (filter (\<lambda>c. snd (componentDriver e (withDefaultAlias req) c) \<noteq> None)
       (rq_Components (withDefaultAlias req)))"
  by (simp add: Estimate_def Let_def split_def loop_symbolic initialResult_def)

lemma Estimate_incomplete:
  "er_IsIncomplete (Estimate e now req) \<longleftrightarrow>
     (\<exists>c \<in> set (rq_Components (withDefaultAlias req)).
         snd (componentDriver e (withDefaultAlias req) c) \<noteq> None)"
  by (auto simp add: Estimate_def Let_def split_def loop_symbolic loop_incomplete
      initialResult_def filter_empty_conv)

lemma Estimate_p50:
  "er_MonthlyCostP50 (Estimate e now req) =
     (\<Sum>c\<leftarrow>rq_Components (withDefaultAlias req).
        cd_MonthlyCostP50 (fst (componentDriver e (withDefaultAlias req) c)))"
  by (simp add: Estimate_def Let_def split_def loop_p50 initialResult_def)

lemma Estimate_p90:
  "er_MonthlyCostP90 (Estimate e now req) =
     (\<Sum>c\<leftarrow>rq_Components (withDefaultAlias req).
        cd_MonthlyCostP90 (fst (componentDriver e (withDefaultAlias req) c)))"
  by (simp add: Estimate_def Let_def split_def loop_p90 initialResult_def)

lemma Estimate_carbon:
  "er_CarbonKgCO2 (Estimate e now req) =
     (\<Sum>c\<leftarrow>rq_Components (withDefaultAlias req).
        cd_CarbonKgCO2 (fst (componentDriver e (withDefaultAlias req) c)))"
  by (simp add: Estimate_def Let_def split_def loop_carbon initialResult_def)

lemma fold_min_driver_confidence:
  "fold (\<lambda>d m. if cd_Confidence d < m then cd_Confidence d else m) ds m =
     Min (insert m (cd_Confidence ` set ds))"
proof (induction ds arbitrary: m)
  case Nil
  show ?case by simp
next
  case (Cons d ds)
  have "Min (insert (if cd_Confidence d < m then cd_Confidence d else m) (cd_Confidence ` set ds))
        = Min (insert m (insert (cd_Confidence d) (cd_Confidence ` set ds)))"
    by (cases "cd_Confidence ` set ds = {}") (auto simp: min_def Min_insert2 not_less)
  with Cons show ?case by simp
qed

lemma Estimate_confidence:
  "er_Confidence (Estimate e now req) =
     Min (insert 1 (cd_Confidence ` set (er_CostDrivers (Estimate e now req))))"
proof -
  have "er_Confidence (Estimate e now req) =
     fold (\<lambda>d m. if cd_Confidence d < m then cd_Confidence d else m)
       (map (\<lambda>c. fst (componentDriver e (withDefaultAlias req) c))
          (rq_Components (withDefaultAlias req))) 1"
    by (simp add: Estimate_def Let_def split_def loop_conf initialResult_def)
  then show ?thesis
    by (simp add: fold_min_driver_confidence Estimate_drivers sortDrivers_def set_sortSliceDesc)
qed

text \<open>The driver of a component, by the answer of the pricing store for it.\<close>

lemma componentDriver_error:
  assumes "storeAnswer e req c = Inl err"
  shows "componentDriver e req c =
           (createSymbolicDriver c (''pricing resolution failed: '' @ err),
            Some (''pricing resolution failed: '' @ err))"
  using assms by (simp add: componentDriver_def estimateComponent_def Let_def)

lemma componentDriver_not_found:
  assumes "storeAnswer e req c = Inr None"
  shows "snd (componentDriver e req c) = None"
    and "cd_IsSymbolic (fst (componentDriver e req c))"
    and "cd_MonthlyCostP50 (fst (componentDriver e req c)) = 0"
    and "cd_MonthlyCostP90 (fst (componentDriver e req c)) = 0"
    and "cd_Reason (fst (componentDriver e req c)) = ''no pricing data available''"
    and "cd_Confidence (fst (componentDriver e req c)) = vp_Confidence (bc_VarianceProfile c)"
  using assms
  by (simp_all add: componentDriver_def estimateComponent_def Let_def
      zeroCostDriver_def)


subsection \<open>Policy evaluation\<close>

lemma evaluateStep_deny_absorbing:
  "ev_Decision r = DecisionDeny \<Longrightarrow> ev_Decision (evaluateStep req p r) = DecisionDeny"
  by (simp add: evaluateStep_def Let_def split_def split: option.splits)

lemma evaluateLoop_deny_absorbing:
  "ev_Decision r = DecisionDeny \<Longrightarrow> ev_Decision (evaluateLoop req ps r) = DecisionDeny"
  by (induction ps arbitrary: r) (simp_all add: evaluateStep_deny_absorbing)

lemma evaluateLoop_append:
  "evaluateLoop req (ps @ qs) r = evaluateLoop req qs (evaluateLoop req ps r)"
  by (induction ps arbitrary: r) simp_all

lemma prod_incomplete_step:
  assumes "er_IsIncomplete (evq_Estimation req)" and "evq_Environment req = ''prod''"
  shows "ev_Decision (evaluateStep req (defaultPolicies ! 1) r) = DecisionDeny"
  using assms
  by (simp add: evaluateStep_def evaluatePolicy_def defaultPolicies_def Let_def
      PolicyTypeIncompleteEstimate_def PolicyTypeCostLimit_def PolicyTypeConfidenceThreshold_def
      PolicyTypeCarbonBudget_def SeverityError_def)

lemma defaultPolicies_deny:
  assumes "er_IsIncomplete (evq_Estimation req)" and "evq_Environment req = ''prod''"
  shows "ev_Decision (evaluateLoop req defaultPolicies r) = DecisionDeny"
proof -
  have "defaultPolicies = [defaultPolicies ! 0, defaultPolicies ! 1]"
    by (simp add: defaultPolicies_def)
  then have "evaluateLoop req defaultPolicies r =
      evaluateStep req (defaultPolicies ! 1) (evaluateStep req (defaultPolicies ! 0) r)"
    by (metis evaluateLoop.simps)
  with prod_incomplete_step[OF assms] show ?thesis by simp
qed

lemma policies_of_built_engine:
  "pe_policies (fold (\<lambda>p e. AddPolicy e p) added e) = pe_policies e @ added"
  by (induction added arbitrary: e) (simp_all add: AddPolicy_def)

lemma Evaluate_deny_from_loop:
  assumes "ev_Decision (evaluateLoop req (pe_policies e @ evq_CustomPolicies req)
             \<lparr>ev_Decision = DecisionPass, ev_Violations = [], ev_Warnings = [],
              ev_PoliciesRan = 0, ev_EvaluatedAt = now\<rparr>) = DecisionDeny"
  shows "ev_Decision (Evaluate e now httpOk req) = DecisionDeny"
  using assms by (simp add: Evaluate_def Let_def split: sum.splits option.splits)

lemma EvaluatorEvaluate_incomplete:
  assumes "res_IsIncomplete est"
  shows "EvaluatorEvaluate files est =
           Inr \<lparr>plr_Denials =
                  [''BLOCKED: Estimation is incomplete - cannot evaluate policies on partial data''],
                plr_Warnings = [], plr_Passed = False\<rparr>"
  using assms by (simp add: EvaluatorEvaluate_def)

text \<open>
  Claim C4. A policy engine is built by \<^verbatim>\<open>NewEngine\<close>, which installs the default policies,
  followed by \<^verbatim>\<open>WithOPA\<close> and any number of \<^verbatim>\<open>AddPolicy\<close>; policies can only be appended.
  For every such engine, every list of custom policies in the request and every outcome of
  the OPA call, an estimation with \<^verbatim>\<open>IsIncomplete\<close> set, evaluated for the environment
  \<^verbatim>\<open>prod\<close>, gets the decision deny. The evaluator of the platform services blocks an
  incomplete estimation before it reads any policy file, in every environment: it returns a
  result that has not passed and carries a denial.
\<close>

theorem incomplete_in_prod_is_denied:
  assumes "er_IsIncomplete (evq_Estimation req)" and "evq_Environment req = ''prod''"
    and "res_IsIncomplete est"
  shows "ev_Decision (Evaluate (fold (\<lambda>p e. AddPolicy e p) added (WithOPA NewPolicyEngine endpoint))
            now httpOk req) = DecisionDeny
       \<and> (case EvaluatorEvaluate files est of
             Inl err \<Rightarrow> False
           | Inr result \<Rightarrow> \<not> plr_Passed result \<and> plr_Denials result \<noteq> [])"
proof -
  let ?e = "fold (\<lambda>p e. AddPolicy e p) added (WithOPA NewPolicyEngine endpoint)"
  have "pe_policies ?e = defaultPolicies @ added"
    by (simp add: policies_of_built_engine WithOPA_def NewPolicyEngine_def)
  then have "evaluateLoop req (pe_policies ?e @ evq_CustomPolicies req) r =
      evaluateLoop req (added @ evq_CustomPolicies req) (evaluateLoop req defaultPolicies r)" for r
    by (simp add: evaluateLoop_append)
  then have "ev_Decision (evaluateLoop req (pe_policies ?e @ evq_CustomPolicies req) r)
               = DecisionDeny" for r
    using defaultPolicies_deny[OF assms(1,2)] evaluateLoop_deny_absorbing by simp
  then have "ev_Decision (Evaluate ?e now httpOk req) = DecisionDeny"
    by (rule Evaluate_deny_from_loop)
  moreover have "case EvaluatorEvaluate files est of
             Inl err \<Rightarrow> False
           | Inr result \<Rightarrow> \<not> plr_Passed result \<and> plr_Denials result \<noteq> []"
    by (simp add: EvaluatorEvaluate_incomplete[OF assms(3)])
  ultimately show ?thesis by simp
qed

subsection \<open>Fail-closed aggregation in the estimation engine\<close>

lemmas example_defs = exampleEngine_def exampleStore_def exampleComponent_def exampleRequest_def
  withDefaultAlias_def storeAnswer_def billingPeriodToUnit_def

lemma example_priced_driver: "componentDriver exampleEngine (withDefaultAlias (exampleRequest cs))
     (exampleComponent n ''AmazonEC2'' 100 120 c) =
   (zeroCostDriver\<lparr>cd_ID := ''driver-'' @ n, cd_ComponentID := n, cd_ResourceAddr := n,
      cd_Cloud := ''aws'', cd_Service := ''AmazonEC2'', cd_ProductFamily := ''Compute Instance'',
      cd_Region := ''us-east-1'', cd_UsageP50 := 100, cd_UsageP90 := 120,
      cd_Confidence := min_float c 1, cd_UnitPrice := 1/10, cd_SnapshotID := 7,
      cd_Source := ''aws_pricing_api'', cd_MonthlyCostP50 := 10, cd_MonthlyCostP90 := 12,
      cd_UsageUnit := ''hours'', cd_CarbonKgCO2 := 146/5\<rparr>, None)"
  by (simp add: componentDriver_def estimateComponent_def example_defs Let_def decRound_def
      estimateCarbonForComponent_def zeroCostDriver_def)

lemma example_failed_component:
  "componentDriver exampleEngine (withDefaultAlias (exampleRequest cs))
     (exampleComponent n ''AmazonMQ'' p50 p90 c) =
   (createSymbolicDriver (exampleComponent n ''AmazonMQ'' p50 p90 c)
      ''pricing resolution failed: connection refused'',
    Some ''pricing resolution failed: connection refused'')"
  by (rule componentDriver_error[where err="''connection refused''", simplified])
     (simp add: example_defs)

lemma example_estimate_incomplete:
  "er_IsIncomplete (Estimate exampleEngine 0 (exampleRequest
       [exampleComponent ''web'' ''AmazonEC2'' 100 120 (9 / 10),
        exampleComponent ''queue'' ''AmazonMQ'' 730 730 (9 / 10)]))"
proof -
  have "rq_Components (withDefaultAlias (exampleRequest
       [exampleComponent ''web'' ''AmazonEC2'' 100 120 (9 / 10),
        exampleComponent ''queue'' ''AmazonMQ'' 730 730 (9 / 10)])) =
       [exampleComponent ''web'' ''AmazonEC2'' 100 120 (9 / 10),
        exampleComponent ''queue'' ''AmazonMQ'' 730 730 (9 / 10)]"
    by (simp add: withDefaultAlias_def exampleRequest_def)
  then show ?thesis
    unfolding Estimate_incomplete by (simp add: example_failed_component)
qed

text \<open>
  Claim C1, evaluated on the code. Two components, one priced at 0.10 per hour with a
  median usage of 100 hours, one whose price resolution fails with an error.
  \<^verbatim>\<open>Engine.Estimate\<close> marks the result incomplete and keeps both drivers, the second one
  symbolic, but the totals stay at the sums over the drivers: 10 and 12 for the cost and
  29.2 for the carbon, where the claim has 0.
\<close>

theorem incomplete_estimate_keeps_totals:
  "er_IsIncomplete (Estimate exampleEngine 0 (exampleRequest
       [exampleComponent ''web'' ''AmazonEC2'' 100 120 (9 / 10),
        exampleComponent ''queue'' ''AmazonMQ'' 730 730 (9 / 10)]))
   \<and> er_MonthlyCostP50 (Estimate exampleEngine 0 (exampleRequest
       [exampleComponent ''web'' ''AmazonEC2'' 100 120 (9 / 10),
        exampleComponent ''queue'' ''AmazonMQ'' 730 730 (9 / 10)])) = 10
   \<and> er_MonthlyCostP90 (Estimate exampleEngine 0 (exampleRequest
       [exampleComponent ''web'' ''AmazonEC2'' 100 120 (9 / 10),
        exampleComponent ''queue'' ''AmazonMQ'' 730 730 (9 / 10)])) = 12
   \<and> er_CarbonKgCO2 (Estimate exampleEngine 0 (exampleRequest
       [exampleComponent ''web'' ''AmazonEC2'' 100 120 (9 / 10),
        exampleComponent ''queue'' ''AmazonMQ'' 730 730 (9 / 10)])) = 146 / 5
   \<and> map cd_IsSymbolic (er_CostDrivers (Estimate exampleEngine 0 (exampleRequest
       [exampleComponent ''web'' ''AmazonEC2'' 100 120 (9 / 10),
        exampleComponent ''queue'' ''AmazonMQ'' 730 730 (9 / 10)]))) = [False, True]"
proof -
  let ?req = "exampleRequest
       [exampleComponent ''web'' ''AmazonEC2'' 100 120 (9 / 10),
        exampleComponent ''queue'' ''AmazonMQ'' 730 730 (9 / 10)]"
  have comps: "rq_Components (withDefaultAlias ?req) =
       [exampleComponent ''web'' ''AmazonEC2'' 100 120 (9 / 10),
        exampleComponent ''queue'' ''AmazonMQ'' 730 730 (9 / 10)]"
    by (simp add: withDefaultAlias_def exampleRequest_def)
  have q: "componentDriver exampleEngine (withDefaultAlias ?req)
             (exampleComponent ''queue'' ''AmazonMQ'' 730 730 (9 / 10)) =
           (createSymbolicDriver (exampleComponent ''queue'' ''AmazonMQ'' 730 730 (9 / 10))
              ''pricing resolution failed: connection refused'',
            Some ''pricing resolution failed: connection refused'')"
    by (rule componentDriver_error[where err="''connection refused''", simplified])
       (simp add: example_defs)
  note w = example_priced_driver[of _ "''web''" "9/10"]
  have 1: "er_IsIncomplete (Estimate exampleEngine 0 ?req)"
    unfolding Estimate_incomplete comps by (simp add: q)
  have 2: "er_MonthlyCostP50 (Estimate exampleEngine 0 ?req) = 10"
    unfolding Estimate_p50 comps by (simp add: q w createSymbolicDriver_def zeroCostDriver_def)
  have 3: "er_MonthlyCostP90 (Estimate exampleEngine 0 ?req) = 12"
    unfolding Estimate_p90 comps by (simp add: q w createSymbolicDriver_def zeroCostDriver_def)
  have 4: "er_CarbonKgCO2 (Estimate exampleEngine 0 ?req) = 146 / 5"
    unfolding Estimate_carbon comps by (simp add: q w createSymbolicDriver_def zeroCostDriver_def)
  have 5: "map cd_IsSymbolic (er_CostDrivers (Estimate exampleEngine 0 ?req)) = [False, True]"
    unfolding Estimate_drivers comps
    by (simp add: q w createSymbolicDriver_def zeroCostDriver_def sortDrivers_def sortSliceDesc_def)
  from 1 2 3 4 5 show ?thesis by (intro conjI)
qed

text \<open>
  Claim C2, evaluated on the code. One component for which the pricing store has no row.
  The driver \<^verbatim>\<open>Engine.Estimate\<close> emits is marked symbolic, costs 0 and carries the reason,
  but its confidence is the 0.85 of the component's variance profile, not 0, and the
  estimation is not marked incomplete: the counter of symbolic components stays 0 and the
  aggregate confidence is 0.85.
\<close>

theorem price_not_found_driver_keeps_confidence:
  "map (\<lambda>d. (cd_IsSymbolic d, cd_MonthlyCostP50 d, cd_MonthlyCostP90 d, cd_Reason d, cd_Confidence d))
      (er_CostDrivers (Estimate exampleEngine 0 (exampleRequest
         [exampleComponent ''db'' ''AmazonRDS'' 730 730 (85 / 100)])))
     = [(True, 0, 0, ''no pricing data available'', 85 / 100)]
   \<and> \<not> er_IsIncomplete (Estimate exampleEngine 0 (exampleRequest
         [exampleComponent ''db'' ''AmazonRDS'' 730 730 (85 / 100)]))
   \<and> er_Confidence (Estimate exampleEngine 0 (exampleRequest
         [exampleComponent ''db'' ''AmazonRDS'' 730 730 (85 / 100)])) = 85 / 100
   \<and> er_ComponentsSymbolic (Estimate exampleEngine 0 (exampleRequest
         [exampleComponent ''db'' ''AmazonRDS'' 730 730 (85 / 100)])) = 0"
proof -
  let ?c = "exampleComponent ''db'' ''AmazonRDS'' 730 730 (85 / 100)"
  let ?req = "exampleRequest [?c]"
  have comps: "rq_Components (withDefaultAlias ?req) = [?c]"
    by (simp add: withDefaultAlias_def exampleRequest_def)
  have ans: "storeAnswer exampleEngine (withDefaultAlias ?req) ?c = Inr None"
    by (simp add: example_defs)
  note nf = componentDriver_not_found[OF ans]
  have conf: "cd_Confidence (fst (componentDriver exampleEngine (withDefaultAlias ?req) ?c)) = 85 / 100"
    using nf(6) by (simp add: exampleComponent_def)
  have 1: "map (\<lambda>d. (cd_IsSymbolic d, cd_MonthlyCostP50 d, cd_MonthlyCostP90 d, cd_Reason d, cd_Confidence d))
      (er_CostDrivers (Estimate exampleEngine 0 ?req))
     = [(True, 0, 0, ''no pricing data available'', 85 / 100)]"
    unfolding Estimate_drivers comps
    using nf conf by (simp add: sortDrivers_def sortSliceDesc_def)
  have 2: "\<not> er_IsIncomplete (Estimate exampleEngine 0 ?req)"
    unfolding Estimate_incomplete comps using nf(1) by simp
  have 3: "er_Confidence (Estimate exampleEngine 0 ?req) = 85 / 100"
    unfolding Estimate_confidence unfolding Estimate_drivers comps
    using conf by (simp add: sortDrivers_def sortSliceDesc_def)
  have 4: "er_ComponentsSymbolic (Estimate exampleEngine 0 ?req) = 0"
    unfolding Estimate_symbolic comps using nf(1) by simp
  from 1 2 3 4 show ?thesis by (intro conjI)
qed

text \<open>
  The estimation of the two example components, one of them failing, is incomplete; a
  policy engine with a disabled custom cost limit denies it in \<^verbatim>\<open>prod\<close>, and the evaluator
  blocks the calculator's result for a plan with a mapping error.
\<close>

lemma example_calculation_incomplete:
  "res_IsIncomplete (CalculateFromComponents (\<lambda>costs. costs)
      \<lparr>sr_Components = [],
       sr_MappingErrors = [\<lparr>ame_Code = ''UNSUPPORTED_RESOURCE'',
                            ame_Message = ''no mapper'', ame_Recoverable = False\<rparr>]\<rparr>
      \<lparr>ur_Predictions = [], ur_AverageConfidence = 0, ur_Environment = ''prod''\<rparr>
      \<lparr>prr_Prices = [], prr_Warnings = []\<rparr>)"
  by (simp add: CalculateFromComponents_def)

theorem incomplete_in_prod_is_denied_witness:
  "er_IsIncomplete (evq_Estimation
     \<lparr>evq_Estimation = Estimate exampleEngine 0 (exampleRequest
         [exampleComponent ''web'' ''AmazonEC2'' 100 120 (9 / 10),
          exampleComponent ''queue'' ''AmazonMQ'' 730 730 (9 / 10)]),
      evq_Environment = ''prod'', evq_CustomPolicies = []\<rparr>)
   \<and> evq_Environment
     \<lparr>evq_Estimation = Estimate exampleEngine 0 (exampleRequest
         [exampleComponent ''web'' ''AmazonEC2'' 100 120 (9 / 10),
          exampleComponent ''queue'' ''AmazonMQ'' 730 730 (9 / 10)]),
      evq_Environment = ''prod'', evq_CustomPolicies = []\<rparr> = ''prod''
   \<and> res_IsIncomplete (CalculateFromComponents (\<lambda>costs. costs)
      \<lparr>sr_Components = [],
       sr_MappingErrors = [\<lparr>ame_Code = ''UNSUPPORTED_RESOURCE'',
                            ame_Message = ''no mapper'', ame_Recoverable = False\<rparr>]\<rparr>
      \<lparr>ur_Predictions = [], ur_AverageConfidence = 0, ur_Environment = ''prod''\<rparr>
      \<lparr>prr_Prices = [], prr_Warnings = []\<rparr>)
   \<and> ev_Decision (Evaluate
        (fold (\<lambda>p e. AddPolicy e p)
           [\<lparr>po_ID = ''team-limit'', po_Name = ''Cost Limit'', po_Description = [],
             po_Type = PolicyTypeCostLimit, po_Severity = SeverityWarning,
             po_Threshold = 1000, po_Enabled = False\<rparr>]
           (WithOPA NewPolicyEngine []))
        0 True
        \<lparr>evq_Estimation = Estimate exampleEngine 0 (exampleRequest
            [exampleComponent ''web'' ''AmazonEC2'' 100 120 (9 / 10),
             exampleComponent ''queue'' ''AmazonMQ'' 730 730 (9 / 10)]),
         evq_Environment = ''prod'', evq_CustomPolicies = []\<rparr>) = DecisionDeny"
proof -
  let ?req = "\<lparr>evq_Estimation = Estimate exampleEngine 0 (exampleRequest
         [exampleComponent ''web'' ''AmazonEC2'' 100 120 (9 / 10),
          exampleComponent ''queue'' ''AmazonMQ'' 730 730 (9 / 10)]),
      evq_Environment = ''prod'', evq_CustomPolicies = []\<rparr>"
  have h1: "er_IsIncomplete (evq_Estimation ?req)"
    by (simp add: example_estimate_incomplete)
  have h2: "evq_Environment ?req = ''prod''" by simp
  note h3 = example_calculation_incomplete
  from incomplete_in_prod_is_denied[OF h1 h2 h3] h1 h2 h3 show ?thesis by blast
qed

subsection \<open>Aggregate confidence\<close>


lemma productLoop_positive:
  "\<forall>s \<in> set scores. 0 < s \<Longrightarrow> productLoop scores p = Some (p * prod_list scores)"
  by (induction scores arbitrary: p) (simp_all add: mult.assoc)

lemma productLoop_nonpositive:
  "\<exists>s \<in> set scores. s \<le> 0 \<Longrightarrow> productLoop scores p = None"
  by (induction scores arbitrary: p) auto

lemma Aggregate_geometric_mean:
  assumes "scores \<noteq> []" and "\<forall>s \<in> set scores. 0 < s"
  shows "Aggregate scores = root (length scores) (prod_list scores)"
    and "Aggregate scores ^ length scores = prod_list scores"
proof -
  have pos: "0 < prod_list scores" using assms(2) by (induction scores) simp_all
  have n: "0 < length scores" using assms(1) by simp
  have agg: "Aggregate scores = prod_list scores powr (1 / real (length scores))"
    using assms by (simp add: Aggregate_def productLoop_positive)
  show r: "Aggregate scores = root (length scores) (prod_list scores)"
    using pos n by (simp add: agg root_powr_inverse inverse_eq_divide)
  show "Aggregate scores ^ length scores = prod_list scores"
    unfolding r using pos n by simp
qed

lemma Aggregate_zero:
  "\<exists>s \<in> set scores. s \<le> 0 \<Longrightarrow> Aggregate scores = 0"
  by (simp add: Aggregate_def productLoop_nonpositive)




subsection \<open>Usage forecasting\<close>

lemma predictLoop_map:
  "predictLoop profile cs st =
     (fst st @ map (\<lambda>c. predictComponent c profile) cs,
      snd st + (\<Sum>c\<leftarrow>cs. up_Confidence (predictComponent c profile)))"
  by (induction cs arbitrary: st) (simp_all add: Let_def add.assoc)

lemma Predict_predictions:
  "ur_Predictions (Predict p cs env) = map (\<lambda>c. predictComponent c (selectProfile p env)) cs"
  by (simp add: Predict_def Let_def split_def predictLoop_map)

lemma predictComponent_on_demand:
  assumes "abc_Type c = ComponentTypeCompute" and "abc_UsageType c = UsageTypeOnDemand"
  shows "up_P50 (predictComponent c profile) = 730 * pf_UtilizationFactor profile"
    and "up_P90 (predictComponent c profile) =
           730 * pf_UtilizationFactor profile * pf_VarianceFactor profile"
  using assms by (simp_all add: predictComponent_def predictCompute_def Let_def)

text \<open>
  Claim C8 as amended. For every compute component with on-demand usage and every
  profile, the forecast has P50 = 730 times the utilization factor and P90 = P50 times the
  variance factor. Nothing caps P90: it is at most 730 exactly when utilization times
  variance factor is at most 1.
\<close>

theorem compute_on_demand_forecast_uncapped:
  assumes "abc_Type c = ComponentTypeCompute" and "abc_UsageType c = UsageTypeOnDemand"
  shows "up_P50 (predictComponent c profile) = 730 * pf_UtilizationFactor profile
       \<and> up_P90 (predictComponent c profile) =
           up_P50 (predictComponent c profile) * pf_VarianceFactor profile
       \<and> (up_P90 (predictComponent c profile) \<le> 730
            \<longleftrightarrow> pf_UtilizationFactor profile * pf_VarianceFactor profile \<le> 1)
       \<and> ur_Predictions (Predict p [c] env) = [predictComponent c (selectProfile p env)]"
  using predictComponent_on_demand[OF assms, of profile]
  by (simp add: Predict_predictions)

theorem compute_on_demand_forecast_uncapped_witness:
  "abc_Type exampleCompute = ComponentTypeCompute
   \<and> abc_UsageType exampleCompute = UsageTypeOnDemand
   \<and> up_P50 (predictComponent exampleCompute prodProfile) = 511
   \<and> up_P90 (predictComponent exampleCompute prodProfile) = 1533 / 2"
proof -
  have h1: "abc_Type exampleCompute = ComponentTypeCompute" by (simp add: exampleCompute_def)
  have h2: "abc_UsageType exampleCompute = UsageTypeOnDemand" by (simp add: exampleCompute_def)
  from compute_on_demand_forecast_uncapped[OF h1 h2, of prodProfile] h1 h2
  show ?thesis by (simp add: prodProfile_def)
qed

lemma selectProfile_NewPredictor:
  "selectProfile NewPredictor ''prod'' = prodProfile"
  "selectProfile NewPredictor ''dev'' = devProfile"
  "selectProfile NewPredictor ''staging'' = stagingProfile"
  by (simp_all add: selectProfile_def NewPredictor_def)

text \<open>
  Claim C8 fails under the profile \<^verbatim>\<open>prod\<close> of \<^verbatim>\<open>NewPredictor\<close> (utilization 0.7, variance
  factor 1.5): the forecast of an on-demand compute component is P50 = 511 and
  P90 = 766.5 hours, more than 730.
\<close>

theorem prod_forecast_exceeds_730:
  "map up_P50 (ur_Predictions (Predict NewPredictor [exampleCompute] ''prod'')) = [511]
   \<and> map up_P90 (ur_Predictions (Predict NewPredictor [exampleCompute] ''prod'')) = [1533 / 2]
   \<and> (730::real) < 1533 / 2"
proof -
  have h1: "abc_Type exampleCompute = ComponentTypeCompute" by (simp add: exampleCompute_def)
  have h2: "abc_UsageType exampleCompute = UsageTypeOnDemand" by (simp add: exampleCompute_def)
  show ?thesis
    by (simp add: Predict_predictions selectProfile_NewPredictor
        predictComponent_on_demand[OF h1 h2] prodProfile_def)
qed

lemma selectProfile_unknown:
  assumes "pd_profiles p env = None"
  shows "selectProfile p env = selectProfile p ''dev''"
  using assms by (simp add: selectProfile_def split: option.splits)

text \<open>
  For an environment that names no registered profile \<^verbatim>\<open>Predict\<close> works with the profile
  registered as \<^verbatim>\<open>dev\<close>: the result is the one for the environment \<^verbatim>\<open>dev\<close>, one prediction
  per component, with the requested name in its environment field.
\<close>

lemma Predict_unknown_environment:
  assumes "pd_profiles p env = None"
  shows "Predict p cs env = (Predict p cs ''dev'')\<lparr>ur_Environment := env\<rparr>
       \<and> ur_Predictions (Predict p cs env) = ur_Predictions (Predict p cs ''dev'')
       \<and> length (ur_Predictions (Predict p cs env)) = length cs"
  by (simp add: Predict_def Let_def split_def selectProfile_unknown[OF assms] predictLoop_map)

text \<open>
  Claim C9. The callers of \<^verbatim>\<open>Predict\<close> (the command line and the two HTTP handlers) stop
  with an error when the result reports an unknown environment, under the comment
  \<^verbatim>\<open>FAIL-CLOSED: Unknown environment is a fatal error\<close>. \<^verbatim>\<open>Predict\<close> never reports one: its
  result has the three fields \<^verbatim>\<open>Predictions\<close>, \<^verbatim>\<open>AverageConfidence\<close> and \<^verbatim>\<open>Environment\<close> only,
  and for the environment \<^verbatim>\<open>qa\<close>, which \<^verbatim>\<open>NewPredictor\<close> does not register, it answers with
  the forecast of the \<^verbatim>\<open>dev\<close> profile, 146 and 189.8 hours, under the name \<^verbatim>\<open>qa\<close>.
\<close>

theorem unknown_environment_is_forecast:
  "pd_profiles NewPredictor ''qa'' = None
   \<and> map up_P50 (ur_Predictions (Predict NewPredictor [exampleCompute] ''qa'')) = [146]
   \<and> map up_P90 (ur_Predictions (Predict NewPredictor [exampleCompute] ''qa'')) = [949 / 5]
   \<and> ur_Environment (Predict NewPredictor [exampleCompute] ''qa'') = ''qa''
   \<and> Predict NewPredictor [exampleCompute] ''qa'' =
       (Predict NewPredictor [exampleCompute] ''dev'')\<lparr>ur_Environment := ''qa''\<rparr>"
proof -
  have h: "pd_profiles NewPredictor ''qa'' = None" by (simp add: NewPredictor_def)
  have h1: "abc_Type exampleCompute = ComponentTypeCompute" by (simp add: exampleCompute_def)
  have h2: "abc_UsageType exampleCompute = UsageTypeOnDemand" by (simp add: exampleCompute_def)
  have env: "ur_Environment (Predict NewPredictor [exampleCompute] ''qa'') = ''qa''"
    by (simp add: Predict_def Let_def split_def)
  have same: "Predict NewPredictor [exampleCompute] ''qa'' =
       (Predict NewPredictor [exampleCompute] ''dev'')\<lparr>ur_Environment := ''qa''\<rparr>"
    using Predict_unknown_environment[OF h] by blast
  have p50: "map up_P50 (ur_Predictions (Predict NewPredictor [exampleCompute] ''qa'')) = [146]"
    by (simp add: Predict_predictions selectProfile_unknown[OF h] selectProfile_NewPredictor
        predictComponent_on_demand[OF h1 h2] devProfile_def)
  have p90: "map up_P90 (ur_Predictions (Predict NewPredictor [exampleCompute] ''qa'')) = [949 / 5]"
    by (simp add: Predict_predictions selectProfile_unknown[OF h] selectProfile_NewPredictor
        predictComponent_on_demand[OF h1 h2] devProfile_def)
  from h p50 p90 env same show ?thesis by (intro conjI)
qed
subsection \<open>Driver extraction in the calculator\<close>

lemma addCost_keys: "fst ` set (addCost cs k v) = insert k (fst ` set cs)"
  by (induction cs k v rule: addCost.induct) auto

lemma addCost_distinct: "distinct (map fst cs) \<Longrightarrow> distinct (map fst (addCost cs k v))"
proof (induction cs k v rule: addCost.induct)
  case (1 k v)
  show ?case by simp
next
  case (2 k' c rest k v)
  show ?case
  proof (cases "k' = k")
    case True
    with 2 show ?thesis by simp
  next
    case False
    have "k' \<notin> fst ` set (addCost rest k v)"
      using 2(2) False by (simp add: addCost_keys)
    with 2 False show ?thesis by simp
  qed
qed

lemma fold_addCost_keys:
  "fst ` set (fold (\<lambda>item costs. addCost costs (li_ResourceID item) (li_MonthlyCost item)) lineage cs)
     = fst ` set cs \<union> li_ResourceID ` set lineage"
  by (induction lineage arbitrary: cs) (simp_all add: addCost_keys)

lemma fold_addCost_distinct:
  "distinct (map fst cs) \<Longrightarrow>
   distinct (map fst (fold (\<lambda>item costs. addCost costs (li_ResourceID item) (li_MonthlyCost item)) lineage cs))"
  by (induction lineage arbitrary: cs) (simp_all add: addCost_distinct)

lemma lineageCosts_keys: "fst ` set (lineageCosts lineage) = li_ResourceID ` set lineage"
  by (simp add: lineageCosts_def fold_addCost_keys)

lemma lineageCosts_distinct: "distinct (map fst (lineageCosts lineage))"
  by (simp add: lineageCosts_def fold_addCost_distinct)

lemma length_lineageCosts: "length (lineageCosts lineage) = card (li_ResourceID ` set lineage)"
proof -
  have "card (set (map fst (lineageCosts lineage))) = length (map fst (lineageCosts lineage))"
    using lineageCosts_distinct by (rule distinct_card)
  then show ?thesis by (simp add: lineageCosts_keys)
qed

lemma length_sortedDrivers:
  assumes "mset (rangeOrder (lineageCosts lineage)) = mset (lineageCosts lineage)"
  shows "length (sortedDrivers rangeOrder lineage total0) = card (li_ResourceID ` set lineage)"
proof -
  have "length (rangeOrder (lineageCosts lineage)) = length (lineageCosts lineage)"
    using assms by (metis size_mset)
  then show ?thesis
    by (simp add: sortedDrivers_def Let_def length_sortSliceDesc length_lineageCosts)
qed

lemma resources_of_sortedDrivers:
  assumes "mset (rangeOrder (lineageCosts lineage)) = mset (lineageCosts lineage)"
  shows "acd_ResourceID ` set (sortedDrivers rangeOrder lineage total0) = li_ResourceID ` set lineage"
proof -
  have "set (rangeOrder (lineageCosts lineage)) = set (lineageCosts lineage)"
    using assms by (metis set_mset_mset)
  then have "fst ` set (rangeOrder (lineageCosts lineage)) = li_ResourceID ` set lineage"
    using lineageCosts_keys[of lineage] by simp
  moreover have "acd_ResourceID ` set (sortedDrivers rangeOrder lineage total0)
      = fst ` set (rangeOrder (lineageCosts lineage))"
    by (force simp: sortedDrivers_def Let_def set_sortSliceDesc image_iff split_def)
  ultimately show ?thesis by simp
qed

lemma sorted_sortedDrivers:
  "sorted_wrt (\<lambda>a b. acd_MonthlyCost b \<le> acd_MonthlyCost a) (sortedDrivers rangeOrder lineage total0)"
  by (simp add: sortedDrivers_def Let_def sorted_sortSliceDesc)

lemma sorted_wrt_take_drop:
  assumes "sorted_wrt P xs" and "a \<in> set (take n xs)" and "b \<in> set (drop n xs)"
  shows "P a b"
proof -
  have "sorted_wrt P (take n xs @ drop n xs)" using assms(1) by simp
  then show ?thesis using assms(2,3) unfolding sorted_wrt_append by blast
qed

lemma map_of_addCost:
  "map_of (addCost cs k v) =
     (map_of cs)(k \<mapsto> (case map_of cs k of None \<Rightarrow> 0 | Some c \<Rightarrow> c) + v)"
  by (induction cs k v rule: addCost.induct) (auto simp: fun_eq_iff)

lemma resourceMonthlyCost_absent:
  "rid \<notin> li_ResourceID ` set lineage \<Longrightarrow> resourceMonthlyCost lineage rid = 0"
  by (induction lineage) (auto simp: resourceMonthlyCost_def)

lemma resourceMonthlyCost_Cons:
  "resourceMonthlyCost (item # lineage) rid =
     (if li_ResourceID item = rid then li_MonthlyCost item else 0) + resourceMonthlyCost lineage rid"
  by (simp add: resourceMonthlyCost_def)

lemma map_of_fold_addCost:
  "map_of (fold (\<lambda>item costs. addCost costs (li_ResourceID item) (li_MonthlyCost item)) lineage cs) rid
     = (if rid \<in> li_ResourceID ` set lineage
        then Some ((case map_of cs rid of None \<Rightarrow> 0 | Some c \<Rightarrow> c) + resourceMonthlyCost lineage rid)
        else map_of cs rid)"
proof (induction lineage arbitrary: cs)
  case Nil
  show ?case by simp
next
  case (Cons item lineage)
  show ?case
    by (auto simp add: Cons.IH map_of_addCost resourceMonthlyCost_Cons resourceMonthlyCost_absent
        split: option.splits)
qed

lemma map_of_lineageCosts:
  "map_of (lineageCosts lineage) rid =
     (if rid \<in> li_ResourceID ` set lineage then Some (resourceMonthlyCost lineage rid) else None)"
  by (simp add: lineageCosts_def map_of_fold_addCost)

lemma lineageCosts_entry:
  "(rid, cost) \<in> set (lineageCosts lineage) \<longleftrightarrow>
     rid \<in> li_ResourceID ` set lineage \<and> cost = resourceMonthlyCost lineage rid"
proof -
  have "(rid, cost) \<in> set (lineageCosts lineage) \<longleftrightarrow> map_of (lineageCosts lineage) rid = Some cost"
    using lineageCosts_distinct[of lineage] by simp
  then show ?thesis by (auto simp: map_of_lineageCosts)
qed

lemma set_lineageCosts:
  "set (lineageCosts lineage) =
     (\<lambda>rid. (rid, resourceMonthlyCost lineage rid)) ` li_ResourceID ` set lineage"
proof (intro set_eqI iffI)
  fix x assume "x \<in> set (lineageCosts lineage)"
  then have "(fst x, snd x) \<in> set (lineageCosts lineage)" by simp
  then have "fst x \<in> li_ResourceID ` set lineage \<and> snd x = resourceMonthlyCost lineage (fst x)"
    by (simp only: lineageCosts_entry)
  then have "x = (fst x, resourceMonthlyCost lineage (fst x)) \<and> fst x \<in> li_ResourceID ` set lineage"
    by (metis prod.collapse)
  then show "x \<in> (\<lambda>rid. (rid, resourceMonthlyCost lineage rid)) ` li_ResourceID ` set lineage"
    by (rule_tac x = "fst x" in image_eqI) simp_all
next
  fix x assume "x \<in> (\<lambda>rid. (rid, resourceMonthlyCost lineage rid)) ` li_ResourceID ` set lineage"
  then obtain rid where "rid \<in> li_ResourceID ` set lineage"
    and "x = (rid, resourceMonthlyCost lineage rid)" by blast
  then show "x \<in> set (lineageCosts lineage)" by (simp add: lineageCosts_entry)
qed

lemma set_sortedDrivers:
  assumes "mset (rangeOrder (lineageCosts lineage)) = mset (lineageCosts lineage)"
  shows "set (sortedDrivers rangeOrder lineage total0) =
     (\<lambda>rid. \<lparr>acd_ResourceID = rid, acd_Name = rid,
              acd_MonthlyCost = resourceMonthlyCost lineage rid,
              acd_Percentage = (resourceMonthlyCost lineage rid / total0) * 100\<rparr>)
       ` li_ResourceID ` set lineage"
proof -
  have s: "set (rangeOrder (lineageCosts lineage)) = set (lineageCosts lineage)"
    using assms by (metis set_mset_mset)
  have "set (sortedDrivers rangeOrder lineage total0) =
      (\<lambda>(rid, cost). \<lparr>acd_ResourceID = rid, acd_Name = rid, acd_MonthlyCost = cost,
         acd_Percentage = (cost / total0) * 100\<rparr>) ` set (lineageCosts lineage)"
    by (simp add: sortedDrivers_def Let_def set_sortSliceDesc s)
  also have "\<dots> = (\<lambda>rid. \<lparr>acd_ResourceID = rid, acd_Name = rid,
              acd_MonthlyCost = resourceMonthlyCost lineage rid,
              acd_Percentage = (resourceMonthlyCost lineage rid / total0) * 100\<rparr>)
       ` li_ResourceID ` set lineage"
    unfolding set_lineageCosts by (simp only: image_image split_conv)
  finally show ?thesis .
qed

lemma distinct_sortedDrivers:
  assumes "mset (rangeOrder (lineageCosts lineage)) = mset (lineageCosts lineage)"
  shows "distinct (map acd_ResourceID (sortedDrivers rangeOrder lineage total0))"
proof -
  let ?drivers = "map (\<lambda>(rid, cost).
      \<lparr>acd_ResourceID = rid, acd_Name = rid, acd_MonthlyCost = cost,
       acd_Percentage = (cost / total0) * 100\<rparr>) (rangeOrder (lineageCosts lineage))"
  have ids: "map acd_ResourceID ?drivers = map fst (rangeOrder (lineageCosts lineage))"
    by (simp add: split_def)
  have "image_mset fst (mset (rangeOrder (lineageCosts lineage)))
      = image_mset fst (mset (lineageCosts lineage))"
    by (simp only: assms)
  then have "mset (map fst (rangeOrder (lineageCosts lineage))) = mset (map fst (lineageCosts lineage))"
    by simp
  from mset_eq_imp_distinct_iff[OF this] lineageCosts_distinct[of lineage]
  have "distinct (map fst (rangeOrder (lineageCosts lineage)))" by simp
  then have d: "distinct (map acd_ResourceID ?drivers)" by (simp only: ids)
  have "image_mset acd_ResourceID (mset (sortSliceDesc acd_MonthlyCost ?drivers))
      = image_mset acd_ResourceID (mset ?drivers)"
    by (simp only: mset_sortSliceDesc)
  then have "mset (map acd_ResourceID (sortSliceDesc acd_MonthlyCost ?drivers))
      = mset (map acd_ResourceID ?drivers)"
    by (simp only: mset_map)
  from mset_eq_imp_distinct_iff[OF this] d
  have "distinct (map acd_ResourceID (sortSliceDesc acd_MonthlyCost ?drivers))" by blast
  then show ?thesis by (simp add: sortedDrivers_def Let_def)
qed

text \<open>
  Every arrangement of the entries of \<^verbatim>\<open>costs\<close> by descending cost is kept by the sort, so
  it is the order of the drivers for the \<open>rangeOrder\<close> that visits the map in that order.
\<close>

lemma sortedDrivers_any_order:
  assumes "sorted_wrt (\<lambda>a b. snd b \<le> snd a) (rangeOrder (lineageCosts lineage))"
  shows "map (\<lambda>d. (acd_ResourceID d, acd_MonthlyCost d)) (sortedDrivers rangeOrder lineage total0)
     = rangeOrder (lineageCosts lineage)"
proof -
  let ?drivers = "map (\<lambda>(rid, cost).
      \<lparr>acd_ResourceID = rid, acd_Name = rid, acd_MonthlyCost = cost,
       acd_Percentage = (cost / total0) * 100\<rparr>) (rangeOrder (lineageCosts lineage))"
  have "sorted_wrt (\<lambda>a b. acd_MonthlyCost b \<le> acd_MonthlyCost a) ?drivers"
    using assms by (simp add: sorted_wrt_map split_def)
  then have "sortSliceDesc acd_MonthlyCost ?drivers = ?drivers" by (rule sortSliceDesc_sorted)
  then show ?thesis by (simp add: sortedDrivers_def Let_def split_def comp_def)
qed

lemma extractDrivers_take:
  "extractDrivers rangeOrder lineage total0 =
     (if total0 = 0 then [] else take 5 (sortedDrivers rangeOrder lineage total0))"
  by (simp add: extractDrivers_def Let_def)


lemma CalculateFromComponents_drivers:
  assumes "\<not> res_IsIncomplete (CalculateFromComponents rangeOrder semantics usage prices)"
  shows "res_Drivers (CalculateFromComponents rangeOrder semantics usage prices) =
           extractDrivers rangeOrder
             (res_Lineage (CalculateFromComponents rangeOrder semantics usage prices))
             (cr_P50 (res_TotalCost (CalculateFromComponents rangeOrder semantics usage prices)))"
  using assms by (simp add: CalculateFromComponents_def Let_def split: if_splits)

lemma sixResources_ids:
  "li_ResourceID ` set sixResources = {''r1'', ''r2'', ''r3'', ''r4'', ''r5'', ''r6''}"
  by (simp add: sixResources_def exampleItem_def)

lemma example_free_tier:
  "CalculateFromComponents (\<lambda>costs. costs)
      \<lparr>sr_Components = [exampleCompute], sr_MappingErrors = []\<rparr>
      \<lparr>ur_Predictions = [\<lparr>up_ComponentID = ''aws_instance.web:compute'', up_Metric = ''hours'',
                           up_Unit = ''hours/month'', up_P50 = 511, up_P90 = 730,
                           up_Confidence = 1, up_Assumptions = []\<rparr>],
       ur_AverageConfidence = 1, ur_Environment = ''prod''\<rparr>
      \<lparr>prr_Prices = [\<lparr>rp_ComponentID = ''aws_instance.web:compute'', rp_SKUID = ''free-tier'',
                      rp_PricePerUnit = 0, rp_Unit = ''hours'', rp_CarbonIntensity = 0,
                      rp_Explanation = []\<rparr>], prr_Warnings = []\<rparr>
   = \<lparr>res_TotalCost = \<lparr>cr_P50 = 0, cr_P90 = 0, cr_Currency = ''USD''\<rparr>,
      res_TotalCarbon = \<lparr>ce_KgCO2e = 0, ce_Confidence = 0, ce_Region = []\<rparr>,
      res_Drivers = [], res_ConfidenceScore = 1, res_IsIncomplete = False, res_Errors = [],
      res_Lineage = [\<lparr>li_ResourceID = ''aws_instance.web'', li_Component = ''compute'',
                      li_SKU = ''free-tier'', li_Price = 0, li_Unit = ''hours'',
                      li_Quantity = 511, li_MonthlyCost = 0, li_Explanation = []\<rparr>]\<rparr>"
  by (simp add: CalculateFromComponents_def Let_def usageMapOf_def priceMapOf_def calcStep_def
      exampleCompute_def ComponentTypeCompute_def extractDrivers_def Aggregate_def)

lemma repeatedResource_ids:
  "li_ResourceID ` set repeatedResource = {''r0'', ''r1'', ''r2'', ''r3'', ''r4'', ''r5''}"
  by (auto simp: repeatedResource_def exampleItem_def)

lemma repeatedResource_costs:
  "lineageCosts repeatedResource =
     [(''r0'', 8), (''r1'', 7), (''r2'', 6), (''r3'', 5), (''r4'', 5), (''r5'', 5)]"
  by (simp add: lineageCosts_def repeatedResource_def exampleItem_def)

lemma repeatedResource_drivers:
  "map (\<lambda>d. (acd_ResourceID d, acd_MonthlyCost d)) (extractDrivers (\<lambda>costs. costs) repeatedResource 36)
     = [(''r0'', 8), (''r1'', 7), (''r2'', 6), (''r3'', 5), (''r4'', 5)]"
  by (simp add: extractDrivers_def sortedDrivers_def repeatedResource_costs sortSliceDesc_def Let_def)

text \<open>
  Claim C10. \<^verbatim>\<open>extractDrivers\<close> returns at most 5 drivers, and none when the total is 0,
  whatever the lineage. When the total is not 0 (and the map of costs is visited key by
  key, in any order), every driver returned stands for a resource of the lineage, carries
  as monthly cost the sum of the monthly costs of that resource's lineage items and as
  percentage that cost over the total; no resource has two drivers; the drivers are in
  descending order of cost; their number is 5 or the number of resources, whichever is
  smaller; and every resource of the lineage without a driver costs at most as much as
  every driver returned. With more than 5 resources exactly 5 drivers are returned and some
  resource is left out. A complete calculation reports exactly these drivers. Six resources
  costing 6 down to 1 yield the drivers of the first five; of six resources costing
  4 + 4, 7, 6, 5, 5 and 5 the first is kept with cost 8; a single component priced at 0
  yields a lineage of one item and no driver.
\<close>

theorem extractDrivers_keeps_top_five:
  "length (extractDrivers rangeOrder lineage total0) \<le> 5
   \<and> extractDrivers rangeOrder lineage 0 = []
   \<and> (total0 \<noteq> 0 \<and> mset (rangeOrder (lineageCosts lineage)) = mset (lineageCosts lineage) \<longrightarrow>
        (\<forall>d \<in> set (extractDrivers rangeOrder lineage total0).
            acd_ResourceID d \<in> li_ResourceID ` set lineage
          \<and> acd_Name d = acd_ResourceID d
          \<and> acd_MonthlyCost d = resourceMonthlyCost lineage (acd_ResourceID d)
          \<and> acd_Percentage d = (resourceMonthlyCost lineage (acd_ResourceID d) / total0) * 100)
        \<and> distinct (map acd_ResourceID (extractDrivers rangeOrder lineage total0))
        \<and> sorted_wrt (\<lambda>a b. acd_MonthlyCost b \<le> acd_MonthlyCost a)
             (extractDrivers rangeOrder lineage total0)
        \<and> length (extractDrivers rangeOrder lineage total0)
             = min 5 (card (li_ResourceID ` set lineage))
        \<and> (\<forall>rid \<in> li_ResourceID ` set lineage.
              rid \<notin> acd_ResourceID ` set (extractDrivers rangeOrder lineage total0) \<longrightarrow>
              (\<forall>kept \<in> set (extractDrivers rangeOrder lineage total0).
                 resourceMonthlyCost lineage rid \<le> acd_MonthlyCost kept))
        \<and> (5 < card (li_ResourceID ` set lineage) \<longrightarrow>
             length (extractDrivers rangeOrder lineage total0) = 5
             \<and> (\<exists>rid \<in> li_ResourceID ` set lineage.
                   rid \<notin> acd_ResourceID ` set (extractDrivers rangeOrder lineage total0))))
   \<and> (\<not> res_IsIncomplete (CalculateFromComponents rangeOrder semantics usage prices) \<longrightarrow>
        res_Drivers (CalculateFromComponents rangeOrder semantics usage prices) =
          extractDrivers rangeOrder
            (res_Lineage (CalculateFromComponents rangeOrder semantics usage prices))
            (cr_P50 (res_TotalCost (CalculateFromComponents rangeOrder semantics usage prices))))
   \<and> map acd_ResourceID (extractDrivers (\<lambda>costs. costs) sixResources 21)
        = [''r1'', ''r2'', ''r3'', ''r4'', ''r5'']
   \<and> map (\<lambda>d. (acd_ResourceID d, acd_MonthlyCost d))
         (extractDrivers (\<lambda>costs. costs) repeatedResource 36)
        = [(''r0'', 8), (''r1'', 7), (''r2'', 6), (''r3'', 5), (''r4'', 5)]
   \<and> res_Drivers (CalculateFromComponents (\<lambda>costs. costs)
      \<lparr>sr_Components = [exampleCompute], sr_MappingErrors = []\<rparr>
      \<lparr>ur_Predictions = [\<lparr>up_ComponentID = ''aws_instance.web:compute'', up_Metric = ''hours'',
                           up_Unit = ''hours/month'', up_P50 = 511, up_P90 = 730,
                           up_Confidence = 1, up_Assumptions = []\<rparr>],
       ur_AverageConfidence = 1, ur_Environment = ''prod''\<rparr>
      \<lparr>prr_Prices = [\<lparr>rp_ComponentID = ''aws_instance.web:compute'', rp_SKUID = ''free-tier'',
                      rp_PricePerUnit = 0, rp_Unit = ''hours'', rp_CarbonIntensity = 0,
                      rp_Explanation = []\<rparr>], prr_Warnings = []\<rparr>) = []
   \<and> length (res_Lineage (CalculateFromComponents (\<lambda>costs. costs)
      \<lparr>sr_Components = [exampleCompute], sr_MappingErrors = []\<rparr>
      \<lparr>ur_Predictions = [\<lparr>up_ComponentID = ''aws_instance.web:compute'', up_Metric = ''hours'',
                           up_Unit = ''hours/month'', up_P50 = 511, up_P90 = 730,
                           up_Confidence = 1, up_Assumptions = []\<rparr>],
       ur_AverageConfidence = 1, ur_Environment = ''prod''\<rparr>
      \<lparr>prr_Prices = [\<lparr>rp_ComponentID = ''aws_instance.web:compute'', rp_SKUID = ''free-tier'',
                      rp_PricePerUnit = 0, rp_Unit = ''hours'', rp_CarbonIntensity = 0,
                      rp_Explanation = []\<rparr>], prr_Warnings = []\<rparr>)) = 1"
  (is "?A \<and> ?B \<and> ?C \<and> ?D \<and> ?E \<and> ?R \<and> ?F \<and> ?G")
proof -
  have a: ?A by (simp add: extractDrivers_def Let_def)
  have b: ?B by (simp add: extractDrivers_def)
  have c: ?C
  proof (intro impI, elim conjE)
    assume nz: "total0 \<noteq> 0"
      and perm: "mset (rangeOrder (lineageCosts lineage)) = mset (lineageCosts lineage)"
    let ?all = "sortedDrivers rangeOrder lineage total0"
    let ?kept = "extractDrivers rangeOrder lineage total0"
    let ?ids = "li_ResourceID ` set lineage"
    let ?driver = "\<lambda>rid. \<lparr>acd_ResourceID = rid, acd_Name = rid,
              acd_MonthlyCost = resourceMonthlyCost lineage rid,
              acd_Percentage = (resourceMonthlyCost lineage rid / total0) * 100\<rparr>"
    have t: "?kept = take 5 ?all"
      using nz by (simp add: extractDrivers_take)
    have all: "set ?all = ?driver ` ?ids"
      using perm by (rule set_sortedDrivers[of rangeOrder lineage])
    have l: "length ?all = card ?ids"
      using perm by (rule length_sortedDrivers[of rangeOrder lineage])
    have dall: "distinct (map acd_ResourceID ?all)"
      using perm by (rule distinct_sortedDrivers[of rangeOrder lineage])
    have sub: "set ?kept \<subseteq> set ?all" unfolding t by (rule set_take_subset)
    have c1: "\<forall>d \<in> set ?kept.
            acd_ResourceID d \<in> ?ids
          \<and> acd_Name d = acd_ResourceID d
          \<and> acd_MonthlyCost d = resourceMonthlyCost lineage (acd_ResourceID d)
          \<and> acd_Percentage d = (resourceMonthlyCost lineage (acd_ResourceID d) / total0) * 100"
    proof
      fix d assume "d \<in> set ?kept"
      with sub have "d \<in> ?driver ` ?ids" unfolding all by blast
      then obtain rid where "rid \<in> ?ids" and "d = ?driver rid" by blast
      then show "acd_ResourceID d \<in> ?ids
          \<and> acd_Name d = acd_ResourceID d
          \<and> acd_MonthlyCost d = resourceMonthlyCost lineage (acd_ResourceID d)
          \<and> acd_Percentage d = (resourceMonthlyCost lineage (acd_ResourceID d) / total0) * 100"
        by simp
    qed
    have c2: "distinct (map acd_ResourceID ?kept)"
      unfolding t take_map[symmetric] using dall by (rule distinct_take)
    have c3: "sorted_wrt (\<lambda>a b. acd_MonthlyCost b \<le> acd_MonthlyCost a) ?kept"
      unfolding t using sorted_sortedDrivers by (rule sorted_wrt_take)
    have c4: "length ?kept = min 5 (card ?ids)"
      unfolding t using l by simp
    have c5: "\<forall>rid \<in> ?ids. rid \<notin> acd_ResourceID ` set ?kept \<longrightarrow>
              (\<forall>kept \<in> set ?kept. resourceMonthlyCost lineage rid \<le> acd_MonthlyCost kept)"
    proof (intro ballI impI)
      fix rid kept
      assume rid: "rid \<in> ?ids" and out: "rid \<notin> acd_ResourceID ` set ?kept"
        and kept: "kept \<in> set ?kept"
      have mem: "?driver rid \<in> set ?all" unfolding all using rid by blast
      have "?driver rid \<notin> set ?kept"
      proof
        assume "?driver rid \<in> set ?kept"
        then have "acd_ResourceID (?driver rid) \<in> acd_ResourceID ` set ?kept" by (rule imageI)
        with out show False by simp
      qed
      with mem have "?driver rid \<in> set (drop 5 ?all)"
        unfolding t by (metis Un_iff append_take_drop_id set_append)
      with kept have "acd_MonthlyCost (?driver rid) \<le> acd_MonthlyCost kept"
        unfolding t using sorted_wrt_take_drop[OF sorted_sortedDrivers] by blast
      then show "resourceMonthlyCost lineage rid \<le> acd_MonthlyCost kept" by simp
    qed
    have c6: "5 < card ?ids \<longrightarrow> length ?kept = 5
             \<and> (\<exists>rid \<in> ?ids. rid \<notin> acd_ResourceID ` set ?kept)"
    proof
      assume more: "5 < card ?ids"
      have len: "length ?kept = 5" using c4 more by simp
      have "card (acd_ResourceID ` set ?kept) \<le> card (set ?kept)"
        by (rule card_image_le) simp
      also have "\<dots> \<le> length ?kept" by (rule card_length)
      finally have small: "card (acd_ResourceID ` set ?kept) < card ?ids"
        using len more by simp
      have "\<not> ?ids \<subseteq> acd_ResourceID ` set ?kept"
      proof
        assume "?ids \<subseteq> acd_ResourceID ` set ?kept"
        then have "card ?ids \<le> card (acd_ResourceID ` set ?kept)"
          by (intro card_mono) simp_all
        with small show False by simp
      qed
      then have "\<exists>rid \<in> ?ids. rid \<notin> acd_ResourceID ` set ?kept" by blast
      with len show "length ?kept = 5 \<and> (\<exists>rid \<in> ?ids. rid \<notin> acd_ResourceID ` set ?kept)"
        by (rule conjI)
    qed
    from c1 c2 c3 c4 c5 c6 show "(\<forall>d \<in> set ?kept.
            acd_ResourceID d \<in> ?ids
          \<and> acd_Name d = acd_ResourceID d
          \<and> acd_MonthlyCost d = resourceMonthlyCost lineage (acd_ResourceID d)
          \<and> acd_Percentage d = (resourceMonthlyCost lineage (acd_ResourceID d) / total0) * 100)
        \<and> distinct (map acd_ResourceID ?kept)
        \<and> sorted_wrt (\<lambda>a b. acd_MonthlyCost b \<le> acd_MonthlyCost a) ?kept
        \<and> length ?kept = min 5 (card ?ids)
        \<and> (\<forall>rid \<in> ?ids. rid \<notin> acd_ResourceID ` set ?kept \<longrightarrow>
              (\<forall>kept \<in> set ?kept. resourceMonthlyCost lineage rid \<le> acd_MonthlyCost kept))
        \<and> (5 < card ?ids \<longrightarrow> length ?kept = 5
             \<and> (\<exists>rid \<in> ?ids. rid \<notin> acd_ResourceID ` set ?kept))"
      by (intro conjI)
  qed
  have d: ?D using CalculateFromComponents_drivers by blast
  have e: ?E
    by (simp add: extractDrivers_def sortedDrivers_def lineageCosts_def sixResources_def
        exampleItem_def sortSliceDesc_def Let_def)
  have r: ?R by (rule repeatedResource_drivers)
  have f: ?F unfolding example_free_tier by simp
  have g: ?G unfolding example_free_tier by simp
  from a b c d e r f g show ?thesis by (intro conjI)
qed

theorem extractDrivers_keeps_top_five_witness:
  "(36::real) \<noteq> 0
   \<and> mset ((\<lambda>costs. costs) (lineageCosts repeatedResource)) = mset (lineageCosts repeatedResource)
   \<and> 5 < card (li_ResourceID ` set repeatedResource)
   \<and> length (extractDrivers (\<lambda>costs. costs) repeatedResource 36) = 5
   \<and> ''r5'' \<in> li_ResourceID ` set repeatedResource
   \<and> ''r5'' \<notin> acd_ResourceID ` set (extractDrivers (\<lambda>costs. costs) repeatedResource 36)
   \<and> hd (extractDrivers (\<lambda>costs. costs) repeatedResource 36)
        \<in> set (extractDrivers (\<lambda>costs. costs) repeatedResource 36)
   \<and> resourceMonthlyCost repeatedResource ''r5''
        \<le> acd_MonthlyCost (hd (extractDrivers (\<lambda>costs. costs) repeatedResource 36))
   \<and> acd_MonthlyCost (hd (extractDrivers (\<lambda>costs. costs) repeatedResource 36))
        = resourceMonthlyCost repeatedResource
            (acd_ResourceID (hd (extractDrivers (\<lambda>costs. costs) repeatedResource 36)))
   \<and> resourceMonthlyCost repeatedResource ''r0'' = 8
   \<and> \<not> res_IsIncomplete (CalculateFromComponents (\<lambda>costs. costs)
      \<lparr>sr_Components = [exampleCompute], sr_MappingErrors = []\<rparr>
      \<lparr>ur_Predictions = [\<lparr>up_ComponentID = ''aws_instance.web:compute'', up_Metric = ''hours'',
                           up_Unit = ''hours/month'', up_P50 = 511, up_P90 = 730,
                           up_Confidence = 1, up_Assumptions = []\<rparr>],
       ur_AverageConfidence = 1, ur_Environment = ''prod''\<rparr>
      \<lparr>prr_Prices = [\<lparr>rp_ComponentID = ''aws_instance.web:compute'', rp_SKUID = ''free-tier'',
                      rp_PricePerUnit = 0, rp_Unit = ''hours'', rp_CarbonIntensity = 0,
                      rp_Explanation = []\<rparr>], prr_Warnings = []\<rparr>)
   \<and> res_Drivers (CalculateFromComponents (\<lambda>costs. costs)
      \<lparr>sr_Components = [exampleCompute], sr_MappingErrors = []\<rparr>
      \<lparr>ur_Predictions = [\<lparr>up_ComponentID = ''aws_instance.web:compute'', up_Metric = ''hours'',
                           up_Unit = ''hours/month'', up_P50 = 511, up_P90 = 730,
                           up_Confidence = 1, up_Assumptions = []\<rparr>],
       ur_AverageConfidence = 1, ur_Environment = ''prod''\<rparr>
      \<lparr>prr_Prices = [\<lparr>rp_ComponentID = ''aws_instance.web:compute'', rp_SKUID = ''free-tier'',
                      rp_PricePerUnit = 0, rp_Unit = ''hours'', rp_CarbonIntensity = 0,
                      rp_Explanation = []\<rparr>], prr_Warnings = []\<rparr>) =
       extractDrivers (\<lambda>costs. costs) (res_Lineage (CalculateFromComponents (\<lambda>costs. costs)
      \<lparr>sr_Components = [exampleCompute], sr_MappingErrors = []\<rparr>
      \<lparr>ur_Predictions = [\<lparr>up_ComponentID = ''aws_instance.web:compute'', up_Metric = ''hours'',
                           up_Unit = ''hours/month'', up_P50 = 511, up_P90 = 730,
                           up_Confidence = 1, up_Assumptions = []\<rparr>],
       ur_AverageConfidence = 1, ur_Environment = ''prod''\<rparr>
      \<lparr>prr_Prices = [\<lparr>rp_ComponentID = ''aws_instance.web:compute'', rp_SKUID = ''free-tier'',
                      rp_PricePerUnit = 0, rp_Unit = ''hours'', rp_CarbonIntensity = 0,
                      rp_Explanation = []\<rparr>], prr_Warnings = []\<rparr>))
         (cr_P50 (res_TotalCost (CalculateFromComponents (\<lambda>costs. costs)
      \<lparr>sr_Components = [exampleCompute], sr_MappingErrors = []\<rparr>
      \<lparr>ur_Predictions = [\<lparr>up_ComponentID = ''aws_instance.web:compute'', up_Metric = ''hours'',
                           up_Unit = ''hours/month'', up_P50 = 511, up_P90 = 730,
                           up_Confidence = 1, up_Assumptions = []\<rparr>],
       ur_AverageConfidence = 1, ur_Environment = ''prod''\<rparr>
      \<lparr>prr_Prices = [\<lparr>rp_ComponentID = ''aws_instance.web:compute'', rp_SKUID = ''free-tier'',
                      rp_PricePerUnit = 0, rp_Unit = ''hours'', rp_CarbonIntensity = 0,
                      rp_Explanation = []\<rparr>], prr_Warnings = []\<rparr>)))"
proof -
  let ?calc = "CalculateFromComponents (\<lambda>costs. costs)
      \<lparr>sr_Components = [exampleCompute], sr_MappingErrors = []\<rparr>
      \<lparr>ur_Predictions = [\<lparr>up_ComponentID = ''aws_instance.web:compute'', up_Metric = ''hours'',
                           up_Unit = ''hours/month'', up_P50 = 511, up_P90 = 730,
                           up_Confidence = 1, up_Assumptions = []\<rparr>],
       ur_AverageConfidence = 1, ur_Environment = ''prod''\<rparr>
      \<lparr>prr_Prices = [\<lparr>rp_ComponentID = ''aws_instance.web:compute'', rp_SKUID = ''free-tier'',
                      rp_PricePerUnit = 0, rp_Unit = ''hours'', rp_CarbonIntensity = 0,
                      rp_Explanation = []\<rparr>], prr_Warnings = []\<rparr>"
  let ?kept = "extractDrivers (\<lambda>costs. costs) repeatedResource 36"
  have h1: "(36::real) \<noteq> 0" by simp
  have h2: "mset ((\<lambda>costs. costs) (lineageCosts repeatedResource)) = mset (lineageCosts repeatedResource)"
    by simp
  have h3: "5 < card (li_ResourceID ` set repeatedResource)"
    unfolding repeatedResource_ids by simp
  have h4: "\<not> res_IsIncomplete ?calc" unfolding example_free_tier by simp
  have h5: "''r5'' \<in> li_ResourceID ` set repeatedResource"
    unfolding repeatedResource_ids by simp
  have "map fst (map (\<lambda>d. (acd_ResourceID d, acd_MonthlyCost d)) ?kept)
      = [''r0'', ''r1'', ''r2'', ''r3'', ''r4'']"
    unfolding repeatedResource_drivers by simp
  then have ids: "map acd_ResourceID ?kept = [''r0'', ''r1'', ''r2'', ''r3'', ''r4'']"
    by (simp add: comp_def)
  have "acd_ResourceID ` set ?kept = set (map acd_ResourceID ?kept)" by simp
  then have h6: "''r5'' \<notin> acd_ResourceID ` set ?kept"
    unfolding ids by simp
  have "?kept \<noteq> []" using ids by auto
  then have h7: "hd ?kept \<in> set ?kept" by (rule hd_in_set)
  note main = extractDrivers_keeps_top_five[of "\<lambda>costs. costs" repeatedResource 36
      "\<lparr>sr_Components = [exampleCompute], sr_MappingErrors = []\<rparr>"]
  have c1: "length ?kept = 5" using main h1 h2 h3 by blast
  have c2: "resourceMonthlyCost repeatedResource ''r5'' \<le> acd_MonthlyCost (hd ?kept)"
    using main h1 h2 h5 h6 h7 by blast
  have c3: "acd_MonthlyCost (hd ?kept)
      = resourceMonthlyCost repeatedResource (acd_ResourceID (hd ?kept))"
    using main h1 h2 h7 by blast
  have c4: "resourceMonthlyCost repeatedResource ''r0'' = 8"
    by (simp add: resourceMonthlyCost_def repeatedResource_def exampleItem_def)
  have c5: "res_Drivers ?calc =
       extractDrivers (\<lambda>costs. costs) (res_Lineage ?calc) (cr_P50 (res_TotalCost ?calc))"
    using main h4 by blast
  from h1 h2 h3 c1 h5 h6 h7 c2 c3 c4 h4 c5 show ?thesis by (intro conjI)
qed
subsection \<open>Semantic decomposition\<close>

lemma componentLoop_errors:
  "dr_MappingErrors (ds_result (componentLoop node cs i st)) = dr_MappingErrors (ds_result st)"
  by (induction node cs i st rule: componentLoop.induct) (simp_all add: Let_def)

lemma componentLoop_addresses:
  "map bc_ResourceAddr (dr_Components (ds_result (componentLoop node cs i st))) =
     map bc_ResourceAddr (dr_Components (ds_result st))
       @ replicate (length cs) (rn_Address (gn_Resource node))"
  by (induction node cs i st rule: componentLoop.induct)
     (simp_all add: Let_def replicate_append_same)

lemma componentLoop_types:
  "ds_coveredTypesMap (componentLoop node cs i st) = ds_coveredTypesMap st
   \<and> ds_uncoveredTypesMap (componentLoop node cs i st) = ds_uncoveredTypesMap st
   \<and> dr_CoveredTypes (ds_result (componentLoop node cs i st)) = dr_CoveredTypes (ds_result st)
   \<and> dr_UncoveredTypes (ds_result (componentLoop node cs i st)) = dr_UncoveredTypes (ds_result st)"
  by (induction node cs i st rule: componentLoop.induct) (simp_all add: Let_def)

lemma unmapped_findMapper:
  "unmapped e node \<longleftrightarrow>
     rn_Mode (gn_Resource node) \<noteq> ''data'' \<and> findMapper e (rn_Type (gn_Resource node)) = None"
  by (auto simp: unmapped_def findMapper_def GetMapper_def split: option.splits)

lemma decomposeStep_errors:
  "dr_MappingErrors (ds_result (decomposeStep e node st)) =
     dr_MappingErrors (ds_result st) @ nodeErrors e node"
  by (simp add: decomposeStep_def nodeErrors_def noMapperError_def Let_def split_def
      componentLoop_errors split: option.splits)

lemma decomposeStep_addresses:
  "map bc_ResourceAddr (dr_Components (ds_result (decomposeStep e node st))) =
     map bc_ResourceAddr (dr_Components (ds_result st)) @ nodeAddresses e node"
  by (simp add: decomposeStep_def nodeAddresses_def Let_def split_def componentLoop_addresses
      split: option.splits)

lemma decomposeStep_uncovered:
  "ds_uncoveredTypesMap (decomposeStep e node st) =
     (if unmapped e node then markType (rn_Type (gn_Resource node)) (ds_uncoveredTypesMap st)
      else ds_uncoveredTypesMap st)"
  by (simp add: decomposeStep_def unmapped_findMapper Let_def split_def componentLoop_types
      split: option.splits)

lemma decomposeStep_covered:
  "ds_coveredTypesMap (decomposeStep e node st) =
     (if nodeAddresses e node \<noteq> []
      then markType (rn_Type (gn_Resource node)) (ds_coveredTypesMap st)
      else ds_coveredTypesMap st)"
  by (simp add: decomposeStep_def nodeAddresses_def Let_def split_def componentLoop_types
      split: option.splits)

lemma decomposeStep_result_types:
  "dr_CoveredTypes (ds_result (decomposeStep e node st)) = dr_CoveredTypes (ds_result st)
   \<and> dr_UncoveredTypes (ds_result (decomposeStep e node st)) = dr_UncoveredTypes (ds_result st)"
  by (simp add: decomposeStep_def Let_def split_def componentLoop_types split: option.splits)

lemma fold_decomposeStep_errors:
  "dr_MappingErrors (ds_result (fold (decomposeStep e) nodes st)) =
     dr_MappingErrors (ds_result st) @ concat (map (nodeErrors e) nodes)"
  by (induction nodes arbitrary: st) (simp_all add: decomposeStep_errors)

lemma fold_decomposeStep_addresses:
  "map bc_ResourceAddr (dr_Components (ds_result (fold (decomposeStep e) nodes st))) =
     map bc_ResourceAddr (dr_Components (ds_result st)) @ concat (map (nodeAddresses e) nodes)"
  by (induction nodes arbitrary: st) (simp_all add: decomposeStep_addresses)

lemma fold_decomposeStep_result_types:
  "dr_CoveredTypes (ds_result (fold (decomposeStep e) nodes st)) = dr_CoveredTypes (ds_result st)
   \<and> dr_UncoveredTypes (ds_result (fold (decomposeStep e) nodes st))
       = dr_UncoveredTypes (ds_result st)"
  by (induction nodes arbitrary: st) (simp_all add: decomposeStep_result_types)

lemma set_markType: "set (markType t ts) = insert t (set ts)"
  by (auto simp: markType_def)

lemma distinct_markType: "distinct ts \<Longrightarrow> distinct (markType t ts)"
  by (simp add: markType_def)

lemma fold_decomposeStep_uncovered:
  "set (ds_uncoveredTypesMap (fold (decomposeStep e) nodes st)) =
     set (ds_uncoveredTypesMap st)
       \<union> (\<lambda>n. rn_Type (gn_Resource n)) ` {n \<in> set nodes. unmapped e n}"
  by (induction nodes arbitrary: st) (auto simp: decomposeStep_uncovered set_markType)

lemma fold_decomposeStep_covered:
  "set (ds_coveredTypesMap (fold (decomposeStep e) nodes st)) =
     set (ds_coveredTypesMap st)
       \<union> (\<lambda>n. rn_Type (gn_Resource n)) ` {n \<in> set nodes. nodeAddresses e n \<noteq> []}"
  by (induction nodes arbitrary: st) (auto simp: decomposeStep_covered set_markType)

lemma fold_decomposeStep_distinct:
  "distinct (ds_uncoveredTypesMap st) \<Longrightarrow>
   distinct (ds_uncoveredTypesMap (fold (decomposeStep e) nodes st))"
  by (induction nodes arbitrary: st) (simp_all add: decomposeStep_uncovered distinct_markType)

lemma fold_decomposeStep_distinct_covered:
  "distinct (ds_coveredTypesMap st) \<Longrightarrow>
   distinct (ds_coveredTypesMap (fold (decomposeStep e) nodes st))"
  by (induction nodes arbitrary: st) (simp_all add: decomposeStep_covered distinct_markType)

text \<open>A type without a mapper is never a type with components.\<close>

lemma unmapped_not_covered:
  assumes "unmapped e n" and "nodeAddresses e m \<noteq> []"
  shows "rn_Type (gn_Resource n) \<noteq> rn_Type (gn_Resource m)"
proof
  assume same: "rn_Type (gn_Resource n) = rn_Type (gn_Resource m)"
  from assms(1) have "findMapper e (rn_Type (gn_Resource m)) = None"
    by (simp add: unmapped_findMapper same)
  then have "nodeAddresses e m = []" by (simp add: nodeAddresses_def)
  with assms(2) show False by simp
qed

lemma Decompose_returns:
  "\<exists>r. Decompose rangeCovered rangeUncovered e (Inr nodes) = Inr r"
  by (simp add: Decompose_def Let_def)

lemma Decompose_lists:
  assumes "Decompose rangeCovered rangeUncovered e (Inr nodes) = Inr r"
  shows "dr_MappingErrors r = concat (map (nodeErrors e) nodes)"
    and "map bc_ResourceAddr (dr_Components r) = concat (map (nodeAddresses e) nodes)"
  using assms
  by (auto simp add: Decompose_def Let_def fold_decomposeStep_errors fold_decomposeStep_addresses
      emptyDecomposition_def)

lemma Decompose_Inr:
  "Decompose rangeCovered rangeUncovered e (Inr nodes) =
     (let st = fold (decomposeStep e) nodes
                 \<lparr>ds_result = emptyDecomposition, ds_coveredTypesMap = [],
                  ds_uncoveredTypesMap = [], ds_componentsByResource = Map.empty\<rparr>
      in Inr ((ds_result st)
           \<lparr>dr_CoveredTypes := rangeCovered (ds_coveredTypesMap st),
            dr_UncoveredTypes :=
              filter (\<lambda>t. t \<notin> set (ds_coveredTypesMap st))
                (rangeUncovered (ds_uncoveredTypesMap st))\<rparr>))"
  by (simp add: Decompose_def Let_def fold_decomposeStep_result_types emptyDecomposition_def)

lemma Decompose_types:
  assumes r: "Decompose rangeCovered rangeUncovered e (Inr nodes) = Inr r"
    and pc: "\<forall>ts. mset (rangeCovered ts) = mset ts"
    and pu: "\<forall>ts. mset (rangeUncovered ts) = mset ts"
  shows "set (dr_UncoveredTypes r) = (\<lambda>n. rn_Type (gn_Resource n)) ` {n \<in> set nodes. unmapped e n}"
    and "distinct (dr_UncoveredTypes r)"
    and "set (dr_CoveredTypes r) =
           (\<lambda>n. rn_Type (gn_Resource n)) ` {n \<in> set nodes. nodeAddresses e n \<noteq> []}"
    and "distinct (dr_CoveredTypes r)"
proof -
  define st where "st = fold (decomposeStep e) nodes
      \<lparr>ds_result = emptyDecomposition, ds_coveredTypesMap = [],
       ds_uncoveredTypesMap = [], ds_componentsByResource = Map.empty\<rparr>"
  let ?U = "(\<lambda>n. rn_Type (gn_Resource n)) ` {n \<in> set nodes. unmapped e n}"
  let ?C = "(\<lambda>n. rn_Type (gn_Resource n)) ` {n \<in> set nodes. nodeAddresses e n \<noteq> []}"
  have mu: "mset (rangeUncovered (ds_uncoveredTypesMap st)) = mset (ds_uncoveredTypesMap st)"
    using pu by simp
  have mc: "mset (rangeCovered (ds_coveredTypesMap st)) = mset (ds_coveredTypesMap st)"
    using pc by simp
  have su: "set (rangeUncovered (ds_uncoveredTypesMap st)) = set (ds_uncoveredTypesMap st)"
    using mu by (rule mset_eq_setD)
  have sc: "set (rangeCovered (ds_coveredTypesMap st)) = set (ds_coveredTypesMap st)"
    using mc by (rule mset_eq_setD)
  have "distinct (ds_uncoveredTypesMap st)"
    unfolding st_def by (rule fold_decomposeStep_distinct) simp
  with mset_eq_imp_distinct_iff[OF mu]
  have du: "distinct (rangeUncovered (ds_uncoveredTypesMap st))" by simp
  have "distinct (ds_coveredTypesMap st)"
    unfolding st_def by (rule fold_decomposeStep_distinct_covered) simp
  with mset_eq_imp_distinct_iff[OF mc]
  have dc: "distinct (rangeCovered (ds_coveredTypesMap st))" by simp
  have u: "set (ds_uncoveredTypesMap st) = ?U"
    unfolding st_def by (simp add: fold_decomposeStep_uncovered)
  have c: "set (ds_coveredTypesMap st) = ?C"
    unfolding st_def by (simp add: fold_decomposeStep_covered)
  have disjoint: "\<forall>t \<in> set (rangeUncovered (ds_uncoveredTypesMap st)).
      t \<notin> set (ds_coveredTypesMap st)"
  proof
    fix t assume "t \<in> set (rangeUncovered (ds_uncoveredTypesMap st))"
    then have "t \<in> ?U" unfolding su u .
    then obtain n where n: "unmapped e n" and tn: "t = rn_Type (gn_Resource n)" by blast
    show "t \<notin> set (ds_coveredTypesMap st)"
    proof
      assume "t \<in> set (ds_coveredTypesMap st)"
      then have "t \<in> ?C" unfolding c .
      then obtain m where m: "nodeAddresses e m \<noteq> []" and tm: "t = rn_Type (gn_Resource m)"
        by blast
      from unmapped_not_covered[OF n m] tn tm show False by simp
    qed
  qed
  then have keep: "filter (\<lambda>t. t \<notin> set (ds_coveredTypesMap st))
      (rangeUncovered (ds_uncoveredTypesMap st)) = rangeUncovered (ds_uncoveredTypesMap st)"
    by (simp only: filter_id_conv)
  have "Decompose rangeCovered rangeUncovered e (Inr nodes) = Inr ((ds_result st)
           \<lparr>dr_CoveredTypes := rangeCovered (ds_coveredTypesMap st),
            dr_UncoveredTypes := rangeUncovered (ds_uncoveredTypesMap st)\<rparr>)"
    unfolding Decompose_Inr st_def[symmetric] Let_def keep ..
  with r have req: "r = (ds_result st)
           \<lparr>dr_CoveredTypes := rangeCovered (ds_coveredTypesMap st),
            dr_UncoveredTypes := rangeUncovered (ds_uncoveredTypesMap st)\<rparr>"
    by (simp only: sum.inject)
  have ru: "dr_UncoveredTypes r = rangeUncovered (ds_uncoveredTypesMap st)"
    unfolding req by simp
  have rc: "dr_CoveredTypes r = rangeCovered (ds_coveredTypesMap st)"
    unfolding req by simp
  show "set (dr_UncoveredTypes r) = ?U" unfolding ru su by (rule u)
  show "distinct (dr_UncoveredTypes r)" unfolding ru by (rule du)
  show "set (dr_CoveredTypes r) = ?C" unfolding rc sc by (rule c)
  show "distinct (dr_CoveredTypes r)" unfolding rc by (rule dc)
qed

lemma nodeAddresses_subset: "set (nodeAddresses e node) \<subseteq> {rn_Address (gn_Resource node)}"
  by (auto simp: nodeAddresses_def split: option.splits)

text \<open>
  Claim C6 as amended. \<^verbatim>\<open>Decompose\<close> on a sorted graph returns a result in which the list
  of mapping errors and the resource addresses of the components are the contributions of
  the nodes in order, the uncovered types are, without repetition, exactly the types of the
  nodes without a mapper, and the covered types are exactly the types of the nodes that
  contribute a component. A node that is not a data source and has no mapper contributes
  exactly one error, non-critical, with its address, its type and the reason
  \<^verbatim>\<open>no mapper registered for resource type\<close>, and contributes no component; its type is
  among the uncovered types and not among the covered ones; with addresses that identify
  the nodes, no component of the result carries its address, and when no node has a mapper
  the component list is empty.
\<close>

theorem decompose_records_unmapped_resource:
  assumes "\<forall>ts. mset (rangeCovered ts) = mset ts"
    and "\<forall>ts. mset (rangeUncovered ts) = mset ts"
  shows "case Decompose rangeCovered rangeUncovered e (Inr nodes) of
     Inl err \<Rightarrow> False
   | Inr result \<Rightarrow>
       dr_MappingErrors result = concat (map (nodeErrors e) nodes)
     \<and> map bc_ResourceAddr (dr_Components result) = concat (map (nodeAddresses e) nodes)
     \<and> set (dr_UncoveredTypes result)
         = (\<lambda>n. rn_Type (gn_Resource n)) ` {n \<in> set nodes. unmapped e n}
     \<and> distinct (dr_UncoveredTypes result)
     \<and> set (dr_CoveredTypes result)
         = (\<lambda>n. rn_Type (gn_Resource n)) ` {n \<in> set nodes. nodeAddresses e n \<noteq> []}
     \<and> distinct (dr_CoveredTypes result)
     \<and> (\<forall>node \<in> set nodes. unmapped e node \<longrightarrow>
           nodeErrors e node =
             [\<lparr>me_ResourceAddr = rn_Address (gn_Resource node),
               me_ResourceType = rn_Type (gn_Resource node),
               me_Reason = ''no mapper registered for resource type'',
               me_IsCritical = False\<rparr>]
         \<and> nodeAddresses e node = []
         \<and> \<lparr>me_ResourceAddr = rn_Address (gn_Resource node),
             me_ResourceType = rn_Type (gn_Resource node),
             me_Reason = ''no mapper registered for resource type'',
             me_IsCritical = False\<rparr> \<in> set (dr_MappingErrors result)
         \<and> rn_Type (gn_Resource node) \<in> set (dr_UncoveredTypes result)
         \<and> rn_Type (gn_Resource node) \<notin> set (dr_CoveredTypes result)
         \<and> (distinct (map (\<lambda>n. rn_Address (gn_Resource n)) nodes) \<longrightarrow>
               rn_Address (gn_Resource node) \<notin> bc_ResourceAddr ` set (dr_Components result)))
     \<and> ((\<forall>node \<in> set nodes. unmapped e node) \<longrightarrow> dr_Components result = [])"
proof -
  obtain r where r: "Decompose rangeCovered rangeUncovered e (Inr nodes) = Inr r"
    using Decompose_returns by blast
  let ?error = "\<lambda>node. \<lparr>me_ResourceAddr = rn_Address (gn_Resource node),
               me_ResourceType = rn_Type (gn_Resource node),
               me_Reason = ''no mapper registered for resource type'',
               me_IsCritical = False\<rparr>"
  have errs: "dr_MappingErrors r = concat (map (nodeErrors e) nodes)"
    using r by (rule Decompose_lists)
  have addrs: "map bc_ResourceAddr (dr_Components r) = concat (map (nodeAddresses e) nodes)"
    using r by (rule Decompose_lists)
  note types = Decompose_types[OF r assms]
  have unc: "set (dr_UncoveredTypes r)
      = (\<lambda>n. rn_Type (gn_Resource n)) ` {n \<in> set nodes. unmapped e n}" by (rule types(1))
  have dunc: "distinct (dr_UncoveredTypes r)" by (rule types(2))
  have cov: "set (dr_CoveredTypes r)
      = (\<lambda>n. rn_Type (gn_Resource n)) ` {n \<in> set nodes. nodeAddresses e n \<noteq> []}"
    by (rule types(3))
  have dcov: "distinct (dr_CoveredTypes r)" by (rule types(4))
  have per_node: "\<forall>node \<in> set nodes. unmapped e node \<longrightarrow>
           nodeErrors e node = [?error node]
         \<and> nodeAddresses e node = []
         \<and> ?error node \<in> set (dr_MappingErrors r)
         \<and> rn_Type (gn_Resource node) \<in> set (dr_UncoveredTypes r)
         \<and> rn_Type (gn_Resource node) \<notin> set (dr_CoveredTypes r)
         \<and> (distinct (map (\<lambda>n. rn_Address (gn_Resource n)) nodes) \<longrightarrow>
               rn_Address (gn_Resource node) \<notin> bc_ResourceAddr ` set (dr_Components r))"
  proof (intro ballI impI conjI)
    fix node assume n: "node \<in> set nodes" and u: "unmapped e node"
    show ne: "nodeErrors e node = [?error node]"
      using u by (simp add: nodeErrors_def unmapped_findMapper)
    show na: "nodeAddresses e node = []"
      using u by (simp add: nodeAddresses_def unmapped_findMapper)
    show "?error node \<in> set (dr_MappingErrors r)"
      unfolding errs using n ne by force
    show "rn_Type (gn_Resource node) \<in> set (dr_UncoveredTypes r)"
      unfolding unc using n u by blast
    show "rn_Type (gn_Resource node) \<notin> set (dr_CoveredTypes r)"
      unfolding cov using unmapped_not_covered[OF u] by blast
    assume d: "distinct (map (\<lambda>n. rn_Address (gn_Resource n)) nodes)"
    show "rn_Address (gn_Resource node) \<notin> bc_ResourceAddr ` set (dr_Components r)"
    proof
      assume "rn_Address (gn_Resource node) \<in> bc_ResourceAddr ` set (dr_Components r)"
      then have "rn_Address (gn_Resource node) \<in> set (map bc_ResourceAddr (dr_Components r))"
        by simp
      then have "rn_Address (gn_Resource node) \<in> set (concat (map (nodeAddresses e) nodes))"
        by (simp only: addrs)
      then obtain other where o: "other \<in> set nodes"
        and mem: "rn_Address (gn_Resource node) \<in> set (nodeAddresses e other)" by auto
      from mem nodeAddresses_subset[of e other]
      have same: "rn_Address (gn_Resource other) = rn_Address (gn_Resource node)" by auto
      from d n o same have "other = node"
        by (metis (mono_tags, lifting) distinct_map inj_onD)
      with mem na show False by simp
    qed
  qed
  have all: "(\<forall>node \<in> set nodes. unmapped e node) \<longrightarrow> dr_Components r = []"
  proof
    assume a: "\<forall>node \<in> set nodes. unmapped e node"
    then have "concat (map (nodeAddresses e) nodes) = []"
      by (auto simp: nodeAddresses_def unmapped_findMapper)
    with addrs show "dr_Components r = []" by simp
  qed
  from errs addrs unc dunc cov dcov per_node all show ?thesis unfolding r by simp
qed

lemma example_queue_unmapped: "unmapped NewBillingEngine exampleQueueNode"
  by (simp add: unmapped_def NewBillingEngine_def NewMapperRegistry_def exampleQueueNode_def)

text \<open>
  Claim C6 fails on a graph of one managed resource of type \<^verbatim>\<open>aws_sqs_queue\<close> and an
  engine without a mapper for it: the component list of the result is empty; the resource
  appears in the list of mapping errors and among the uncovered types only.
\<close>

theorem unmapped_resource_gets_no_component:
  "Decompose (\<lambda>ts. ts) (\<lambda>ts. ts) NewBillingEngine (Inr [exampleQueueNode]) =
     Inr \<lparr>dr_Components = [],
          dr_MappingErrors =
            [\<lparr>me_ResourceAddr = ''aws_sqs_queue.jobs'', me_ResourceType = ''aws_sqs_queue'',
              me_Reason = ''no mapper registered for resource type'', me_IsCritical = False\<rparr>],
          dr_ResourcesProcessed = 1, dr_ResourcesMapped = 0, dr_ResourcesSkipped = 0,
          dr_ComponentsCreated = 0, dr_CoveredTypes = [],
          dr_UncoveredTypes = [''aws_sqs_queue'']\<rparr>"
  by (simp add: Decompose_def decomposeStep_def NewBillingEngine_def findMapper_def GetMapper_def
      NewMapperRegistry_def exampleQueueNode_def emptyDecomposition_def noMapperError_def
      markType_def Let_def)

lemma example_graph_unmapped:
  "unmapped exampleBillingEngine (exampleNode ''aws_sqs_queue.jobs'' ''aws_sqs_queue'' ''managed'')"
  by (simp add: unmapped_def exampleBillingEngine_def RegisterMapper_def NewBillingEngine_def
      NewMapperRegistry_def exampleNode_def exampleInstanceMapper_def)

lemma example_graph_result:
  "Decompose rev rev exampleBillingEngine (Inr exampleGraph) =
     Inr \<lparr>dr_Components =
            [(exampleComponent ''compute'' ''AmazonEC2'' 730 730 (9 / 10))
               \<lparr>bc_ResourceAddr := ''aws_instance.web''\<rparr>],
          dr_MappingErrors =
            [\<lparr>me_ResourceAddr = ''aws_sqs_queue.jobs'', me_ResourceType = ''aws_sqs_queue'',
              me_Reason = ''no mapper registered for resource type'', me_IsCritical = False\<rparr>,
             \<lparr>me_ResourceAddr = ''aws_sqs_queue.mail'', me_ResourceType = ''aws_sqs_queue'',
              me_Reason = ''no mapper registered for resource type'', me_IsCritical = False\<rparr>],
          dr_ResourcesProcessed = 4, dr_ResourcesMapped = 1, dr_ResourcesSkipped = 1,
          dr_ComponentsCreated = 1, dr_CoveredTypes = [''aws_instance''],
          dr_UncoveredTypes = [''aws_sqs_queue'']\<rparr>"
  by (simp add: Decompose_def decomposeStep_def exampleBillingEngine_def RegisterMapper_def
      NewBillingEngine_def findMapper_def GetMapper_def NewMapperRegistry_def exampleGraph_def
      exampleNode_def exampleInstanceMapper_def exampleComponent_def emptyDecomposition_def
      noMapperError_def markType_def resolveComponentDependencies_def Let_def)

theorem decompose_records_unmapped_resource_witness:
  "(\<forall>ts::string list. mset (rev ts) = mset ts)
   \<and> exampleNode ''aws_sqs_queue.jobs'' ''aws_sqs_queue'' ''managed'' \<in> set exampleGraph
   \<and> unmapped exampleBillingEngine (exampleNode ''aws_sqs_queue.jobs'' ''aws_sqs_queue'' ''managed'')
   \<and> distinct (map (\<lambda>n. rn_Address (gn_Resource n)) exampleGraph)
   \<and> (case Decompose rev rev exampleBillingEngine (Inr exampleGraph) of
         Inl err \<Rightarrow> False
       | Inr result \<Rightarrow>
           \<lparr>me_ResourceAddr = ''aws_sqs_queue.jobs'', me_ResourceType = ''aws_sqs_queue'',
             me_Reason = ''no mapper registered for resource type'', me_IsCritical = False\<rparr>
             \<in> set (dr_MappingErrors result)
         \<and> ''aws_sqs_queue'' \<in> set (dr_UncoveredTypes result)
         \<and> ''aws_sqs_queue'' \<notin> set (dr_CoveredTypes result)
         \<and> ''aws_sqs_queue.jobs'' \<notin> bc_ResourceAddr ` set (dr_Components result)
         \<and> map bc_ResourceAddr (dr_Components result) = [''aws_instance.web'']
         \<and> dr_UncoveredTypes result = [''aws_sqs_queue'']
         \<and> dr_CoveredTypes result = [''aws_instance''])"
proof -
  let ?node = "exampleNode ''aws_sqs_queue.jobs'' ''aws_sqs_queue'' ''managed''"
  have p: "\<forall>ts::string list. mset (rev ts) = mset ts" by simp
  have n: "?node \<in> set exampleGraph" by (simp add: exampleGraph_def)
  note u = example_graph_unmapped
  have d: "distinct (map (\<lambda>n. rn_Address (gn_Resource n)) exampleGraph)"
    by (simp add: exampleGraph_def exampleNode_def)
  have addr: "rn_Address (gn_Resource ?node) = ''aws_sqs_queue.jobs''"
    and type: "rn_Type (gn_Resource ?node) = ''aws_sqs_queue''"
    by (simp_all add: exampleNode_def)
  obtain r where r: "Decompose rev rev exampleBillingEngine (Inr exampleGraph) = Inr r"
    using Decompose_returns by blast
  have main: "\<forall>node \<in> set exampleGraph. unmapped exampleBillingEngine node \<longrightarrow>
         \<lparr>me_ResourceAddr = rn_Address (gn_Resource node),
           me_ResourceType = rn_Type (gn_Resource node),
           me_Reason = ''no mapper registered for resource type'',
           me_IsCritical = False\<rparr> \<in> set (dr_MappingErrors r)
         \<and> rn_Type (gn_Resource node) \<in> set (dr_UncoveredTypes r)
         \<and> rn_Type (gn_Resource node) \<notin> set (dr_CoveredTypes r)
         \<and> (distinct (map (\<lambda>n. rn_Address (gn_Resource n)) exampleGraph) \<longrightarrow>
               rn_Address (gn_Resource node) \<notin> bc_ResourceAddr ` set (dr_Components r))"
    using decompose_records_unmapped_resource[OF p p, of exampleBillingEngine exampleGraph] r
    by (auto split: sum.splits)
  from main n u d have "\<lparr>me_ResourceAddr = rn_Address (gn_Resource ?node),
        me_ResourceType = rn_Type (gn_Resource ?node),
        me_Reason = ''no mapper registered for resource type'', me_IsCritical = False\<rparr>
        \<in> set (dr_MappingErrors r)
      \<and> rn_Type (gn_Resource ?node) \<in> set (dr_UncoveredTypes r)
      \<and> rn_Type (gn_Resource ?node) \<notin> set (dr_CoveredTypes r)
      \<and> rn_Address (gn_Resource ?node) \<notin> bc_ResourceAddr ` set (dr_Components r)"
    by blast
  then have c1: "\<lparr>me_ResourceAddr = ''aws_sqs_queue.jobs'',
        me_ResourceType = ''aws_sqs_queue'',
        me_Reason = ''no mapper registered for resource type'', me_IsCritical = False\<rparr>
        \<in> set (dr_MappingErrors r)
      \<and> ''aws_sqs_queue'' \<in> set (dr_UncoveredTypes r)
      \<and> ''aws_sqs_queue'' \<notin> set (dr_CoveredTypes r)
      \<and> ''aws_sqs_queue.jobs'' \<notin> bc_ResourceAddr ` set (dr_Components r)"
    by (simp add: addr type)
  have c2: "map bc_ResourceAddr (dr_Components r) = [''aws_instance.web'']
      \<and> dr_UncoveredTypes r = [''aws_sqs_queue'']
      \<and> dr_CoveredTypes r = [''aws_instance'']"
    using r unfolding example_graph_result by auto
  from p n u d c1 c2 show ?thesis unfolding r by simp
qed
subsection \<open>Catalog ingestion\<close>



































end
